theory Spec2Isabelle
  imports Complex_Main
begin

section \<open>Outcomes of a run\<close>

text \<open>
  The two modules \<^verbatim>\<open>theory/Sphere.py\<close> (NumPy, interpreted) and
  \<^verbatim>\<open>theory/FastSphere.py\<close> (the same recurrence, compiled by Numba in nopython
  mode) compute Lorenz-Mie coefficients in double precision.  The embedding below
  idealises IEEE arithmetic as exact arithmetic on \<^typ>\<open>real\<close> and \<^typ>\<open>complex\<close>:
  rounding, overflow and underflow are not modelled.  What exact arithmetic cannot
  express, a division by zero, is written out the way the source behaves there:

  \<^item> a division of Python floats, and a scalar division inside a Numba kernel (error
    model \<^verbatim>\<open>python\<close>, the default of \<^verbatim>\<open>@jit\<close>), raises \<^verbatim>\<open>ZeroDivisionError\<close>;
  \<^item> a division of NumPy scalars or arrays does not raise: it stores an infinity or
    a NaN and the run goes on.  The embedding stops there with \<open>Beyond NonFinite\<close>:
    from that operation on the run is not described;
  \<^item> an index past the end of a list or array raises \<^verbatim>\<open>IndexError\<close> in interpreted
    code; the compiled kernel does not check bounds, and the embedding stops with
    \<open>Beyond UncheckedRead\<close>.
\<close>

datatype exn = ZeroDivisionError | ValueError | IndexError | TypeError

datatype gap = NonFinite | UncheckedRead

datatype 'a run = Returns 'a | Raises exn | Beyond gap

fun thn :: "'a run \<Rightarrow> ('a \<Rightarrow> 'b run) \<Rightarrow> 'b run" where
  "thn (Returns v) f = f v"
| "thn (Raises e) f = Raises e"
| "thn (Beyond g) f = Beyond g"

fun foldM :: "('a \<Rightarrow> 's \<Rightarrow> 's run) \<Rightarrow> 'a list \<Rightarrow> 's \<Rightarrow> 's run" where
  "foldM f [] s = Returns s"
| "foldM f (x # xs) s = thn (f x s) (foldM f xs)"

fun returns :: "'a run \<Rightarrow> bool" where
  "returns (Returns v) = True"
| "returns (Raises e) = False"
| "returns (Beyond g) = False"

fun raises :: "'a run \<Rightarrow> bool" where
  "raises (Returns v) = False"
| "raises (Raises e) = True"
| "raises (Beyond g) = False"

section \<open>Scalars and one-dimensional arrays\<close>

text \<open>Division of Python floats, and scalar division compiled by Numba.\<close>

definition py_div :: "'a::field \<Rightarrow> 'a \<Rightarrow> 'a run" where
  "py_div a b = (if b = 0 then Raises ZeroDivisionError else Returns (a / b))"

text \<open>Division of NumPy scalars.\<close>

definition np_div :: "'a::field \<Rightarrow> 'a \<Rightarrow> 'a run" where
  "np_div a b = (if b = 0 then Beyond NonFinite else Returns (a / b))"

text \<open>
  NumPy broadcasting of a binary operation over two one-dimensional arrays: equal
  lengths go elementwise, an array of length one is stretched, anything else is a
  \<^verbatim>\<open>ValueError\<close>.
\<close>

definition np_broadcast :: "('a \<Rightarrow> 'b \<Rightarrow> 'c) \<Rightarrow> 'a list \<Rightarrow> 'b list \<Rightarrow> 'c list run" where
  "np_broadcast f xs ys =
     (if length xs = length ys then Returns (map2 f xs ys)
      else if length xs = 1 then Returns (map (f (hd xs)) ys)
      else if length ys = 1 then Returns (map (\<lambda>x. f x (hd ys)) xs)
      else Raises ValueError)"

text \<open>\<^verbatim>\<open>np.roll(x, -1)\<close> and \<^verbatim>\<open>np.roll(x, 1)\<close>.\<close>

definition np_roll_m1 :: "'a list \<Rightarrow> 'a list" where
  "np_roll_m1 xs = (case xs of [] \<Rightarrow> [] | y # ys \<Rightarrow> ys @ [y])"

definition np_roll_1 :: "'a list \<Rightarrow> 'a list" where
  "np_roll_1 xs = (if xs = [] then [] else last xs # butlast xs)"

text \<open>\<^verbatim>\<open>a.max()\<close>: the reduction of an empty array raises \<^verbatim>\<open>ValueError\<close>.\<close>

definition np_amax :: "real list \<Rightarrow> real run" where
  "np_amax xs = (case xs of [] \<Rightarrow> Raises ValueError | y # ys \<Rightarrow> Returns (fold max ys y))"

text \<open>\<^verbatim>\<open>int(r)\<close> truncates towards zero.\<close>

definition py_int :: "real \<Rightarrow> int" where
  "py_int r = (if 0 \<le> r then \<lfloor>r\<rfloor> else \<lceil>r\<rceil>)"

section \<open>The truncation selector\<close>

text \<open>
  The block headed \<^verbatim>\<open># Wiscombe (1980)\<close>, the same in both modules;
  \<^verbatim>\<open>xl**(1./3.)\<close> is the real power.
\<close>

definition wiscombe :: "real \<Rightarrow> real" where
  "wiscombe xl =
     (if xl \<le> 8 then of_int \<lfloor>xl + 4 * xl powr (1 / 3) + 1\<rfloor>
      else if xl \<le> 4200 then of_int \<lfloor>xl + 4.05 * xl powr (1 / 3) + 2\<rfloor>
      else of_int \<lfloor>xl + 4 * xl powr (1 / 3) + 2\<rfloor>)"

text \<open>\<^verbatim>\<open>x * m\<close> for a real array \<open>x\<close> and a complex array \<open>m\<close>.\<close>

definition times_xm :: "real list \<Rightarrow> complex list \<Rightarrow> complex list run" where
  "times_xm x m = np_broadcast (\<lambda>a b. of_real a * b) x m"

subsection \<open>FastSphere.py\<close>

text \<open>
  \<^verbatim>\<open>wiscombe_yang\<close> of FastSphere.py.  The kernel is compiled without bounds checks,
  so \<^verbatim>\<open>x[-1]\<close> of an empty array reads whatever precedes it; the products are empty
  then and the reduction \<^verbatim>\<open>xm.max()\<close> raises \<^verbatim>\<open>ValueError\<close> whatever was read.
  The builtin \<^verbatim>\<open>max\<close> of three floats is the mathematical maximum.
\<close>

definition FastSphere_wiscombe_yang :: "real list \<Rightarrow> complex list \<Rightarrow> int run" where
  "FastSphere_wiscombe_yang x m =
     (if x = [] then thn (times_xm x m) (\<lambda>_. Raises ValueError)
      else
        let xl = \<bar>last x\<bar>;
            ns = wiscombe xl
        in thn (times_xm x m) (\<lambda>xm.
           thn (times_xm (np_roll_m1 x) m) (\<lambda>xm_1.
           thn (np_amax (map cmod xm)) (\<lambda>a.
           thn (np_amax (map cmod xm_1)) (\<lambda>b.
           Returns (py_int (max (max ns a) b)))))))"

subsection \<open>Sphere.py\<close>

text \<open>
  \<^verbatim>\<open>wiscombe_yang\<close> of Sphere.py hands the float \<open>ns\<close> and the two arrays themselves
  to Python's builtin \<^verbatim>\<open>max\<close>.  The builtin keeps its first argument and replaces
  it by a later one when \<^verbatim>\<open>item > maxitem\<close> is true; on an array the comparison is
  elementwise, and the truth value of an array with more than one element raises
  \<^verbatim>\<open>ValueError\<close> (an empty one counts as false).  \<^verbatim>\<open>int\<close> accepts a float or an
  array of one element.
\<close>

datatype npval = Scalar real | Array "real list"

datatype nptruth = Truth bool | Truths "bool list"

fun np_gt :: "npval \<Rightarrow> npval \<Rightarrow> nptruth run" where
  "np_gt (Scalar a) (Scalar b) = Returns (Truth (a > b))"
| "np_gt (Array as) (Scalar b) = Returns (Truths (map (\<lambda>a. a > b) as))"
| "np_gt (Scalar a) (Array bs) = Returns (Truths (map (\<lambda>b. a > b) bs))"
| "np_gt (Array as) (Array bs) =
     thn (np_broadcast (\<lambda>a b. a > b) as bs) (\<lambda>t. Returns (Truths t))"

fun py_bool :: "nptruth \<Rightarrow> bool run" where
  "py_bool (Truth b) = Returns b"
| "py_bool (Truths []) = Returns False"
| "py_bool (Truths [b]) = Returns b"
| "py_bool (Truths (b # c # bs)) = Raises ValueError"

definition py_max_step :: "npval \<Rightarrow> npval \<Rightarrow> npval run" where
  "py_max_step item maxitem =
     thn (np_gt item maxitem) (\<lambda>t.
     thn (py_bool t) (\<lambda>b.
     Returns (if b then item else maxitem)))"

definition py_max :: "npval \<Rightarrow> npval list \<Rightarrow> npval run" where
  "py_max first rest = foldM py_max_step rest first"

fun py_int_of :: "npval \<Rightarrow> int run" where
  "py_int_of (Scalar r) = Returns (py_int r)"
| "py_int_of (Array [r]) = Returns (py_int r)"
| "py_int_of (Array rs) = Raises TypeError"

text \<open>Here \<open>x\<close> is a Python list, so \<^verbatim>\<open>x[-1]\<close> of an empty one raises \<^verbatim>\<open>IndexError\<close>.\<close>

definition Sphere_wiscombe_yang :: "real list \<Rightarrow> complex list \<Rightarrow> int run" where
  "Sphere_wiscombe_yang x m =
     (if x = [] then Raises IndexError
      else
        let xl = \<bar>last x\<bar>;
            ns = wiscombe xl
        in thn (times_xm x m) (\<lambda>xm.
           thn (times_xm (np_roll_m1 x) m) (\<lambda>xm_1.
           thn (py_max (Scalar ns) [Array (map cmod xm), Array (map cmod xm_1)]) (\<lambda>nstop.
           py_int_of nstop))))"

subsection \<open>The selector as the specification words it\<close>

text \<open>
  Section 4.1 of the specification: the Wiscombe rule on \<open>xl = |x[-1]|\<close>, the
  products \<open>xm\<^sub>j = |x\<^sub>j m\<^sub>j|\<close> and \<open>xm'\<^sub>j = |x\<^bsub>(j+1) mod L\<^esub> m\<^sub>j|\<close>, and the floor of
  the largest of them all.
\<close>

definition spec_ns :: "real \<Rightarrow> int" where
  "spec_ns xl =
     (if xl \<le> 8 then \<lfloor>xl + 4 * xl powr (1 / 3) + 1\<rfloor>
      else if xl \<le> 4200 then \<lfloor>xl + 4.05 * xl powr (1 / 3) + 2\<rfloor>
      else \<lfloor>xl + 4 * xl powr (1 / 3) + 2\<rfloor>)"

definition spec_xm :: "real list \<Rightarrow> complex list \<Rightarrow> nat \<Rightarrow> real" where
  "spec_xm x m j = cmod (of_real (x ! j) * m ! j)"

definition spec_xm' :: "real list \<Rightarrow> complex list \<Rightarrow> nat \<Rightarrow> real" where
  "spec_xm' x m j = cmod (of_real (x ! (Suc j mod length x)) * m ! j)"

definition spec_select :: "real list \<Rightarrow> complex list \<Rightarrow> int" where
  "spec_select x m =
     \<lfloor>Max (insert (of_int (spec_ns \<bar>last x\<bar>))
            (spec_xm x m ` {..<length x} \<union> spec_xm' x m ` {..<length x}))\<rfloor>"

section \<open>The coefficient recursion\<close>

type_synonym carray = "complex list"

type_synonym table = "(complex \<times> complex) list"

text \<open>
  Indexing.  An interpreted index past the end raises \<^verbatim>\<open>IndexError\<close>; the compiled
  kernel reads without a check.  \<open>x[-1]\<close> is the last element.
\<close>

definition py_at :: "'a list \<Rightarrow> nat \<Rightarrow> 'a run" where
  "py_at xs i = (if i < length xs then Returns (xs ! i) else Raises IndexError)"

definition nb_at :: "'a list \<Rightarrow> nat \<Rightarrow> 'a run" where
  "nb_at xs i = (if i < length xs then Returns (xs ! i) else Beyond UncheckedRead)"

definition py_last :: "'a list \<Rightarrow> 'a run" where
  "py_last xs = (if xs = [] then Raises IndexError else Returns (last xs))"

definition nb_last :: "'a list \<Rightarrow> 'a run" where
  "nb_last xs = (if xs = [] then Beyond UncheckedRead else Returns (last xs))"

text \<open>
  \<^verbatim>\<open>np.empty\<close> hands out cells of unspecified content: whatever the memory held.
  The content is a parameter of the embedding, \<open>u i\<close> for cell \<open>i\<close> of the block, so that
  what is proved of a run holds whatever the allocator returned.  An array of shape
  \<open>[n, 2]\<close> lies row by row: row \<open>i\<close> is cells \<open>2 i\<close> and \<open>2 i + 1\<close>.
\<close>

definition np_empty :: "(nat \<Rightarrow> complex) \<Rightarrow> nat \<Rightarrow> carray" where
  "np_empty u n = map u [0..<n]"

definition np_empty2 :: "(nat \<Rightarrow> complex) \<Rightarrow> nat \<Rightarrow> table" where
  "np_empty2 u n = map (\<lambda>i. (u (2 * i), u (2 * i + 1))) [0..<n]"

text \<open>A memory in which no cell is zero, for the examples.\<close>

definition used_memory :: "nat \<Rightarrow> nat \<Rightarrow> complex" where
  "used_memory k i = of_nat (k + i) + \<i>"

text \<open>Arithmetic on whole arrays; a division by a zero element leaves the model.\<close>

definition np_scale :: "complex \<Rightarrow> carray \<Rightarrow> carray" where
  "np_scale c xs = map (\<lambda>v. c * v) xs"

definition np_add :: "carray \<Rightarrow> carray \<Rightarrow> carray run" where
  "np_add xs ys = np_broadcast (\<lambda>a b. a + b) xs ys"

definition np_sub :: "carray \<Rightarrow> carray \<Rightarrow> carray run" where
  "np_sub xs ys = np_broadcast (\<lambda>a b. a - b) xs ys"

definition np_mul :: "carray \<Rightarrow> carray \<Rightarrow> carray run" where
  "np_mul xs ys = np_broadcast (\<lambda>a b. a * b) xs ys"

definition np_quot :: "carray \<Rightarrow> carray \<Rightarrow> carray run" where
  "np_quot xs ys =
     thn (np_broadcast Pair xs ys) (\<lambda>ps.
     if list_ex (\<lambda>p. snd p = 0) ps then Beyond NonFinite
     else Returns (map (\<lambda>p. fst p / snd p) ps))"

definition np_div_scalar :: "carray \<Rightarrow> complex \<Rightarrow> carray run" where
  "np_div_scalar xs c =
     (if c = 0 \<and> xs \<noteq> [] then Beyond NonFinite else Returns (map (\<lambda>v. v / c) xs))"

subsection \<open>The steps both modules share\<close>

text \<open>
  Eq. (16b), one step of the downward recurrence
  \<^verbatim>\<open>d1[n-1] = n/z - 1./(d1[n] + n/z)\<close>.  The division \<open>dv\<close> is \<open>py_div\<close> in the
  compiled kernel and \<open>np_div\<close> in Sphere.py.  The source evaluates \<^verbatim>\<open>n/z\<close> twice,
  with the same result.
\<close>

definition eq16b :: "(complex \<Rightarrow> complex \<Rightarrow> complex run) \<Rightarrow> complex \<Rightarrow> nat \<Rightarrow> carray \<Rightarrow> carray run" where
  "eq16b dv z n d1 =
     thn (dv (of_nat n) z) (\<lambda>t.
     thn (dv 1 (d1 ! n + t)) (\<lambda>u.
     Returns (d1[n - 1 := t - u])))"

text \<open>
  The loop \<^verbatim>\<open>for n in range(hi, 0, -1)\<close> over Eq. (16b); \<open>hi\<close> is \<open>nmax\<close> in
  FastSphere.py and \<open>nmax + 1\<close> in Sphere.py.
\<close>

definition d1_loop :: "(complex \<Rightarrow> complex \<Rightarrow> complex run) \<Rightarrow> complex \<Rightarrow> nat \<Rightarrow> carray \<Rightarrow> carray run" where
  "d1_loop dv z hi d1 = foldM (eq16b dv z) (rev [1..<Suc hi]) d1"

text \<open>
  One pass of the upward loop of the last phase, Eqs. (20b), (21b), (18c), (18d):
  \<^verbatim>\<open>psi[n] = psi[n-1] * (n/z1 - d1_z1[n-1])\<close>,
  \<^verbatim>\<open>zeta[n] = zeta[n-1] * (n/z1 - d3_z1[n-1])\<close>,
  \<^verbatim>\<open>psizeta *= (n/z1 - d1_z1[n-1]) * (n/z1 - d3_z1[n-1])\<close>,
  \<^verbatim>\<open>d3_z1[n] = d1_z1[n] + 1.j/psizeta\<close>.
\<close>

definition medium_step ::
  "(complex \<Rightarrow> complex \<Rightarrow> complex run) \<Rightarrow> complex \<Rightarrow> carray \<Rightarrow> nat \<Rightarrow>
   carray \<times> carray \<times> complex \<times> carray \<Rightarrow> (carray \<times> carray \<times> complex \<times> carray) run" where
  "medium_step dv z1 d1_z1 n = (\<lambda>(psi, zeta, psizeta, d3_z1).
     thn (dv (of_nat n) z1) (\<lambda>t.
     let psi = psi[n := psi ! (n - 1) * (t - d1_z1 ! (n - 1))];
         zeta = zeta[n := zeta ! (n - 1) * (t - d3_z1 ! (n - 1))];
         psizeta = psizeta * ((t - d1_z1 ! (n - 1)) * (t - d3_z1 ! (n - 1)))
     in thn (dv \<i> psizeta) (\<lambda>u.
        Returns (psi, zeta, psizeta, d3_z1[n := d1_z1 ! n + u]))))"

text \<open>
  \<^verbatim>\<open># iterate into medium\<close>: the downward recurrence at \<open>z1 = x[-1]\<close>, then \<open>psi\<close> and
  \<open>zeta\<close> upward from \<^verbatim>\<open>psi[0] = sin(z1)\<close>, \<^verbatim>\<open>zeta[0] = -1.j * exp(1.j * z1)\<close> and
  \<^verbatim>\<open>psizeta = 0.5 * (1. - exp(2.j * z1))\<close>.
\<close>

definition medium ::
  "(complex \<Rightarrow> complex \<Rightarrow> complex run) \<Rightarrow> (real list \<Rightarrow> real run) \<Rightarrow> real list \<Rightarrow> nat \<Rightarrow> nat \<Rightarrow>
   carray \<Rightarrow> carray \<Rightarrow> carray \<Rightarrow> carray \<Rightarrow> (carray \<times> carray) run" where
  "medium dv lst x hi nmax d1_z1 d3_z1 psi zeta =
     thn (lst x) (\<lambda>xl.
     let z1 = complex_of_real xl
     in thn (d1_loop dv z1 hi d1_z1) (\<lambda>d1_z1.
        let psi = psi[0 := sin z1];
            zeta = zeta[0 := - \<i> * exp (\<i> * z1)];
            psizeta = 0.5 * (1 - exp (2 * \<i> * z1))
        in thn (foldM (medium_step dv z1 d1_z1) [1..<Suc nmax] (psi, zeta, psizeta, d3_z1))
             (\<lambda>(psi, zeta, psizeta, d3_z1).
           Returns (psi, zeta))))"

text \<open>
  Eqs. (12), (13), (7b) for \<open>ha\<close> with \<open>c1 = m[ii]\<close>, \<open>c2 = m[ii-1]\<close>, and Eqs. (14),
  (15), (8b) for \<open>hb\<close> with the two exchanged:
  \<^verbatim>\<open>g1 = c1 * h - c2 * d1_z2\<close>, \<^verbatim>\<open>g2 = c1 * h - c2 * d3_z2\<close>,
  \<^verbatim>\<open>h = (g2 * d1_z1 - q * g1 * d3_z1) / (g2 - q * g1)\<close>, all on whole arrays.
\<close>

definition update_h ::
  "complex \<Rightarrow> complex \<Rightarrow> carray \<Rightarrow> carray \<Rightarrow> carray \<Rightarrow> carray \<Rightarrow> carray \<Rightarrow> carray \<Rightarrow> carray run" where
  "update_h c1 c2 h d1_z1 d1_z2 d3_z1 d3_z2 q =
     thn (np_sub (np_scale c1 h) (np_scale c2 d1_z2)) (\<lambda>g1.
     thn (np_sub (np_scale c1 h) (np_scale c2 d3_z2)) (\<lambda>g2.
     thn (np_mul g2 d1_z1) (\<lambda>g2d1.
     thn (np_mul q g1) (\<lambda>qg1.
     thn (np_mul qg1 d3_z1) (\<lambda>qg1d3.
     thn (np_sub g2d1 qg1d3) (\<lambda>num.
     thn (np_sub g2 qg1) (\<lambda>den.
     np_quot num den)))))))"

text \<open>
  Eqs. (5) and (6):
  \<^verbatim>\<open>(fac*psi - np.roll(psi, 1)) / (fac*zeta - np.roll(zeta, 1))\<close>.
\<close>

definition eq5 :: "carray \<Rightarrow> carray \<Rightarrow> carray \<Rightarrow> carray run" where
  "eq5 fac psi zeta =
     thn (np_mul fac psi) (\<lambda>fpsi.
     thn (np_sub fpsi (np_roll_1 psi)) (\<lambda>num.
     thn (np_mul fac zeta) (\<lambda>fzeta.
     thn (np_sub fzeta (np_roll_1 zeta)) (\<lambda>den.
     np_quot num den))))"

text \<open>\<^verbatim>\<open>ab[:, 0] = col\<close> and \<^verbatim>\<open>ab[:, 1] = col\<close>.\<close>

definition set_column0 :: "carray \<Rightarrow> table \<Rightarrow> table run" where
  "set_column0 col ab =
     thn (np_broadcast (\<lambda>c row. (c, snd row)) col ab) (\<lambda>ab'.
     if length ab' = length ab then Returns ab' else Raises ValueError)"

definition set_column1 :: "carray \<Rightarrow> table \<Rightarrow> table run" where
  "set_column1 col ab =
     thn (np_broadcast (\<lambda>c row. (fst row, c)) col ab) (\<lambda>ab'.
     if length ab' = length ab then Returns ab' else Raises ValueError)"

text \<open>
  \<^verbatim>\<open># Scattering coefficients\<close>: \<^verbatim>\<open>fac = ha/m[-1] + n/x[-1]\<close> for the first column,
  \<^verbatim>\<open>fac = hb*m[-1] + n/x[-1]\<close> for the second, and \<^verbatim>\<open>ab[0, :] = complex(0., 0.)\<close>
  at the end.
\<close>

definition scattering_coefficients ::
  "(real list \<Rightarrow> real run) \<Rightarrow> (complex list \<Rightarrow> complex run) \<Rightarrow> real list \<Rightarrow> complex list \<Rightarrow> nat \<Rightarrow>
   carray \<Rightarrow> carray \<Rightarrow> carray \<Rightarrow> carray \<Rightarrow> table \<Rightarrow> table run" where
  "scattering_coefficients lstx lstm x m nmax ha hb psi zeta ab =
     (let n = map of_nat [0..<Suc nmax]
      in thn (lstm m) (\<lambda>ml.
         thn (np_div_scalar ha ml) (\<lambda>ham.
         thn (lstx x) (\<lambda>xl.
         thn (np_div_scalar n (complex_of_real xl)) (\<lambda>nx.
         thn (np_add ham nx) (\<lambda>fac.
         thn (eq5 fac psi zeta) (\<lambda>a.
         thn (set_column0 a ab) (\<lambda>ab.
         thn (np_add (np_scale ml hb) nx) (\<lambda>fac.
         thn (eq5 fac psi zeta) (\<lambda>b.
         thn (set_column1 b ab) (\<lambda>ab.
         Returns (ab[0 := (0, 0)]))))))))))))"

subsection \<open>FastSphere.py\<close>

text \<open>
  \<^verbatim>\<open># iterate outward from the sphere's core\<close>: \<open>z1 = x[0] * m[0]\<close>, the downward
  recurrence from \<open>n = nmax\<close>, and \<^verbatim>\<open>ha = d1_z1.copy()\<close>, \<^verbatim>\<open>hb = d1_z1.copy()\<close>.
  The result is \<open>(d1_z1, ha, hb)\<close>.
\<close>

definition FastSphere_core ::
  "real list \<Rightarrow> complex list \<Rightarrow> nat \<Rightarrow> carray \<Rightarrow> (carray \<times> carray \<times> carray) run" where
  "FastSphere_core x m nmax d1_z1 =
     thn (nb_at x 0) (\<lambda>x0.
     thn (nb_at m 0) (\<lambda>m0.
     let z1 = complex_of_real x0 * m0
     in thn (d1_loop py_div z1 nmax d1_z1) (\<lambda>d1_z1.
        Returns (d1_z1, d1_z1, d1_z1))))"

text \<open>The downward loop of a layer runs Eq. (16b) at \<open>z1\<close> and at \<open>z2\<close> in the same pass.\<close>

definition eq16b_pair ::
  "(complex \<Rightarrow> complex \<Rightarrow> complex run) \<Rightarrow> complex \<Rightarrow> complex \<Rightarrow> nat \<Rightarrow>
   carray \<times> carray \<Rightarrow> (carray \<times> carray) run" where
  "eq16b_pair dv z1 z2 n = (\<lambda>(d1_z1, d1_z2).
     thn (eq16b dv z1 n d1_z1) (\<lambda>d1_z1.
     thn (eq16b dv z2 n d1_z2) (\<lambda>d1_z2.
     Returns (d1_z1, d1_z2))))"

text \<open>
  One pass of the upward loop of a layer, Eqs. (18c), (18d), (19b).  FastSphere.py
  takes \<open>d3_z2[n-1]\<close> and \<open>d3_z1[n-1]\<close> in the last factor of \<open>q[n]\<close>.  Python reads
  \<^verbatim>\<open>q[n-1] * r**2 * A / B * C / D\<close> from the left: \<open>((((q[n-1] r\<^sup>2) A) / B) C) / D\<close>.
\<close>

definition FastSphere_layer_step ::
  "real \<Rightarrow> real \<Rightarrow> complex \<Rightarrow> complex \<Rightarrow> carray \<Rightarrow> carray \<Rightarrow> nat \<Rightarrow>
   complex \<times> complex \<times> carray \<times> carray \<times> carray \<Rightarrow>
   (complex \<times> complex \<times> carray \<times> carray \<times> carray) run" where
  "FastSphere_layer_step x_im x_ii z1 z2 d1_z1 d1_z2 n = (\<lambda>(psizeta_z1, psizeta_z2, d3_z1, d3_z2, q).
     thn (py_div (of_nat n) z1) (\<lambda>t1.
     let psizeta_z1 = psizeta_z1 * ((t1 - d1_z1 ! (n - 1)) * (t1 - d3_z1 ! (n - 1)))
     in thn (py_div (of_nat n) z2) (\<lambda>t2.
     let psizeta_z2 = psizeta_z2 * ((t2 - d1_z2 ! (n - 1)) * (t2 - d3_z2 ! (n - 1)))
     in thn (py_div \<i> psizeta_z1) (\<lambda>u1.
     let d3_z1 = d3_z1[n := d1_z1 ! n + u1]
     in thn (py_div \<i> psizeta_z2) (\<lambda>u2.
     let d3_z2 = d3_z2[n := d1_z2 ! n + u2]
     in thn (py_div x_im x_ii) (\<lambda>r.
        thn (py_div (q ! (n - 1) * complex_of_real (r\<^sup>2) * (z2 * d1_z2 ! n + of_nat n))
                    (z1 * d1_z1 ! n + of_nat n)) (\<lambda>qa.
        thn (py_div (qa * (of_nat n - z2 * d3_z2 ! (n - 1)))
                    (of_nat n - z1 * d3_z1 ! (n - 1))) (\<lambda>qn.
        Returns (psizeta_z1, psizeta_z2, d3_z1, d3_z2, q[n := qn])))))))))"

text \<open>
  The body of \<^verbatim>\<open>for ii in range(1, nlayers)\<close>, with \<open>z1 = m[ii] * x[ii]\<close> and
  \<open>z2 = m[ii] * x[ii-1]\<close>.  The state is \<open>(d1_z1, d1_z2, d3_z1, d3_z2, q, ha, hb)\<close>.
\<close>

definition FastSphere_layer ::
  "real list \<Rightarrow> complex list \<Rightarrow> nat \<Rightarrow> nat \<Rightarrow>
   carray \<times> carray \<times> carray \<times> carray \<times> carray \<times> carray \<times> carray \<Rightarrow>
   (carray \<times> carray \<times> carray \<times> carray \<times> carray \<times> carray \<times> carray) run" where
  "FastSphere_layer x m nmax ii = (\<lambda>(d1_z1, d1_z2, d3_z1, d3_z2, q, ha, hb).
     thn (nb_at m ii) (\<lambda>m_ii.
     thn (nb_at x ii) (\<lambda>x_ii.
     thn (nb_at x (ii - 1)) (\<lambda>x_im.
     thn (nb_at m (ii - 1)) (\<lambda>m_im.
     let z1 = m_ii * complex_of_real x_ii;
         z2 = m_ii * complex_of_real x_im
     in thn (foldM (eq16b_pair py_div z1 z2) (rev [1..<Suc nmax]) (d1_z1, d1_z2)) (\<lambda>(d1_z1, d1_z2).
        let a1 = Re z1; b1 = Im z1; a2 = Re z2; b2 = Im z2;
            psizeta_z1 = 0.5 * (1 - exp (2 * \<i> * complex_of_real a1) * complex_of_real (exp (- 2 * b1)));
            psizeta_z2 = 0.5 * (1 - exp (2 * \<i> * complex_of_real a2) * complex_of_real (exp (- 2 * b2)))
        in thn (py_div (exp (- 2 * \<i> * complex_of_real a1) - complex_of_real (exp (- 2 * b1)))
                       (exp (- 2 * \<i> * complex_of_real a2) - complex_of_real (exp (- 2 * b2)))) (\<lambda>q0.
           let q = q[0 := q0 * complex_of_real (exp (- 2 * (b2 - b1)))]
           in thn (foldM (FastSphere_layer_step x_im x_ii z1 z2 d1_z1 d1_z2) [1..<Suc nmax]
                     (psizeta_z1, psizeta_z2, d3_z1, d3_z2, q))
                (\<lambda>(psizeta_z1, psizeta_z2, d3_z1, d3_z2, q).
              thn (update_h m_ii m_im ha d1_z1 d1_z2 d3_z1 d3_z2 q) (\<lambda>ha.
              thn (update_h m_im m_ii hb d1_z1 d1_z2 d3_z1 d3_z2 q) (\<lambda>hb.
              Returns (d1_z1, d1_z2, d3_z1, d3_z2, q, ha, hb)))))))))))"

text \<open>
  \<^verbatim>\<open>_mie_coefficients\<close>, the compiled kernel.  Of \<open>a_p\<close> it uses the size only; the
  buffers come from the caller, each of \<open>nmax + 1\<close> cells.
\<close>

definition FastSphere__mie_coefficients ::
  "real list \<Rightarrow> real list \<Rightarrow> complex list \<Rightarrow> nat \<Rightarrow> table \<Rightarrow>
   carray \<Rightarrow> carray \<Rightarrow> carray \<Rightarrow> carray \<Rightarrow> carray \<Rightarrow> carray \<Rightarrow> carray \<Rightarrow> table run" where
  "FastSphere__mie_coefficients a_p x m nmax ab d1_z1 d1_z2 d3_z1 d3_z2 psi zeta q =
     (let d1_z1 = d1_z1[nmax := 0];
          d1_z2 = d1_z2[nmax := 0];
          d3_z1 = d3_z1[0 := \<i>];
          d3_z2 = d3_z2[0 := \<i>];
          nlayers = length a_p
      in thn (FastSphere_core x m nmax d1_z1) (\<lambda>(d1_z1, ha, hb).
         thn (foldM (FastSphere_layer x m nmax) [1..<nlayers] (d1_z1, d1_z2, d3_z1, d3_z2, q, ha, hb))
           (\<lambda>(d1_z1, d1_z2, d3_z1, d3_z2, q, ha, hb).
         thn (medium py_div nb_last x nmax nmax d1_z1 d3_z1 psi zeta) (\<lambda>(psi, zeta).
         scattering_coefficients nb_last nb_last x m nmax ha hb psi zeta ab))))"

text \<open>
  \<^verbatim>\<open>mie_coefficients\<close> of FastSphere.py.  \<open>a_p\<close>, \<open>n_p\<close> and \<open>k_p\<close> are arrays (a scalar
  argument is an array of one element after \<^verbatim>\<open>np.atleast_1d\<close>), \<open>n_m\<close> a Python
  complex and \<open>wavelength\<close> a Python float, so \<^verbatim>\<open>2.*np.pi/wavelength\<close> is a division
  of Python floats.  The call allocates eight arrays with \<^verbatim>\<open>np.empty\<close>, in the order
  \<open>ab\<close>, \<open>d1_z1\<close>, \<open>d1_z2\<close>, \<open>d3_z1\<close>, \<open>d3_z2\<close>, \<open>psi\<close>, \<open>zeta\<close>, \<open>q\<close>; \<open>mem k\<close> is
  what the \<open>k\<close>-th of them holds when it is handed out.
\<close>

definition FastSphere_mie_coefficients ::
  "(nat \<Rightarrow> nat \<Rightarrow> complex) \<Rightarrow> real list \<Rightarrow> complex list \<Rightarrow> real list \<Rightarrow> complex \<Rightarrow> real \<Rightarrow> table run" where
  "FastSphere_mie_coefficients mem a_p n_p k_p n_m wavelength =
     thn (py_div (2 * pi) wavelength) (\<lambda>k.
     let k = k * Re n_m;
         x = map (\<lambda>a. k * a) a_p
     in thn (np_broadcast (\<lambda>n \<kappa>. n + \<i> * complex_of_real \<kappa>) n_p k_p) (\<lambda>nk.
        thn (np_div_scalar nk n_m) (\<lambda>m.
        thn (FastSphere_wiscombe_yang x m) (\<lambda>nmax.
        let nmax = nat nmax
        in FastSphere__mie_coefficients a_p x m nmax
             (np_empty2 (mem 0) (nmax + 1))
             (np_empty (mem 1) (nmax + 1)) (np_empty (mem 2) (nmax + 1))
             (np_empty (mem 3) (nmax + 1)) (np_empty (mem 4) (nmax + 1))
             (np_empty (mem 5) (nmax + 1)) (np_empty (mem 6) (nmax + 1))
             (np_empty (mem 7) (nmax + 1))))))"

subsection \<open>Sphere.py\<close>

text \<open>
  \<^verbatim>\<open># iterate outward from the sphere's core\<close> in Sphere.py: \<open>d1_z1\<close> has \<open>nmax + 2\<close>
  cells, the recurrence starts at \<open>n = nmax + 1\<close>, and \<open>ha\<close> and \<open>hb\<close> are copies of
  \<^verbatim>\<open>d1_z1[0:-1]\<close>.
\<close>

definition Sphere_core ::
  "real list \<Rightarrow> complex list \<Rightarrow> nat \<Rightarrow> carray \<Rightarrow> (carray \<times> carray \<times> carray) run" where
  "Sphere_core x m nmax d1_z1 =
     thn (py_at x 0) (\<lambda>x0.
     thn (py_at m 0) (\<lambda>m0.
     let z1 = complex_of_real x0 * m0
     in thn (d1_loop np_div z1 (nmax + 1) d1_z1) (\<lambda>d1_z1.
        Returns (d1_z1, butlast d1_z1, butlast d1_z1))))"

text \<open>
  One pass of the upward loop of a layer in Sphere.py: the last factor of \<open>q[n]\<close>
  takes \<open>d3_z2[n]\<close> and \<open>d3_z1[n]\<close>.
\<close>

definition Sphere_layer_step ::
  "real \<Rightarrow> real \<Rightarrow> complex \<Rightarrow> complex \<Rightarrow> carray \<Rightarrow> carray \<Rightarrow> nat \<Rightarrow>
   complex \<times> complex \<times> carray \<times> carray \<times> carray \<Rightarrow>
   (complex \<times> complex \<times> carray \<times> carray \<times> carray) run" where
  "Sphere_layer_step x_im x_ii z1 z2 d1_z1 d1_z2 n = (\<lambda>(psizeta_z1, psizeta_z2, d3_z1, d3_z2, q).
     thn (np_div (of_nat n) z1) (\<lambda>t1.
     let psizeta_z1 = psizeta_z1 * ((t1 - d1_z1 ! (n - 1)) * (t1 - d3_z1 ! (n - 1)))
     in thn (np_div (of_nat n) z2) (\<lambda>t2.
     let psizeta_z2 = psizeta_z2 * ((t2 - d1_z2 ! (n - 1)) * (t2 - d3_z2 ! (n - 1)))
     in thn (np_div \<i> psizeta_z1) (\<lambda>u1.
     let d3_z1 = d3_z1[n := d1_z1 ! n + u1]
     in thn (np_div \<i> psizeta_z2) (\<lambda>u2.
     let d3_z2 = d3_z2[n := d1_z2 ! n + u2]
     in thn (np_div x_im x_ii) (\<lambda>r.
        thn (np_div (q ! (n - 1) * complex_of_real (r\<^sup>2) * (z2 * d1_z2 ! n + of_nat n))
                    (z1 * d1_z1 ! n + of_nat n)) (\<lambda>qa.
        thn (np_div (qa * (of_nat n - z2 * d3_z2 ! n))
                    (of_nat n - z1 * d3_z1 ! n)) (\<lambda>qn.
        Returns (psizeta_z1, psizeta_z2, d3_z1, d3_z2, q[n := qn])))))))))"

text \<open>
  The body of \<^verbatim>\<open>for ii in range(1, nlayers)\<close> in Sphere.py, with \<open>z1 = x[ii] * m[ii]\<close>,
  \<open>z2 = x[ii-1] * m[ii]\<close>, \<^verbatim>\<open>psizeta_z1 = 0.5 * (1. - exp(2.j * z1))\<close> and
  \<^verbatim>\<open>q[0] = (exp(-2.j*z2) - 1.)/(exp(-2.j*z1) - 1.)\<close>.  Here \<open>ha\<close> has \<open>nmax + 1\<close> cells
  and \<open>d1_z2\<close> has \<open>nmax + 2\<close>, which the array subtraction of Eq. (12) refuses.
\<close>

definition Sphere_layer ::
  "real list \<Rightarrow> complex list \<Rightarrow> nat \<Rightarrow> nat \<Rightarrow>
   carray \<times> carray \<times> carray \<times> carray \<times> carray \<times> carray \<times> carray \<Rightarrow>
   (carray \<times> carray \<times> carray \<times> carray \<times> carray \<times> carray \<times> carray) run" where
  "Sphere_layer x m nmax ii = (\<lambda>(d1_z1, d1_z2, d3_z1, d3_z2, q, ha, hb).
     thn (py_at x ii) (\<lambda>x_ii.
     thn (py_at m ii) (\<lambda>m_ii.
     thn (py_at x (ii - 1)) (\<lambda>x_im.
     thn (py_at m (ii - 1)) (\<lambda>m_im.
     let z1 = complex_of_real x_ii * m_ii;
         z2 = complex_of_real x_im * m_ii
     in thn (foldM (eq16b_pair np_div z1 z2) (rev [1..<Suc (nmax + 1)]) (d1_z1, d1_z2)) (\<lambda>(d1_z1, d1_z2).
        let psizeta_z1 = 0.5 * (1 - exp (2 * \<i> * z1));
            psizeta_z2 = 0.5 * (1 - exp (2 * \<i> * z2))
        in thn (np_div (exp (- 2 * \<i> * z2) - 1) (exp (- 2 * \<i> * z1) - 1)) (\<lambda>q0.
           let q = q[0 := q0]
           in thn (foldM (Sphere_layer_step x_im x_ii z1 z2 d1_z1 d1_z2) [1..<Suc nmax]
                     (psizeta_z1, psizeta_z2, d3_z1, d3_z2, q))
                (\<lambda>(psizeta_z1, psizeta_z2, d3_z1, d3_z2, q).
              thn (update_h m_ii m_im ha d1_z1 d1_z2 d3_z1 d3_z2 q) (\<lambda>ha.
              thn (update_h m_im m_ii hb d1_z1 d1_z2 d3_z1 d3_z2 q) (\<lambda>hb.
              Returns (d1_z1, d1_z2, d3_z1, d3_z2, q, ha, hb)))))))))))"

text \<open>
  \<^verbatim>\<open>mie_coefficients\<close> of Sphere.py.  \<open>x\<close> is a Python list, \<open>m\<close> an array;
  \<^verbatim>\<open>d1_z1[-1] = 0.j\<close> writes cell \<open>nmax + 1\<close>.  The eight arrays are allocated in the
  same order as in FastSphere.py, and \<open>mem k\<close> is what the \<open>k\<close>-th holds at first.
\<close>

definition Sphere_mie_coefficients ::
  "(nat \<Rightarrow> nat \<Rightarrow> complex) \<Rightarrow> real list \<Rightarrow> complex list \<Rightarrow> complex \<Rightarrow> real \<Rightarrow> table run" where
  "Sphere_mie_coefficients mem a_p n_p n_m wavelength =
     (let nlayers = length a_p
      in thn (py_div (2 * pi * Re n_m) wavelength) (\<lambda>k.
         let x = map (\<lambda>a_j. k * a_j) a_p
         in thn (np_div_scalar n_p n_m) (\<lambda>m.
            thn (Sphere_wiscombe_yang x m) (\<lambda>nmax.
            let nmax = nat nmax;
                ab = np_empty2 (mem 0) (nmax + 1);
                d1_z1 = (np_empty (mem 1) (nmax + 2))[nmax + 1 := 0];
                d1_z2 = (np_empty (mem 2) (nmax + 2))[nmax + 1 := 0];
                d3_z1 = (np_empty (mem 3) (nmax + 1))[0 := \<i>];
                d3_z2 = (np_empty (mem 4) (nmax + 1))[0 := \<i>];
                psi = np_empty (mem 5) (nmax + 1);
                zeta = np_empty (mem 6) (nmax + 1);
                q = np_empty (mem 7) (nmax + 1)
            in thn (Sphere_core x m nmax d1_z1) (\<lambda>(d1_z1, ha, hb).
               thn (foldM (Sphere_layer x m nmax) [1..<nlayers] (d1_z1, d1_z2, d3_z1, d3_z2, q, ha, hb))
                 (\<lambda>(d1_z1, d1_z2, d3_z1, d3_z2, q, ha, hb).
               thn (medium np_div py_last x (nmax + 1) nmax d1_z1 d3_z1 psi zeta) (\<lambda>(psi, zeta).
               scattering_coefficients py_last py_last x m nmax ha hb psi zeta ab)))))))"

section \<open>Vocabulary of the proofs\<close>

text \<open>Two runs that end the same way, with related results when they return.\<close>

fun alike :: "('a \<Rightarrow> 'b \<Rightarrow> bool) \<Rightarrow> 'a run \<Rightarrow> 'b run \<Rightarrow> bool" where
  "alike R (Returns u) (Returns v) = R u v"
| "alike R (Raises e) (Raises e') = (e = e')"
| "alike R (Beyond g) (Beyond g') = (g = g')"
| "alike R _ _ = False"

text \<open>The downward loop overwrites every cell below \<open>k\<close>: it sees the cells from \<open>k\<close> on only.\<close>

definition same_from :: "nat \<Rightarrow> 'a list \<Rightarrow> 'a list \<Rightarrow> bool" where
  "same_from k d e \<longleftrightarrow> length d = length e \<and> (\<forall>i. k \<le> i \<and> i < length d \<longrightarrow> d ! i = e ! i)"

section \<open>Properties of the selector\<close>

lemma wiscombe_spec_ns: "wiscombe xl = of_int (spec_ns xl)"
  by (simp add: wiscombe_def spec_ns_def)

lemma spec_ns_ge_1: "0 \<le> xl \<Longrightarrow> 1 \<le> spec_ns xl"
proof -
  assume h: "0 \<le> xl"
  have p: "0 \<le> xl powr (1 / 3)" by simp
  have a: "1 \<le> xl + 4 * xl powr (1 / 3) + 1" using h p by linarith
  have "0 \<le> 4.05 * xl powr (1 / 3)" using p by simp
  then have b: "1 \<le> xl + 4.05 * xl powr (1 / 3) + 2" using h by linarith
  have c: "1 \<le> xl + 4 * xl powr (1 / 3) + 2" using h p by linarith
  show ?thesis unfolding spec_ns_def using a b c by (simp add: le_floor_iff)
qed

lemma np_amax_Max: "xs \<noteq> [] \<Longrightarrow> np_amax xs = Returns (Max (set xs))"
  by (cases xs) (simp_all add: np_amax_def Max.set_eq_fold[symmetric])

lemma times_xm_same_length:
  "length m = length x \<Longrightarrow> times_xm x m = Returns (map2 (\<lambda>a b. of_real a * b) x m)"
  by (simp add: times_xm_def np_broadcast_def)

lemma np_roll_m1_rotate1: "np_roll_m1 xs = rotate1 xs"
  by (cases xs) (simp_all add: np_roll_m1_def)

lemma set_xm:
  assumes "length m = length x"
  shows "set (map cmod (map2 (\<lambda>a b. of_real a * b) x m)) = spec_xm x m ` {..<length x}"
proof -
  have "map cmod (map2 (\<lambda>a b. of_real a * b) x m) = map (spec_xm x m) [0..<length x]"
    using assms by (intro nth_equalityI) (simp_all add: spec_xm_def)
  then show ?thesis by (simp add: lessThan_atLeast0)
qed

lemma set_xm_1:
  assumes "length m = length x"
  shows "set (map cmod (map2 (\<lambda>a b. of_real a * b) (rotate1 x) m)) = spec_xm' x m ` {..<length x}"
proof -
  have "map cmod (map2 (\<lambda>a b. of_real a * b) (rotate1 x) m) = map (spec_xm' x m) [0..<length x]"
    using assms by (intro nth_equalityI) (simp_all add: spec_xm'_def nth_rotate1)
  then show ?thesis by (simp add: lessThan_atLeast0)
qed

lemma py_int_nonneg: "0 \<le> r \<Longrightarrow> py_int r = \<lfloor>r\<rfloor>"
  by (simp add: py_int_def)

lemma FastSphere_wiscombe_yang_spec:
  assumes "x \<noteq> []" "length m = length x"
  shows "FastSphere_wiscombe_yang x m = Returns (spec_select x m)"
proof -
  let ?A = "spec_xm x m ` {..<length x}" and ?B = "spec_xm' x m ` {..<length x}"
  let ?ns = "of_int (spec_ns \<bar>last x\<bar>) :: real"
  have ne: "?A \<noteq> {}" "?B \<noteq> {}" "finite ?A" "finite ?B" using assms by auto
  have mx: "max (max ?ns (Max ?A)) (Max ?B) = Max (insert ?ns (?A \<union> ?B))"
    using ne by (simp add: Max_Un max.assoc)
  have "1 \<le> ?ns" using spec_ns_ge_1[of "\<bar>last x\<bar>"] by simp
  then have "0 \<le> max (max ?ns (Max ?A)) (Max ?B)" by linarith
  then have pi: "py_int (max (max ?ns (Max ?A)) (Max ?B)) = spec_select x m"
    by (simp add: py_int_nonneg mx spec_select_def)
  have l2: "length m = length (rotate1 x)" using assms by simp
  have n1: "map cmod (map2 (\<lambda>a b. of_real a * b) x m) \<noteq> []" using assms by (cases x; cases m) simp_all
  have n2: "map cmod (map2 (\<lambda>a b. of_real a * b) (rotate1 x) m) \<noteq> []" using assms by (cases x; cases m) simp_all
  show ?thesis
    unfolding FastSphere_wiscombe_yang_def
    using assms pi
    by (simp add: times_xm_same_length[OF assms(2)] times_xm_same_length[OF l2] np_roll_m1_rotate1
        np_amax_Max[OF n1] np_amax_Max[OF n2] wiscombe_spec_ns
        set_xm[OF assms(2)] set_xm_1[OF assms(2)] Let_def del: set_map map_map)
qed

lemma py_bool_long: "2 \<le> length bs \<Longrightarrow> py_bool (Truths bs) = Raises ValueError"
proof -
  assume "2 \<le> length bs"
  then obtain b c cs where "bs = b # c # cs"
    by (cases bs; cases "tl bs") auto
  then show ?thesis by simp
qed

lemma times_xm_cases:
  "times_xm x m = Raises ValueError \<or> (\<exists>xm. times_xm x m = Returns xm \<and> (length xm = length x \<or> length x = 1))"
  by (simp add: times_xm_def np_broadcast_def)

lemma times_xm_not_beyond: "times_xm x m \<noteq> Beyond g"
  by (simp add: times_xm_def np_broadcast_def)

lemma py_max_long:
  "2 \<le> length xm \<Longrightarrow> py_max (Scalar ns) (Array xm # rest) = Raises ValueError"
  by (simp add: py_max_def py_max_step_def py_bool_long)

lemma Sphere_wiscombe_yang_multilayer:
  assumes "2 \<le> length x"
  shows "Sphere_wiscombe_yang x m = Raises ValueError"
proof -
  have ne: "x \<noteq> []" using assms by auto
  have l1: "length x \<noteq> 1" using assms by simp
  have lr: "length (np_roll_m1 x) = length x" by (simp add: np_roll_m1_rotate1)
  consider (a) "times_xm x m = Raises ValueError"
    | (b) xm where "times_xm x m = Returns xm" "length xm = length x"
    using times_xm_cases[of x m] l1 by blast
  then show ?thesis
  proof cases
    case a
    then show ?thesis using ne by (simp add: Sphere_wiscombe_yang_def)
  next
    case b
    consider (c) "times_xm (np_roll_m1 x) m = Raises ValueError"
      | (d) xm1 where "times_xm (np_roll_m1 x) m = Returns xm1"
      using times_xm_cases[of "np_roll_m1 x" m] by blast
    then show ?thesis
    proof cases
      case c
      then show ?thesis using ne b by (simp add: Sphere_wiscombe_yang_def)
    next
      case d
      have "2 \<le> length (map cmod xm)" using b assms by simp
      then show ?thesis using ne b d by (simp add: Sphere_wiscombe_yang_def py_max_long)
    qed
  qed
qed

lemma Sphere_wiscombe_yang_returns_single:
  assumes "Sphere_wiscombe_yang x m = Returns N"
  shows "length x = 1"
proof (rule ccontr)
  assume "length x \<noteq> 1"
  then consider "x = []" | "2 \<le> length x" by (cases x; cases "tl x") auto
  then show False
  proof cases
    case 1
    then show ?thesis using assms by (simp add: Sphere_wiscombe_yang_def)
  next
    case 2
    then show ?thesis using assms Sphere_wiscombe_yang_multilayer[of x m] by simp
  qed
qed

lemma Sphere_wiscombe_yang_single:
  "Sphere_wiscombe_yang [a] [b] = Returns (py_int (max (wiscombe \<bar>a\<bar>) (cmod (of_real a * b))))"
  by (simp add: Sphere_wiscombe_yang_def times_xm_def np_broadcast_def np_roll_m1_def
      py_max_def py_max_step_def Let_def max_def)

lemma FastSphere_wiscombe_yang_single:
  "FastSphere_wiscombe_yang [a] [b] = Returns (py_int (max (wiscombe \<bar>a\<bar>) (cmod (of_real a * b))))"
  by (simp add: FastSphere_wiscombe_yang_def times_xm_def np_broadcast_def np_roll_m1_def
      np_amax_def Let_def)

lemma Sphere_wiscombe_yang_spec:
  assumes "length x = 1" "length m = 1"
  shows "Sphere_wiscombe_yang x m = Returns (spec_select x m)"
proof -
  obtain a b where xm: "x = [a]" "m = [b]"
    using assms by (cases x; cases m) auto
  have "FastSphere_wiscombe_yang x m = Returns (spec_select x m)"
    using FastSphere_wiscombe_yang_spec[of x m] assms xm by auto
  then show ?thesis
    by (simp add: xm Sphere_wiscombe_yang_single FastSphere_wiscombe_yang_single)
qed

lemma cbrt_cube: "0 \<le> a \<Longrightarrow> (a ^ 3) powr (1 / 3) = (a::real)"
proof -
  assume h: "0 \<le> a"
  have "(a ^ 3) powr (1 / 3) = (a powr 3) powr (1 / 3)"
    using h by (simp only: powr_numeral)
  also have "\<dots> = a powr 1" by (simp add: powr_powr)
  also have "\<dots> = a" using h by simp
  finally show ?thesis .
qed

lemma cbrt_ge: "0 \<le> a \<Longrightarrow> a ^ 3 \<le> t \<Longrightarrow> (a::real) \<le> t powr (1 / 3)"
  using powr_mono2[of "1 / 3" "a ^ 3" t] by (simp add: cbrt_cube)

lemma cbrt_less: "0 \<le> a \<Longrightarrow> 0 \<le> t \<Longrightarrow> t < a ^ 3 \<Longrightarrow> t powr (1 / 3) < (a::real)"
  using powr_less_mono2[of "1 / 3" t "a ^ 3"] by (simp add: cbrt_cube)

lemma cbrt_mono: "0 \<le> t \<Longrightarrow> t \<le> t' \<Longrightarrow> t powr (1 / 3) \<le> t' powr (1 / (3::real))"
  by (rule powr_mono2) simp_all

lemma wiscombe_4200: "wiscombe 4200 = 4267"
proof -
  let ?c = "(4200::real) powr (1 / 3)"
  have lo: "(1605 / 100) \<le> ?c" by (rule cbrt_ge) (simp_all add: power3_eq_cube)
  have hi: "?c < 1629 / 100" by (rule cbrt_less) (simp_all add: power3_eq_cube)
  have "\<lfloor>4200 + 4.05 * ?c + 2\<rfloor> = 4267"
    using lo hi by (simp add: floor_eq_iff)
  then show ?thesis by (simp add: wiscombe_def)
qed

lemma wiscombe_4200_25: "wiscombe (16801 / 4) = 4266"
proof -
  let ?c = "(16801 / 4 :: real) powr (1 / 3)"
  have lo: "(159375 / 10000) \<le> ?c" by (rule cbrt_ge) (simp_all add: power3_eq_cube)
  have hi: "?c < 161875 / 10000" by (rule cbrt_less) (simp_all add: power3_eq_cube)
  have "\<lfloor>16801 / 4 + 4 * ?c + 2\<rfloor> = 4266"
    using lo hi by (simp add: floor_eq_iff)
  then show ?thesis by (simp add: wiscombe_def)
qed


lemma spec_select_ge_1: "1 \<le> spec_select x m"
proof -
  let ?S = "insert (of_int (spec_ns \<bar>last x\<bar>) :: real)
            (spec_xm x m ` {..<length x} \<union> spec_xm' x m ` {..<length x})"
  have "(1::real) \<le> of_int (spec_ns \<bar>last x\<bar>)" using spec_ns_ge_1[of "\<bar>last x\<bar>"] by simp
  also have "\<dots> \<le> Max ?S" by (rule Max_ge) simp_all
  finally show ?thesis by (simp add: spec_select_def le_floor_iff)
qed

lemma Max_shift_mono:
  fixes A B :: "real set"
  assumes "finite A" "finite B" "A \<noteq> {}" "\<And>a. a \<in> A \<Longrightarrow> \<exists>b\<in>B. a \<le> b + c"
  shows "Max A \<le> Max B + c"
proof -
  have "a \<le> Max B + c" if aA: "a \<in> A" for a
  proof -
    obtain b where b: "b \<in> B" "a \<le> b + c" using assms(4)[OF aA] by blast
    have "b \<le> Max B" using assms(2) b(1) by (rule Max_ge)
    then show ?thesis using b(2) by linarith
  qed
  then show ?thesis using assms(1,3) by (simp add: Max_le_iff)
qed

lemma spec_ns_mono:
  assumes "0 \<le> t" "t \<le> t'" "\<not> (8 < t \<and> t \<le> 4200 \<and> 4200 < t')"
  shows "spec_ns t \<le> spec_ns t'"
proof -
  have c: "t powr (1 / 3) \<le> t' powr (1 / 3)" using assms(1,2) by (rule cbrt_mono)
  have p: "0 \<le> t powr (1 / 3)" "0 \<le> t' powr (1 / 3)" by simp_all
  have e: "4.05 * t' powr (1 / 3) = 4 * t' powr (1 / 3) + 0.05 * t' powr (1 / 3)" by simp
  have f: "4.05 * t powr (1 / 3) = 4 * t powr (1 / 3) + 0.05 * t powr (1 / 3)" by simp
  have g: "0 \<le> 0.05 * t' powr (1 / 3)" "0.05 * t powr (1 / 3) \<le> 0.05 * t' powr (1 / 3)"
    using p c by simp_all
  show ?thesis
    unfolding spec_ns_def using assms c p g
    by (auto intro!: floor_mono simp only: e f split: if_splits)
qed


lemma cmod_scale_mono:
  "0 \<le> t \<Longrightarrow> t \<le> t' \<Longrightarrow> cmod (of_real t * b) \<le> cmod (of_real t' * b)"
  by (simp add: norm_mult mult_right_mono)

lemma nth_snoc_mono:
  assumes "i < Suc (length xs)" "0 \<le> t" "t \<le> t'"
  shows "cmod (of_real ((xs @ [t]) ! i) * b) \<le> cmod (of_real ((xs @ [t']) ! i) * b)"
proof (cases "i < length xs")
  case True
  then show ?thesis by (simp add: nth_append)
next
  case False
  then have "i = length xs" using assms(1) by simp
  then show ?thesis using assms(2,3) by (simp add: cmod_scale_mono)
qed

lemma spec_xm_mono:
  assumes "0 \<le> t" "t \<le> t'" "j < Suc (length xs)"
  shows "spec_xm (xs @ [t]) m j \<le> spec_xm (xs @ [t']) m j"
  unfolding spec_xm_def using assms by (intro nth_snoc_mono)

lemma spec_xm'_mono:
  assumes "0 \<le> t" "t \<le> t'"
  shows "spec_xm' (xs @ [t]) m j \<le> spec_xm' (xs @ [t']) m j"
proof -
  have "Suc j mod Suc (length xs) < Suc (length xs)" by simp
  then show ?thesis unfolding spec_xm'_def using assms by (simp add: nth_snoc_mono)
qed

lemma spec_select_mono:
  assumes "0 \<le> t" "t \<le> t'" "\<not> (8 < t \<and> t \<le> 4200 \<and> 4200 < t')"
  shows "spec_select (xs @ [t]) m \<le> spec_select (xs @ [t']) m"
proof -
  let ?L = "Suc (length xs)"
  let ?A = "insert (of_int (spec_ns \<bar>t\<bar>) :: real)
            (spec_xm (xs @ [t]) m ` {..<?L} \<union> spec_xm' (xs @ [t]) m ` {..<?L})"
  let ?B = "insert (of_int (spec_ns \<bar>t'\<bar>) :: real)
            (spec_xm (xs @ [t']) m ` {..<?L} \<union> spec_xm' (xs @ [t']) m ` {..<?L})"
  have ns: "(of_int (spec_ns \<bar>t\<bar>) :: real) \<le> of_int (spec_ns \<bar>t'\<bar>)"
    using spec_ns_mono[of t t'] assms by simp
  have "Max ?A \<le> Max ?B + 0"
  proof (rule Max_shift_mono)
    fix a assume "a \<in> ?A"
    then consider "a = of_int (spec_ns \<bar>t\<bar>)"
      | j where "j < ?L" "a = spec_xm (xs @ [t]) m j"
      | j where "j < ?L" "a = spec_xm' (xs @ [t]) m j" by auto
    then show "\<exists>b\<in>?B. a \<le> b + 0"
    proof cases
      case 1
      then show ?thesis using ns by auto
    next
      case 2
      then have "a \<le> spec_xm (xs @ [t']) m j" using spec_xm_mono[OF assms(1,2)] by simp
      then show ?thesis using 2(1) by auto
    next
      case 3
      then have "a \<le> spec_xm' (xs @ [t']) m j" using spec_xm'_mono[OF assms(1,2)] by simp
      then show ?thesis using 3(1) by auto
    qed
  qed simp_all
  then show ?thesis by (simp add: spec_select_def floor_mono)
qed

lemma cbrt_le_20: assumes "0 \<le> t" "t \<le> 4200" shows "t powr (1 / 3) \<le> (20::real)"
proof -
  have "t powr (1 / 3) \<le> (20 ^ 3) powr (1 / 3)"
    using assms by (intro cbrt_mono) simp_all
  then show ?thesis using cbrt_cube[of 20] by simp
qed

lemma spec_ns_drop:
  assumes "0 \<le> t" "t \<le> t'"
  shows "spec_ns t \<le> spec_ns t' + 1"
proof (cases "8 < t \<and> t \<le> 4200 \<and> 4200 < t'")
  case False
  then show ?thesis using spec_ns_mono[OF assms] by simp
next
  case True
  have c: "t powr (1 / 3) \<le> t' powr (1 / 3)" using assms by (rule cbrt_mono)
  have "t powr (1 / 3) \<le> 20" using True assms by (intro cbrt_le_20) simp_all
  then have s: "0.05 * t powr (1 / 3) \<le> 1" by simp
  have f: "4.05 * t powr (1 / 3) = 4 * t powr (1 / 3) + 0.05 * t powr (1 / 3)" by simp
  have "t + 4.05 * t powr (1 / 3) + 2 \<le> (t' + 4 * t' powr (1 / 3) + 2) + 1"
    unfolding f using c s assms(2) by linarith
  then have "\<lfloor>t + 4.05 * t powr (1 / 3) + 2\<rfloor> \<le> \<lfloor>(t' + 4 * t' powr (1 / 3) + 2) + 1\<rfloor>"
    by (rule floor_mono)
  then show ?thesis using True by (simp add: spec_ns_def)
qed

lemma spec_select_drop:
  assumes "0 \<le> t" "t \<le> t'"
  shows "spec_select (xs @ [t]) m \<le> spec_select (xs @ [t']) m + 1"
proof -
  let ?L = "Suc (length xs)"
  let ?A = "insert (of_int (spec_ns \<bar>t\<bar>) :: real)
            (spec_xm (xs @ [t]) m ` {..<?L} \<union> spec_xm' (xs @ [t]) m ` {..<?L})"
  let ?B = "insert (of_int (spec_ns \<bar>t'\<bar>) :: real)
            (spec_xm (xs @ [t']) m ` {..<?L} \<union> spec_xm' (xs @ [t']) m ` {..<?L})"
  have "spec_ns \<bar>t\<bar> \<le> spec_ns \<bar>t'\<bar> + 1"
    using spec_ns_drop[of t t'] assms by simp
  then have ns: "(of_int (spec_ns \<bar>t\<bar>) :: real) \<le> of_int (spec_ns \<bar>t'\<bar>) + 1"
    by linarith
  have "Max ?A \<le> Max ?B + 1"
  proof (rule Max_shift_mono)
    fix a assume "a \<in> ?A"
    then consider "a = of_int (spec_ns \<bar>t\<bar>)"
      | j where "j < ?L" "a = spec_xm (xs @ [t]) m j"
      | j where "j < ?L" "a = spec_xm' (xs @ [t]) m j" by auto
    then show "\<exists>b\<in>?B. a \<le> b + 1"
    proof cases
      case 1
      then show ?thesis using ns by auto
    next
      case 2
      then have "a \<le> spec_xm (xs @ [t']) m j + 1" using spec_xm_mono[OF assms(1,2), of j xs m] by simp
      then show ?thesis using 2(1) by auto
    next
      case 3
      then have "a \<le> spec_xm' (xs @ [t']) m j + 1" using spec_xm'_mono[OF assms(1,2), of xs m j] by simp
      then show ?thesis using 3(1) by auto
    qed
  qed simp_all
  then have "\<lfloor>Max ?A\<rfloor> \<le> \<lfloor>Max ?B + 1\<rfloor>" by (rule floor_mono)
  then show ?thesis by (simp add: spec_select_def)
qed

lemma wiscombe_1: "wiscombe 1 = 6"
  by (simp add: wiscombe_def)

lemma wiscombe_2: "wiscombe 2 = 8"
proof -
  let ?c = "(2::real) powr (1 / 3)"
  have lo: "(5 / 4) \<le> ?c" by (rule cbrt_ge) (simp_all add: power3_eq_cube)
  have hi: "?c < 3 / 2" by (rule cbrt_less) (simp_all add: power3_eq_cube)
  have "\<lfloor>2 + 4 * ?c + 1\<rfloor> = 8"
    using lo hi by (simp add: floor_eq_iff)
  then show ?thesis by (simp add: wiscombe_def)
qed

lemma FastSphere_wiscombe_yang_two:
  "FastSphere_wiscombe_yang [1, 2] [3 / 2, 3 / 2] = Returns 8"
  by (simp add: FastSphere_wiscombe_yang_def times_xm_def np_broadcast_def np_roll_m1_def
      np_amax_def Let_def wiscombe_2 norm_mult py_int_def)

lemma FastSphere_wiscombe_yang_at_1: "FastSphere_wiscombe_yang [1] [3 / 2] = Returns 6"
  by (simp add: FastSphere_wiscombe_yang_single wiscombe_1 norm_mult py_int_def)

lemma FastSphere_wiscombe_yang_at_2: "FastSphere_wiscombe_yang [2] [3 / 2] = Returns 8"
  by (simp add: FastSphere_wiscombe_yang_single wiscombe_2 norm_mult py_int_def)

section \<open>Properties of the recursion\<close>

subsection \<open>Runs\<close>

lemma thn_Returns: "thn r f = Returns v \<longleftrightarrow> (\<exists>u. r = Returns u \<and> f u = Returns v)"
  by (cases r) auto

lemma thn_cong_Returns: "(\<And>v. r = Returns v \<Longrightarrow> f v = g v) \<Longrightarrow> thn r f = thn r g"
  by (cases r) auto

lemma foldM_append: "foldM f (xs @ ys) s = thn (foldM f xs s) (foldM f ys)"
proof (induction xs arbitrary: s)
  case Nil
  show ?case by simp
next
  case (Cons a xs)
  show ?case by (cases "f a s") (simp_all add: Cons)
qed

lemma py_div_Returns: "py_div a b = Returns v \<longleftrightarrow> b \<noteq> 0 \<and> v = a / b"
  by (auto simp: py_div_def)

lemma np_div_Returns: "np_div a b = Returns v \<longleftrightarrow> b \<noteq> 0 \<and> v = a / b"
  by (auto simp: np_div_def)

lemma alike_refl: "alike (=) r r"
  by (cases r) simp_all

lemma alike_eq: "alike (=) r r' \<longleftrightarrow> r = r'"
  by (cases r; cases r') auto

lemma alike_thn:
  assumes "alike R a b" and "\<And>u v. R u v \<Longrightarrow> alike S (f u) (g v)"
  shows "alike S (thn a f) (thn b g)"
  using assms by (cases a; cases b) auto

lemma alike_mono: "alike R a b \<Longrightarrow> (\<And>u v. R u v \<Longrightarrow> S u v) \<Longrightarrow> alike S a b"
  by (cases a; cases b) auto

lemma alike_Returns_right: "alike R a (Returns v) \<Longrightarrow> \<exists>u. a = Returns u \<and> R u v"
  by (cases a) auto

lemma alike_Returns_left: "alike R (Returns u) b \<Longrightarrow> \<exists>v. b = Returns v \<and> R u v"
  by (cases b) auto

text \<open>Loops in step: upward over \<open>[a..<b]\<close> and downward over \<open>rev [1..<Suc k]\<close>.\<close>

lemma alike_foldM_up:
  assumes "R a s t"
    and "\<And>n s t. a \<le> n \<Longrightarrow> n < b \<Longrightarrow> R n s t \<Longrightarrow> alike (R (Suc n)) (f n s) (g n t)"
    and "a \<le> b"
  shows "alike (R b) (foldM f [a..<b] s) (foldM g [a..<b] t)"
  using assms(3,2)
proof (induction b rule: dec_induct)
  case base
  show ?case using assms(1) by simp
next
  case (step n)
  have ih: "alike (R n) (foldM f [a..<n] s) (foldM g [a..<n] t)"
    using step by simp
  have l: "[a..<Suc n] = [a..<n] @ [n]" using step(1) by simp
  show ?case
    unfolding l foldM_append
  proof (rule alike_thn[OF ih])
    fix u v assume "R n u v"
    then have "alike (R (Suc n)) (f n u) (g n v)"
      using step(4)[of n u v] step(1) by simp
    then show "alike (R (Suc n)) (foldM f [n] u) (foldM g [n] v)"
      by (cases "f n u"; cases "g n v") simp_all
  qed
qed

lemma alike_foldM_down:
  assumes "R k s t"
    and "\<And>n s t. 1 \<le> n \<Longrightarrow> n \<le> k \<Longrightarrow> R n s t \<Longrightarrow> alike (R (n - 1)) (f n s) (g n t)"
  shows "alike (R 0) (foldM f (rev [1..<Suc k]) s) (foldM g (rev [1..<Suc k]) t)"
  using assms
proof (induction k arbitrary: s t)
  case 0
  then show ?case by simp
next
  case (Suc k)
  have l: "rev [1..<Suc (Suc k)] = Suc k # rev [1..<Suc k]" by simp
  have st: "alike (R k) (f (Suc k) s) (g (Suc k) t)"
    using Suc.prems(2)[of "Suc k" s t] Suc.prems(1) by simp
  show ?case
    unfolding l foldM.simps
  proof (rule alike_thn[OF st])
    fix u v assume "R k u v"
    then show "alike (R 0) (foldM f (rev [1..<Suc k]) u) (foldM g (rev [1..<Suc k]) v)"
      using Suc.prems(2) by (intro Suc.IH) auto
  qed
qed

text \<open>A property that every pass of a loop keeps.\<close>

lemma foldM_invariant:
  assumes "foldM f xs s = Returns s'" and "P s"
    and "\<And>n s s'. n \<in> set xs \<Longrightarrow> P s \<Longrightarrow> f n s = Returns s' \<Longrightarrow> P s'"
  shows "P s'"
  using assms
proof (induction xs arbitrary: s)
  case Nil
  then show ?case by simp
next
  case (Cons a xs)
  from Cons.prems(1) obtain u where u: "f a s = Returns u" "foldM f xs u = Returns s'"
    by (auto simp: thn_Returns)
  have "P u" using Cons.prems(3)[of a s u] Cons.prems(2) u(1) by simp
  then show ?case using Cons.IH[OF u(2)] Cons.prems(3) by auto
qed

lemma dv_Returns:
  "dv = py_div \<or> dv = np_div \<Longrightarrow> dv a b = Returns v \<longleftrightarrow> b \<noteq> 0 \<and> v = a / b"
  by (auto simp: py_div_Returns np_div_Returns)

lemma d1_loop_0: "d1_loop dv z 0 d = Returns d"
  by (simp add: d1_loop_def)

lemma d1_loop_Suc: "d1_loop dv z (Suc k) d = thn (eq16b dv z (Suc k) d) (d1_loop dv z k)"
proof -
  have l: "rev [1..<Suc (Suc k)] = Suc k # rev [1..<Suc k]" by simp
  have e: "d1_loop dv z k = foldM (eq16b dv z) (rev [1..<Suc k])"
    by (rule ext) (simp add: d1_loop_def)
  show ?thesis unfolding e unfolding d1_loop_def l by simp
qed

lemma eq16b_Returns:
  assumes "dv = py_div \<or> dv = np_div"
  shows "eq16b dv z n d = Returns d' \<longleftrightarrow>
         z \<noteq> 0 \<and> d ! n + of_nat n / z \<noteq> 0 \<and>
         d' = d[n - 1 := of_nat n / z - 1 / (d ! n + of_nat n / z)]"
  by (auto simp: eq16b_def thn_Returns dv_Returns[OF assms])

text \<open>What the downward loop leaves behind when it returns.\<close>

lemma d1_loop_Returns:
  assumes "dv = py_div \<or> dv = np_div" and "d1_loop dv z k d = Returns d'" and "k < length d"
  shows "length d' = length d
       \<and> (\<forall>i\<ge>k. d' ! i = d ! i)
       \<and> (\<forall>n. 1 \<le> n \<and> n \<le> k \<longrightarrow>
            z \<noteq> 0 \<and> d' ! n + of_nat n / z \<noteq> 0 \<and>
            d' ! (n - 1) = of_nat n / z - 1 / (d' ! n + of_nat n / z))"
  using assms(2,3)
proof (induction k arbitrary: d)
  case 0
  then show ?case by (simp add: d1_loop_0)
next
  case (Suc k)
  let ?v = "of_nat (Suc k) / z - 1 / (d ! Suc k + of_nat (Suc k) / z)"
  from Suc.prems(1) have st: "z \<noteq> 0" "d ! Suc k + of_nat (Suc k) / z \<noteq> 0"
    and rest: "d1_loop dv z k (d[k := ?v]) = Returns d'"
    by (auto simp: d1_loop_Suc thn_Returns eq16b_Returns[OF assms(1)])
  have kl: "k < length (d[k := ?v])" using Suc.prems(2) by simp
  note ih = Suc.IH[OF rest kl]
  have len: "length d' = length d" using ih by simp
  have keep: "d' ! i = d ! i" if "Suc k \<le> i" for i
    using ih that by simp
  have atk: "d' ! k = ?v" using ih Suc.prems(2) by simp
  have rec: "z \<noteq> 0 \<and> d' ! n + of_nat n / z \<noteq> 0 \<and>
        d' ! (n - 1) = of_nat n / z - 1 / (d' ! n + of_nat n / z)"
    if "1 \<le> n" "n \<le> Suc k" for n
  proof (cases "n = Suc k")
    case True
    then show ?thesis using st atk keep[of "Suc k"] by simp
  next
    case False
    then have "n \<le> k" using that by simp
    then show ?thesis using ih that(1) by simp
  qed
  show ?case using len keep rec by blast
qed

lemma same_from_0: "same_from 0 d e \<longleftrightarrow> d = e"
  by (auto simp: same_from_def intro: nth_equalityI)

lemma same_from_update:
  "same_from (Suc k) d e \<Longrightarrow> same_from k (d[k := v]) (e[k := v])"
  by (auto simp: same_from_def nth_list_update)

lemma eq16b_agree:
  assumes "same_from n d e" "1 \<le> n" "n < length d"
  shows "alike (\<lambda>u v. same_from (n - 1) u v \<and> length u = length d) (eq16b dv z n d) (eq16b dv z n e)"
proof -
  have r: "d ! n = e ! n" using assms by (simp add: same_from_def)
  obtain j where j: "n = Suc j" using assms(2) by (cases n) auto
  have sfu: "same_from j (d[j := v]) (e[j := v])" for v
    using assms(1) j by (simp add: same_from_update)
  show ?thesis
    unfolding eq16b_def r
    apply (rule alike_thn[OF alike_refl])
    apply simp
    apply (rule alike_thn[OF alike_refl])
    apply (simp add: j sfu)
    done
qed

lemma d1_loop_agree:
  assumes "same_from k d e" "k < length d"
  shows "d1_loop dv z k d = d1_loop dv z k e"
proof -
  have "alike (\<lambda>u v. same_from 0 u v \<and> length u = length d)
          (foldM (eq16b dv z) (rev [1..<Suc k]) d) (foldM (eq16b dv z) (rev [1..<Suc k]) e)"
  proof (rule alike_foldM_down[where R = "\<lambda>n u v. same_from n u v \<and> length u = length d"])
    show "same_from k d e \<and> length d = length d" using assms by simp
  next
    fix n and s t :: "complex list"
    assume n: "1 \<le> n" "n \<le> k" and "same_from n s t \<and> length s = length d"
    then have sf: "same_from n s t" and ls: "length s = length d" by simp_all
    have "n < length s" using n assms(2) ls by simp
    from eq16b_agree[OF sf n(1) this, of dv z]
    show "alike (\<lambda>u v. same_from (n - 1) u v \<and> length u = length d) (eq16b dv z n s) (eq16b dv z n t)"
      by (rule alike_mono) (simp add: ls)
  qed
  then have "alike (=) (d1_loop dv z k d) (d1_loop dv z k e)"
    unfolding d1_loop_def by (rule alike_mono) (simp add: same_from_0)
  then show ?thesis by (simp add: alike_eq)
qed

lemma nb_at_Returns: "nb_at xs i = Returns v \<longleftrightarrow> i < length xs \<and> v = xs ! i"
  by (auto simp: nb_at_def)

lemma py_at_Returns: "py_at xs i = Returns v \<longleftrightarrow> i < length xs \<and> v = xs ! i"
  by (auto simp: py_at_def)



lemma length_np_empty [simp]: "length (np_empty u n) = n"
  by (simp add: np_empty_def)

lemma length_np_empty2 [simp]: "length (np_empty2 u n) = n"
  by (simp add: np_empty2_def)

lemma np_empty_2: "np_empty u (Suc (Suc 0)) = [u 0, u 1]"
  by (simp add: np_empty_def)

lemma np_empty_3: "np_empty u (Suc (Suc (Suc 0))) = [u 0, u 1, u 2]"
  by (simp add: np_empty_def numeral_2_eq_2)

lemma np_empty2_nonempty [simp]: "np_empty2 u (Suc n) \<noteq> []"
  by (simp add: np_empty2_def)

lemma np_empty2_2: "np_empty2 u (Suc (Suc 0)) = [(u 0, u 1), (u 2, u 3)]"
  by (simp add: np_empty2_def numeral_3_eq_3)

lemma FastSphere_core_Returns:
  assumes "FastSphere_core x m nmax d = Returns (d1, ha, hb)" and "nmax < length d"
  shows "x \<noteq> [] \<and> m \<noteq> [] \<and> d1_loop py_div (complex_of_real (x ! 0) * m ! 0) nmax d = Returns d1 \<and> ha = d1 \<and> hb = d1"
  using assms by (auto simp: FastSphere_core_def thn_Returns nb_at_Returns Let_def)

lemma Sphere_core_Returns:
  assumes "Sphere_core x m nmax d = Returns (d1, ha, hb)"
  shows "x \<noteq> [] \<and> m \<noteq> [] \<and> d1_loop np_div (complex_of_real (x ! 0) * m ! 0) (nmax + 1) d = Returns d1 \<and> ha = butlast d1 \<and> hb = butlast d1"
  using assms by (auto simp: Sphere_core_def thn_Returns py_at_Returns Let_def)



lemma set_column0_Returns: "set_column0 col ab = Returns ab' \<Longrightarrow> length ab' = length ab"
  by (auto simp: set_column0_def thn_Returns split: if_splits)

lemma set_column1_Returns: "set_column1 col ab = Returns ab' \<Longrightarrow> length ab' = length ab"
  by (auto simp: set_column1_def thn_Returns split: if_splits)

lemma scattering_coefficients_shape:
  assumes "scattering_coefficients lstx lstm x m nmax ha hb psi zeta ab0 = Returns ab"
  shows "length ab = length ab0 \<and> (ab0 \<noteq> [] \<longrightarrow> ab ! 0 = (0, 0))"
proof -
  from assms obtain ab1 ab2 a b where
    c0: "set_column0 a ab0 = Returns ab1" and c1: "set_column1 b ab1 = Returns ab2"
    and r: "ab = ab2[0 := (0, 0)]"
    unfolding scattering_coefficients_def Let_def thn_Returns by auto
  have "length ab2 = length ab0"
    using set_column0_Returns[OF c0] set_column1_Returns[OF c1] by simp
  then show ?thesis using r by auto
qed

lemma FastSphere_kernel_shape:
  assumes "FastSphere__mie_coefficients a_p x m nmax ab0 d1_z1 d1_z2 d3_z1 d3_z2 psi zeta q = Returns ab"
  shows "length ab = length ab0 \<and> (ab0 \<noteq> [] \<longrightarrow> ab ! 0 = (0, 0))"
proof -
  from assms obtain ha hb psi' zeta' where
    "scattering_coefficients nb_last nb_last x m nmax ha hb psi' zeta' ab0 = Returns ab"
    by (auto simp: FastSphere__mie_coefficients_def Let_def thn_Returns split_beta)
  from scattering_coefficients_shape[OF this] show ?thesis .
qed

lemma FastSphere_table_shape:
  assumes "FastSphere_mie_coefficients mem a_p n_p k_p n_m wavelength = Returns ab"
  shows "ab \<noteq> [] \<and> ab ! 0 = (0, 0)"
proof -
  from assms obtain nmax x m where
    "FastSphere__mie_coefficients a_p x m nmax (np_empty2 (mem 0) (nmax + 1))
       (np_empty (mem 1) (nmax + 1)) (np_empty (mem 2) (nmax + 1)) (np_empty (mem 3) (nmax + 1)) (np_empty (mem 4) (nmax + 1))
       (np_empty (mem 5) (nmax + 1)) (np_empty (mem 6) (nmax + 1)) (np_empty (mem 7) (nmax + 1)) = Returns ab"
    by (auto simp: FastSphere_mie_coefficients_def Let_def thn_Returns)
  from FastSphere_kernel_shape[OF this] show ?thesis
    by (auto simp: length_0_conv[symmetric] simp del: length_0_conv)
qed

lemma Sphere_table_shape:
  assumes "Sphere_mie_coefficients mem a_p n_p n_m wavelength = Returns ab"
  shows "ab \<noteq> [] \<and> ab ! 0 = (0, 0)"
proof -
  from assms obtain nmax x m ha hb psi zeta where
    "scattering_coefficients py_last py_last x m nmax ha hb psi zeta (np_empty2 (mem 0) (nmax + 1)) = Returns ab"
    by (auto simp: Sphere_mie_coefficients_def Let_def thn_Returns split_beta simp del: replicate_Suc)
  from scattering_coefficients_shape[OF this] show ?thesis
    by (auto simp: length_0_conv[symmetric] simp del: length_0_conv)
qed




lemma np_broadcast_same_length:
  "length xs = length ys \<Longrightarrow> np_broadcast f xs ys = Returns (map2 f xs ys)"
  by (simp add: np_broadcast_def)


lemma np_sub_same: "length xs = length ys \<Longrightarrow> np_sub xs ys = Returns (map2 (-) xs ys)"
  by (simp add: np_sub_def np_broadcast_same_length)

lemma np_mul_same: "length xs = length ys \<Longrightarrow> np_mul xs ys = Returns (map2 (*) xs ys)"
  by (simp add: np_mul_def np_broadcast_same_length)

lemma np_quot_same:
  assumes "length xs = length ys"
  shows "np_quot xs ys = Returns zs \<longleftrightarrow> (\<forall>j<length ys. ys ! j \<noteq> 0) \<and> zs = map2 (/) xs ys"
proof -
  have "list_ex (\<lambda>p. snd p = 0) (zip xs ys) \<longleftrightarrow> (\<exists>y\<in>set (map snd (zip xs ys)). y = 0)"
    by (force simp: list_ex_iff)
  also have "map snd (zip xs ys) = ys" using assms by simp
  finally have ex: "list_ex (\<lambda>p. snd p = 0) (zip xs ys) \<longleftrightarrow> \<not> (\<forall>j<length ys. ys ! j \<noteq> 0)"
    by (auto simp: in_set_conv_nth)
  have mp: "map (\<lambda>p. fst p / snd p) (zip xs ys) = map2 (/) xs ys"
    by (simp add: split_beta)
  show ?thesis
    unfolding np_quot_def np_broadcast_same_length[OF assms] thn.simps zip_map_fst_snd
    using ex mp by (auto simp: zip_same_conv_map)
qed

lemma np_div_scalar_Returns:
  "np_div_scalar xs c = Returns zs \<longleftrightarrow> (xs \<noteq> [] \<longrightarrow> c \<noteq> 0) \<and> zs = map (\<lambda>v. v / c) xs"
  by (auto simp: np_div_scalar_def)

lemma length_np_scale [simp]: "length (np_scale c xs) = length xs"
  by (simp add: np_scale_def)

lemma nth_np_scale: "j < length xs \<Longrightarrow> np_scale c xs ! j = c * xs ! j"
  by (simp add: np_scale_def)

lemma length_np_roll_1 [simp]: "length (np_roll_1 xs) = length xs"
  by (simp add: np_roll_1_def)




lemma d1_loop_again:
  assumes "dv = py_div \<or> dv = np_div" and "d1_loop dv z k d = Returns D" and "k < length d"
  shows "d1_loop dv z k D = Returns D"
proof -
  from d1_loop_Returns[OF assms] have "same_from k D d"
    by (simp add: same_from_def)
  moreover have "k < length D" using d1_loop_Returns[OF assms] assms(3) by simp
  ultimately have "d1_loop dv z k D = d1_loop dv z k d" by (rule d1_loop_agree)
  then show ?thesis using assms(2) by simp
qed





section \<open>The recursion on a sphere far smaller than the wavelength\<close>

lemma wiscombe_tiny:
  assumes "0 \<le> xl" "xl < 1 / 125"
  shows "wiscombe xl = 1"
proof -
  have c: "xl powr (1 / 3) < 1 / 5"
    using assms by (intro cbrt_less) (simp_all add: power3_eq_cube)
  have p: "0 \<le> xl powr (1 / 3)" by simp
  have "\<lfloor>xl + 4 * xl powr (1 / 3) + 1\<rfloor> = 1"
    using assms c p by (simp add: floor_eq_iff)
  then show ?thesis using assms by (simp add: wiscombe_def)
qed

lemma py_int_max_1: "0 \<le> v \<Longrightarrow> v < 2 \<Longrightarrow> py_int (max 1 v) = 1"
  by (auto simp: py_int_def max_def floor_eq_iff)

lemma selector_tiny:
  assumes "\<bar>x\<bar> < 1 / 125" "cmod (complex_of_real x * c) < 2"
  shows "FastSphere_wiscombe_yang [x] [c] = Returns 1" "Sphere_wiscombe_yang [x] [c] = Returns 1"
  using assms
  by (simp_all add: FastSphere_wiscombe_yang_single Sphere_wiscombe_yang_single wiscombe_tiny py_int_max_1)

lemma d1_loop_1: "z \<noteq> 0 \<Longrightarrow> d1_loop py_div z 1 [u, 0] = Returns [1 / z - z, 0]"
  by (simp add: d1_loop_def eq16b_def py_div_def)

lemma eq5_2:
  assumes "f0 * t0 - t1 \<noteq> 0" "f1 * t1 - t0 \<noteq> 0"
  shows "eq5 [f0, f1] [p0, p1] [t0, t1]
         = Returns [(f0 * p0 - p1) / (f0 * t0 - t1), (f1 * p1 - p0) / (f1 * t1 - t0)]"
  using assms
  by (simp add: eq5_def np_mul_def np_sub_def np_broadcast_def np_roll_1_def np_quot_def)

lemma scattering_2:
  assumes "c \<noteq> 0" "x \<noteq> 0"
    and "(h0 / c) * t0 - t1 \<noteq> 0" "(h1 / c + 1 / complex_of_real x) * t1 - t0 \<noteq> 0"
    and "(c * g0) * t0 - t1 \<noteq> 0" "(c * g1 + 1 / complex_of_real x) * t1 - t0 \<noteq> 0"
  shows "scattering_coefficients nb_last nb_last [x] [c] 1 [h0, h1] [g0, g1] [p0, p1] [t0, t1] [r0, r1]
     = Returns [(0, 0),
         (((h1 / c + 1 / complex_of_real x) * p1 - p0) / ((h1 / c + 1 / complex_of_real x) * t1 - t0),
          ((c * g1 + 1 / complex_of_real x) * p1 - p0) / ((c * g1 + 1 / complex_of_real x) * t1 - t0))]"
proof -
  have a: "eq5 [h0 / c, h1 / c + 1 / complex_of_real x] [p0, p1] [t0, t1]
     = Returns [(h0 / c * p0 - p1) / (h0 / c * t0 - t1),
        ((h1 / c + 1 / complex_of_real x) * p1 - p0) / ((h1 / c + 1 / complex_of_real x) * t1 - t0)]"
    by (rule eq5_2) (use assms in simp_all)
  have b: "eq5 [c * g0, c * g1 + 1 / complex_of_real x] [p0, p1] [t0, t1]
     = Returns [(c * g0 * p0 - p1) / (c * g0 * t0 - t1),
        ((c * g1 + 1 / complex_of_real x) * p1 - p0) / ((c * g1 + 1 / complex_of_real x) * t1 - t0)]"
    by (rule eq5_2) (use assms in simp_all)
  show ?thesis
    using assms(1,2)
    by (simp add: scattering_coefficients_def nb_last_def np_div_scalar_def np_add_def np_scale_def
        np_broadcast_def a b set_column0_def set_column1_def upt_rec)
qed

lemma d1_loop_Suc_0: "z \<noteq> 0 \<Longrightarrow> d1_loop py_div z (Suc 0) [u, 0] = Returns [1 / z - z, 0]"
  using d1_loop_1[of z u] by simp

lemma inverse_real_not_i: "1 / complex_of_real x \<noteq> \<i>"
proof
  assume "1 / complex_of_real x = \<i>"
  then have "Im (1 / complex_of_real x) = Im \<i>" by simp
  then show False by (simp add: Im_divide)
qed

lemma medium_1:
  fixes x :: real
  assumes "x \<noteq> 0" and "exp (2 * \<i> * complex_of_real x) \<noteq> 1"
  shows "medium py_div nb_last [x] (Suc 0) (Suc 0) [u0, 0] [\<i>, v] [a0, a1] [b0, b1]
     = Returns ([sin (complex_of_real x), sin (complex_of_real x) * complex_of_real x],
                [- \<i> * exp (\<i> * complex_of_real x),
                 - \<i> * exp (\<i> * complex_of_real x) * (1 / complex_of_real x - \<i>)])"
  using assms inverse_real_not_i[of x]
  by (simp add: medium_def nb_last_def d1_loop_Suc_0 medium_step_def py_div_def Let_def)

lemma FastSphere_core_1:
  assumes "complex_of_real x * c \<noteq> 0"
  shows "FastSphere_core [x] [c] (Suc 0) [u, 0]
     = Returns ([1 / (complex_of_real x * c) - complex_of_real x * c, 0],
                [1 / (complex_of_real x * c) - complex_of_real x * c, 0],
                [1 / (complex_of_real x * c) - complex_of_real x * c, 0])"
  using assms by (simp add: FastSphere_core_def nb_at_def d1_loop_Suc_0 Let_def)

lemma Im_nonzero: "Im w \<noteq> 0 \<Longrightarrow> w \<noteq> 0"
  by (metis zero_complex.simps(2))

lemma Im_inverse_real: "Im (1 / complex_of_real x) = 0"
  by (simp add: Im_divide)

lemma den_first_nonzero:
  assumes "r \<in> \<real>" "t0 \<noteq> 0"
  shows "r * t0 - t0 * (1 / complex_of_real x - \<i>) \<noteq> 0"
proof -
  from assms(1) have "Im r = 0" by (auto elim: Reals_cases)
  then have "Im (r - 1 / complex_of_real x + \<i>) = 1"
    by (simp add: Im_inverse_real)
  then have "r - 1 / complex_of_real x + \<i> \<noteq> 0" by (intro Im_nonzero) simp
  moreover have "r * t0 - t0 * (1 / complex_of_real x - \<i>) = t0 * (r - 1 / complex_of_real x + \<i>)"
    by (simp add: algebra_simps)
  ultimately show ?thesis using assms(2) by simp
qed

lemma den_second_nonzero:
  assumes "r \<in> \<real>" "r \<noteq> 0" "t0 \<noteq> 0"
  shows "r * (t0 * (1 / complex_of_real x - \<i>)) - t0 \<noteq> 0"
proof -
  from assms(1) obtain rr where rr: "r = complex_of_real rr" by (auto elim: Reals_cases)
  have "rr \<noteq> 0" using assms(2) rr by simp
  have "Im (r * (1 / complex_of_real x - \<i>) - 1) = Re r * Im (1 / complex_of_real x - \<i>) + Im r * Re (1 / complex_of_real x - \<i>)"
    by simp
  also have "\<dots> = - rr" unfolding rr by (simp add: Im_inverse_real)
  finally have "Im (r * (1 / complex_of_real x - \<i>) - 1) \<noteq> 0" using \<open>rr \<noteq> 0\<close> by simp
  then have "r * (1 / complex_of_real x - \<i>) - 1 \<noteq> 0" by (rule Im_nonzero)
  moreover have "r * (t0 * (1 / complex_of_real x - \<i>)) - t0 = t0 * (r * (1 / complex_of_real x - \<i>) - 1)"
    by (simp add: algebra_simps)
  ultimately show ?thesis using assms(3) by simp
qed

lemma FastSphere_kernel_1:
  fixes x cr :: real
  assumes "x \<noteq> 0" "cr \<noteq> 0" and "exp (2 * \<i> * complex_of_real x) \<noteq> 1"
  shows "FastSphere__mie_coefficients [a] [x] [complex_of_real cr] 1 [r0, r1]
       [u1, u2] [v1, v2] [w1, w2] [y1, y2] [p1, p2] [s1, s2] [q1, q2]
     = Returns [(0, 0), (0, 0)]"
proof -
  let ?c = "complex_of_real cr" and ?x = "complex_of_real x"
  let ?z = "?x * ?c"
  let ?h0 = "1 / ?z - ?z"
  let ?t0 = "- (\<i> * exp (\<i> * ?x))"
  let ?t1 = "- (\<i> * exp (\<i> * ?x) * (1 / ?x - \<i>))"
  let ?p0 = "sin ?x"
  let ?p1 = "sin ?x * ?x"
  have z: "?z \<noteq> 0" using assms by simp
  have t0: "?t0 \<noteq> 0" by simp
  have r1: "?h0 / ?c \<in> \<real>" "?c * ?h0 \<in> \<real>" "1 / ?x \<in> \<real>"
    by (auto intro!: Reals_divide Reals_diff Reals_mult)
  have x1: "1 / ?x \<noteq> 0" using assms by simp
  have d: "(?h0 / ?c) * ?t0 - ?t1 \<noteq> 0" "(0 / ?c + 1 / ?x) * ?t1 - ?t0 \<noteq> 0"
    "(?c * ?h0) * ?t0 - ?t1 \<noteq> 0" "(?c * 0 + 1 / ?x) * ?t1 - ?t0 \<noteq> 0"
    using den_first_nonzero[OF r1(1) t0, of x] den_first_nonzero[OF r1(2) t0, of x]
      den_second_nonzero[OF r1(3) x1 t0, of x]
    by simp_all
  have sc: "scattering_coefficients nb_last nb_last [x] [?c] (Suc 0) [?h0, 0] [?h0, 0] [?p0, ?p1] [?t0, ?t1] [r0, r1]
     = Returns [(0, 0), (0, 0)]"
    using scattering_2[OF _ assms(1) d, of ?p0 ?p1 r0 r1] assms by simp
  show ?thesis
    unfolding FastSphere__mie_coefficients_def
    using assms z
    by (simp add: FastSphere_core_1 medium_1 sc Let_def del: of_real_mult)
qed

lemma d1_loop_np_2:
  assumes "z \<noteq> 0" "2 / z - z / 2 + 1 / z \<noteq> 0"
  shows "d1_loop np_div z (Suc (Suc 0)) [u0, u1, 0]
       = Returns [1 / z - 1 / (2 / z - z / 2 + 1 / z), 2 / z - z / 2, 0]"
  using assms
  by (simp add: d1_loop_def eq16b_def np_div_def)

lemma medium_np_1:
  fixes x :: real
  assumes "x \<noteq> 0" and "exp (2 * \<i> * complex_of_real x) \<noteq> 1"
    and "2 / complex_of_real x - complex_of_real x / 2 + 1 / complex_of_real x \<noteq> 0"
  shows "medium np_div py_last [x] (Suc (Suc 0)) (Suc 0) [u0, u1, 0] [\<i>, v] [a0, a1] [b0, b1]
     = Returns ([sin (complex_of_real x),
                 sin (complex_of_real x) / (2 / complex_of_real x - complex_of_real x / 2 + 1 / complex_of_real x)],
                [- (\<i> * exp (\<i> * complex_of_real x)),
                 - (\<i> * exp (\<i> * complex_of_real x) * (1 / complex_of_real x - \<i>))])"
  using assms inverse_real_not_i[of x]
  by (simp add: medium_def py_last_def d1_loop_np_2 medium_step_def np_div_def Let_def)

lemma scattering_py_2:
  assumes "c \<noteq> 0" "x \<noteq> 0"
    and "(h0 / c) * t0 - t1 \<noteq> 0" "(h1 / c + 1 / complex_of_real x) * t1 - t0 \<noteq> 0"
    and "(c * g0) * t0 - t1 \<noteq> 0" "(c * g1 + 1 / complex_of_real x) * t1 - t0 \<noteq> 0"
  shows "scattering_coefficients py_last py_last [x] [c] (Suc 0) [h0, h1] [g0, g1] [p0, p1] [t0, t1] [r0, r1]
     = Returns [(0, 0),
         (((h1 / c + 1 / complex_of_real x) * p1 - p0) / ((h1 / c + 1 / complex_of_real x) * t1 - t0),
          ((c * g1 + 1 / complex_of_real x) * p1 - p0) / ((c * g1 + 1 / complex_of_real x) * t1 - t0))]"
proof -
  have a: "eq5 [h0 / c, h1 / c + 1 / complex_of_real x] [p0, p1] [t0, t1]
     = Returns [(h0 / c * p0 - p1) / (h0 / c * t0 - t1),
        ((h1 / c + 1 / complex_of_real x) * p1 - p0) / ((h1 / c + 1 / complex_of_real x) * t1 - t0)]"
    by (rule eq5_2) (use assms in simp_all)
  have b: "eq5 [c * g0, c * g1 + 1 / complex_of_real x] [p0, p1] [t0, t1]
     = Returns [(c * g0 * p0 - p1) / (c * g0 * t0 - t1),
        ((c * g1 + 1 / complex_of_real x) * p1 - p0) / ((c * g1 + 1 / complex_of_real x) * t1 - t0)]"
    by (rule eq5_2) (use assms in simp_all)
  show ?thesis
    using assms(1,2)
    by (simp add: scattering_coefficients_def py_last_def np_div_scalar_def np_add_def np_scale_def
        np_broadcast_def a b set_column0_def set_column1_def upt_rec)
qed

lemma exp_2ix_not_1:
  fixes x :: real
  assumes "x \<noteq> 0" "\<bar>x\<bar> < 1"
  shows "exp (2 * \<i> * complex_of_real x) \<noteq> 1"
proof
  assume e: "exp (2 * \<i> * complex_of_real x) = 1"
  have "Im (exp (2 * \<i> * complex_of_real x)) = sin (2 * x)" by (simp add: Im_exp)
  then have s: "sin (2 * x) = 0" using e by simp
  have "\<bar>2 * x\<bar> < pi" using assms(2) pi_ge_two by (simp add: abs_mult)
  then have "2 * x = 0" using s sin_zero_pi_iff by blast
  then show False using assms(1) by simp
qed

lemma tiny_size_parameter:
  fixes a :: real
  assumes "a \<noteq> 0" "\<bar>a\<bar> \<le> 1 / 1000"
  shows "2 * pi * a \<noteq> 0" "\<bar>2 * pi * a\<bar> < 1 / 125"
proof -
  show "2 * pi * a \<noteq> 0" using assms(1) by simp
  have "\<bar>2 * pi * a\<bar> = 2 * pi * \<bar>a\<bar>" by (simp add: abs_mult)
  also have "\<dots> < 8 * \<bar>a\<bar>" using pi_less_4 assms(1) by simp
  also have "\<dots> \<le> 1 / 125" using assms(2) by simp
  finally show "\<bar>2 * pi * a\<bar> < 1 / 125" .
qed

lemma FastSphere_tiny_sphere:
  fixes a cr :: real
  assumes "a \<noteq> 0" "\<bar>a\<bar> \<le> 1 / 1000" "cr \<noteq> 0" "\<bar>cr\<bar> \<le> 2"
  shows "FastSphere_mie_coefficients mem [a] [complex_of_real cr] [0] 1 1 = Returns [(0, 0), (0, 0)]"
proof -
  let ?x = "2 * pi * a"
  note x = tiny_size_parameter[OF assms(1,2)]
  have e: "exp (2 * \<i> * complex_of_real ?x) \<noteq> 1"
    using x by (intro exp_2ix_not_1) simp_all
  have "cmod (complex_of_real ?x * complex_of_real cr) = \<bar>?x\<bar> * \<bar>cr\<bar>"
    by (simp add: norm_mult abs_mult)
  also have "\<dots> \<le> \<bar>?x\<bar> * 2" using assms(4) by (intro mult_left_mono) simp_all
  also have "\<dots> < 2" using x(2) by simp
  finally have xm: "cmod (complex_of_real ?x * complex_of_real cr) < 2" .
  have sel: "FastSphere_wiscombe_yang [?x] [complex_of_real cr] = Returns 1"
    using selector_tiny(1)[OF x(2) xm] .
  have ker: "\<And>r0 r1 u1 u2 v1 v2 w1 w2 y1 y2 p1 p2 s1 s2 q1 q2.
       FastSphere__mie_coefficients [a] [?x] [complex_of_real cr] (Suc 0) [r0, r1]
       [u1, u2] [v1, v2] [w1, w2] [y1, y2] [p1, p2] [s1, s2] [q1, q2] = Returns [(0, 0), (0, 0)]"
    using FastSphere_kernel_1[OF x(1) assms(3) e] by simp
  show ?thesis
    unfolding FastSphere_mie_coefficients_def
    by (simp add: py_div_def np_broadcast_def np_div_scalar_def Let_def sel ker np_empty_2 np_empty2_2
        del: of_real_mult)
qed

lemma real_seed_denominator:
  fixes zr :: real
  assumes "zr \<noteq> 0" "\<bar>zr\<bar> < 1"
  shows "2 / zr - zr / 2 + 1 / zr \<noteq> 0"
proof
  assume "2 / zr - zr / 2 + 1 / zr = 0"
  then have "(2 / zr - zr / 2 + 1 / zr) * zr = 0" by simp
  then have "3 - zr\<^sup>2 / 2 = 0" using assms(1) by (simp add: field_simps power2_eq_square)
  moreover have "zr\<^sup>2 < 1" using assms(2) by (simp add: abs_square_less_1)
  ultimately show False by simp
qed

lemma real_fac_a:
  fixes x cr :: real
  assumes "x \<noteq> 0" "cr \<noteq> 0" "\<bar>x\<bar> < 1"
  shows "(2 / (x * cr) - x * cr / 2) / cr + 1 / x \<noteq> 0"
proof
  assume "(2 / (x * cr) - x * cr / 2) / cr + 1 / x = 0"
  then have "((2 / (x * cr) - x * cr / 2) / cr + 1 / x) * (2 * x * cr\<^sup>2) = 0" by simp
  moreover have "((2 / (x * cr) - x * cr / 2) / cr + 1 / x) * (2 * x * cr\<^sup>2)
      = 4 + 2 * cr\<^sup>2 - cr\<^sup>2 * x\<^sup>2"
    using assms(1,2) by (simp add: field_simps power2_eq_square)
  ultimately have q: "4 + 2 * cr\<^sup>2 - cr\<^sup>2 * x\<^sup>2 = 0" by simp
  have "x\<^sup>2 \<le> 1" using assms(3) by (simp add: abs_square_le_1)
  then have "cr\<^sup>2 * x\<^sup>2 \<le> cr\<^sup>2 * 1" by (intro mult_left_mono) simp_all
  then show False using q zero_le_power2[of cr] by linarith
qed

lemma real_fac_b:
  fixes x cr :: real
  assumes "x \<noteq> 0" "cr \<noteq> 0" "\<bar>x * cr\<bar> < 1"
  shows "cr * (2 / (x * cr) - x * cr / 2) + 1 / x \<noteq> 0"
proof
  assume "cr * (2 / (x * cr) - x * cr / 2) + 1 / x = 0"
  then have "(cr * (2 / (x * cr) - x * cr / 2) + 1 / x) * x = 0" by simp
  then have "3 - (x * cr)\<^sup>2 / 2 = 0"
    using assms(1,2) by (simp add: field_simps power2_eq_square)
  moreover have "(x * cr)\<^sup>2 < 1" using assms(3) by (simp add: abs_square_less_1)
  ultimately show False by simp
qed

lemma sin_tiny_nonzero:
  fixes x :: real
  assumes "x \<noteq> 0" "\<bar>x\<bar> < 1"
  shows "sin x \<noteq> 0"
proof
  assume "sin x = 0"
  moreover have "\<bar>x\<bar> < pi" using assms(2) pi_ge_two by linarith
  ultimately have "x = 0" using sin_zero_pi_iff by blast
  with assms(1) show False by simp
qed

lemma contrast_numerator_real:
  fixes x cr :: real
  assumes "x \<noteq> 0" "\<bar>x\<bar> < 1" "cr \<noteq> 0" "cr\<^sup>2 \<noteq> 1"
  shows "((2 / (x * cr) - x * cr / 2) / cr + 1 / x) * (sin x / (2 / x - x / 2 + 1 / x)) - sin x \<noteq> 0"
proof -
  let ?s = "2 / x - x / 2 + 1 / x"
  let ?f = "(2 / (x * cr) - x * cr / 2) / cr + 1 / x"
  have s: "?s \<noteq> 0" using real_seed_denominator[OF assms(1,2)] .
  have "?f - ?s = 2 * (1 - cr\<^sup>2) / (x * cr\<^sup>2)"
    using assms(1,3) by (simp add: field_simps power2_eq_square)
  moreover have "2 * (1 - cr\<^sup>2) / (x * cr\<^sup>2) \<noteq> 0" using assms by simp
  ultimately have d: "?f - ?s \<noteq> 0" by simp
  have "?f * (sin x / ?s) - sin x = sin x * (?f - ?s) / ?s"
    using s by (simp add: field_simps)
  moreover have "sin x * (?f - ?s) / ?s \<noteq> 0"
    using sin_tiny_nonzero[OF assms(1,2)] d s by simp
  ultimately show ?thesis by simp
qed

lemma contrast_numerator:
  fixes x cr :: real
  assumes "x \<noteq> 0" "\<bar>x\<bar> < 1" "cr \<noteq> 0" "cr\<^sup>2 \<noteq> 1"
  shows "((2 / (complex_of_real x * complex_of_real cr) - complex_of_real x * complex_of_real cr / 2) / complex_of_real cr
          + 1 / complex_of_real x)
         * (sin (complex_of_real x) / (2 / complex_of_real x - complex_of_real x / 2 + 1 / complex_of_real x))
         - sin (complex_of_real x) \<noteq> 0"
proof -
  have "((2 / (complex_of_real x * complex_of_real cr) - complex_of_real x * complex_of_real cr / 2) / complex_of_real cr
          + 1 / complex_of_real x)
         * (sin (complex_of_real x) / (2 / complex_of_real x - complex_of_real x / 2 + 1 / complex_of_real x))
         - sin (complex_of_real x)
     = complex_of_real (((2 / (x * cr) - x * cr / 2) / cr + 1 / x) * (sin x / (2 / x - x / 2 + 1 / x)) - sin x)"
    by (simp add: sin_of_real)
  then show ?thesis
    using contrast_numerator_real[OF assms] by (simp only: of_real_eq_0_iff) simp
qed

lemma Sphere_tiny_sphere:
  fixes a cr :: real
  assumes "a \<noteq> 0" "\<bar>a\<bar> \<le> 1 / 1000" "cr \<noteq> 0" "\<bar>cr\<bar> \<le> 2"
  shows "\<exists>A B. Sphere_mie_coefficients mem [a] [complex_of_real cr] 1 1 = Returns [(0, 0), (A, B)] \<and>
           (cr\<^sup>2 \<noteq> 1 \<longrightarrow> A \<noteq> 0)"
proof -
  let ?xr = "2 * pi * a"
  let ?x = "complex_of_real ?xr" and ?c = "complex_of_real cr"
  let ?z = "?x * ?c"
  let ?D1 = "2 / ?z - ?z / 2"
  let ?D0 = "1 / ?z - 1 / (2 / ?z - ?z / 2 + 1 / ?z)"
  let ?t0 = "- (\<i> * exp (\<i> * ?x))"
  let ?t1 = "- (\<i> * exp (\<i> * ?x) * (1 / ?x - \<i>))"
  let ?p0 = "sin ?x"
  let ?p1 = "sin ?x / (2 / ?x - ?x / 2 + 1 / ?x)"
  note x = tiny_size_parameter[OF assms(1,2)]
  have x1: "\<bar>?xr\<bar> < 1" using x(2) by simp
  have e: "exp (2 * \<i> * ?x) \<noteq> 1" using x(1) x1 by (rule exp_2ix_not_1)
  have "\<bar>?xr * cr\<bar> = \<bar>?xr\<bar> * \<bar>cr\<bar>" by (simp add: abs_mult)
  also have "\<dots> \<le> \<bar>?xr\<bar> * 2" using assms(4) by (intro mult_left_mono) simp_all
  also have "\<dots> < 1" using x(2) by simp
  finally have z1: "\<bar>?xr * cr\<bar> < 1" .
  have zn: "?xr * cr \<noteq> 0" using x(1) assms(3) by simp
  have "cmod ?z = \<bar>?xr * cr\<bar>" by (simp add: norm_mult abs_mult)
  then have xm: "cmod ?z < 2" using z1 by simp
  have sel: "Sphere_wiscombe_yang [?xr] [?c] = Returns 1"
    using selector_tiny(2)[OF x(2) xm] .
  have "complex_of_real (2 / (?xr * cr) - (?xr * cr) / 2 + 1 / (?xr * cr)) \<noteq> 0"
    using real_seed_denominator[OF zn z1] by (simp only: of_real_eq_0_iff) simp
  then have cz: "2 / ?z - ?z / 2 + 1 / ?z \<noteq> 0" by simp
  have "complex_of_real (2 / ?xr - ?xr / 2 + 1 / ?xr) \<noteq> 0"
    using real_seed_denominator[OF x(1) x1] by (simp only: of_real_eq_0_iff) simp
  then have cx: "2 / ?x - ?x / 2 + 1 / ?x \<noteq> 0" by simp
  have ra: "?D1 / ?c + 1 / ?x = complex_of_real ((2 / (?xr * cr) - ?xr * cr / 2) / cr + 1 / ?xr)"
    by simp
  have rb: "?c * ?D1 + 1 / ?x = complex_of_real (cr * (2 / (?xr * cr) - ?xr * cr / 2) + 1 / ?xr)"
    by simp
  have ran: "?D1 / ?c + 1 / ?x \<noteq> 0"
    unfolding ra using real_fac_a[OF x(1) assms(3) x1] by (simp only: of_real_eq_0_iff) simp
  have rbn: "?c * ?D1 + 1 / ?x \<noteq> 0"
    unfolding rb using real_fac_b[OF x(1) assms(3) z1] by (simp only: of_real_eq_0_iff) simp
  have reals: "?D0 / ?c \<in> \<real>" "?c * ?D0 \<in> \<real>" "?D1 / ?c + 1 / ?x \<in> \<real>" "?c * ?D1 + 1 / ?x \<in> \<real>"
    by (auto intro!: Reals_divide Reals_diff Reals_mult Reals_add)
  have t0: "?t0 \<noteq> 0" by simp
  have d: "(?D0 / ?c) * ?t0 - ?t1 \<noteq> 0" "(?D1 / ?c + 1 / ?x) * ?t1 - ?t0 \<noteq> 0"
    "(?c * ?D0) * ?t0 - ?t1 \<noteq> 0" "(?c * ?D1 + 1 / ?x) * ?t1 - ?t0 \<noteq> 0"
    using den_first_nonzero[OF reals(1) t0, of ?xr] den_first_nonzero[OF reals(2) t0, of ?xr]
      den_second_nonzero[OF reals(3) ran t0, of ?xr] den_second_nonzero[OF reals(4) rbn t0, of ?xr]
    by (simp_all del: of_real_mult)
  have cn: "?c \<noteq> 0" using assms(3) by simp
  define D0 where "D0 = ?D0"
  define D1 where "D1 = ?D1"
  define p0 where "p0 = ?p0"
  define p1 where "p1 = ?p1"
  define t0 where "t0 = ?t0"
  define t1 where "t1 = ?t1"
  define A where "A = ((D1 / ?c + 1 / ?x) * p1 - p0) / ((D1 / ?c + 1 / ?x) * t1 - t0)"
  define B where "B = ((?c * D1 + 1 / ?x) * p1 - p0) / ((?c * D1 + 1 / ?x) * t1 - t0)"
  have sc: "\<And>r0 r1. scattering_coefficients py_last py_last [?xr] [?c] (Suc 0) [D0, D1] [D0, D1]
      [p0, p1] [t0, t1] [r0, r1] = Returns [(0, 0), (A, B)]"
    using scattering_py_2[OF cn x(1) d, of ?p0 ?p1]
    unfolding A_def B_def D0_def D1_def p0_def p1_def t0_def t1_def by blast
  have core: "\<And>u0 u1. Sphere_core [?xr] [?c] (Suc 0) [u0, u1, 0] = Returns ([D0, D1, 0], [D0, D1], [D0, D1])"
    unfolding D0_def D1_def
    using cz zn by (simp add: Sphere_core_def py_at_def d1_loop_np_2 Let_def del: of_real_mult)
  have med: "\<And>v a0 a1 b0 b1. medium np_div py_last [?xr] (Suc (Suc 0)) (Suc 0) [D0, D1, 0] [\<i>, v] [a0, a1] [b0, b1]
      = Returns ([p0, p1], [t0, t1])"
    unfolding p0_def p1_def t0_def t1_def
    using medium_np_1[OF x(1) e cx] by simp
  have run: "Sphere_mie_coefficients mem [a] [?c] 1 1 = Returns [(0, 0), (A, B)]"
    unfolding Sphere_mie_coefficients_def
    by (simp add: py_div_def np_div_scalar_def Let_def sel np_empty_2 np_empty_3 np_empty2_2 core med sc
        del: of_real_mult)
  have nz: "A \<noteq> 0" if "cr\<^sup>2 \<noteq> 1"
  proof -
    have "(D1 / ?c + 1 / ?x) * p1 - p0 \<noteq> 0"
      unfolding D1_def p1_def p0_def using contrast_numerator[OF x(1) x1 assms(3) that] .
    moreover have "(D1 / ?c + 1 / ?x) * t1 - t0 \<noteq> 0"
      unfolding D1_def t1_def t0_def using d(2) .
    ultimately show ?thesis unfolding A_def by simp
  qed
  from run nz show ?thesis by blast
qed

section \<open>Properties of the entry points\<close>

lemma thn_Beyond: "thn r f = Beyond g \<longleftrightarrow> r = Beyond g \<or> (\<exists>u. r = Returns u \<and> f u = Beyond g)"
  by (cases r) auto

lemma thn_Raises: "thn r f = Raises e \<longleftrightarrow> r = Raises e \<or> (\<exists>u. r = Returns u \<and> f u = Raises e)"
  by (cases r) auto

lemma foldM_not_Beyond:
  assumes "\<And>x s. f x s \<noteq> Beyond g"
  shows "foldM f xs s \<noteq> Beyond g"
  using assms by (induction xs arbitrary: s) (auto simp: thn_Beyond)

lemma raises_thn_Returns: "r = Returns v \<Longrightarrow> raises (thn r f) = raises (f v)"
  by simp

lemma np_div_scalar_nonzero: "c \<noteq> 0 \<Longrightarrow> np_div_scalar xs c = Returns (map (\<lambda>v. v / c) xs)"
  by (simp add: np_div_scalar_def)

lemma Sphere_wiscombe_yang_empty_m:
  "Sphere_wiscombe_yang [x] [] = Returns (py_int (wiscombe \<bar>x\<bar>))"
  by (simp add: Sphere_wiscombe_yang_def times_xm_def np_broadcast_def np_roll_m1_def
      py_max_def py_max_step_def Let_def)

lemma Sphere_wiscombe_yang_long_m:
  assumes "2 \<le> length m"
  shows "Sphere_wiscombe_yang [x] m = Raises ValueError"
proof -
  have t: "times_xm [x] m = Returns (map (\<lambda>b. of_real x * b) m)"
    using assms by (auto simp: times_xm_def np_broadcast_def)
  have "2 \<le> length (map cmod (map (\<lambda>b. of_real x * b) m))" using assms by simp
  then show ?thesis
    by (simp add: Sphere_wiscombe_yang_def t np_roll_m1_def py_max_long Let_def)
qed

lemma Sphere_wiscombe_yang_outcome:
  "Sphere_wiscombe_yang x m \<noteq> Beyond g"
proof -
  have b: "py_bool t \<noteq> Beyond g" for t by (cases t rule: py_bool.cases) simp_all
  have c: "np_gt p q \<noteq> Beyond g" for p q
    by (cases "(p, q)" rule: np_gt.cases) (auto simp: np_broadcast_def)
  have d: "py_max_step p q \<noteq> Beyond g" for p q
    unfolding py_max_step_def using b c by (auto simp: thn_Beyond)
  have e: "py_max p qs \<noteq> Beyond g" for p qs
    unfolding py_max_def using d by (rule foldM_not_Beyond)
  have f: "py_int_of w \<noteq> Beyond g" for w by (cases w rule: py_int_of.cases) simp_all
  show ?thesis
    unfolding Sphere_wiscombe_yang_def Let_def
    using e f times_xm_not_beyond by (auto simp: thn_Beyond)
qed

lemma zero_wavelength:
  "FastSphere_mie_coefficients mem a_p n_p k_p n_m 0 = Raises ZeroDivisionError"
  "Sphere_mie_coefficients mem a_p n_p n_m 0 = Raises ZeroDivisionError"
  by (simp_all add: FastSphere_mie_coefficients_def Sphere_mie_coefficients_def py_div_def)

lemma Sphere_entry_raises:
  assumes "n_m \<noteq> 0" and "length a_p \<noteq> 1 \<or> length n_p \<noteq> 1"
  shows "raises (Sphere_mie_coefficients mem a_p n_p n_m wavelength)"
proof (cases "wavelength = 0")
  case True
  then show ?thesis by (simp add: zero_wavelength)
next
  case False
  consider (empty) "a_p = []" | (multi) "2 \<le> length a_p"
    | (nom) a where "a_p = [a]" "n_p = []"
    | (manym) a where "a_p = [a]" "2 \<le> length n_p"
    using assms(2) by (cases a_p; cases "tl a_p"; cases n_p; cases "tl n_p") auto
  then show ?thesis
  proof cases
    case empty
    then show ?thesis
      using False assms(1)
      by (simp add: Sphere_mie_coefficients_def py_div_def np_div_scalar_nonzero Let_def
          Sphere_wiscombe_yang_def)
  next
    case multi
    then show ?thesis
      using False assms(1)
      by (simp add: Sphere_mie_coefficients_def py_div_def np_div_scalar_nonzero Let_def
          Sphere_wiscombe_yang_multilayer)
  next
    case nom
    then show ?thesis
      using False assms(1)
      by (simp add: Sphere_mie_coefficients_def py_div_def np_div_scalar_nonzero Let_def
          Sphere_wiscombe_yang_empty_m Sphere_core_def py_at_def)
  next
    case manym
    then show ?thesis
      using False assms(1)
      by (simp add: Sphere_mie_coefficients_def py_div_def np_div_scalar_nonzero Let_def
          Sphere_wiscombe_yang_long_m)
  qed
qed

lemma Sphere_entry_returns:
  assumes "Sphere_mie_coefficients mem a_p n_p n_m wavelength = Returns ab"
  shows "length a_p = 1 \<and> length n_p = 1 \<and> wavelength \<noteq> 0 \<and> n_m \<noteq> 0"
proof -
  have w: "wavelength \<noteq> 0" using assms by (auto simp: zero_wavelength)
  from assms obtain x m N D ha hb where
    m: "np_div_scalar n_p n_m = Returns m"
    and core: "Sphere_core x m N ((np_empty (mem 1) (N + 2))[N + 1 := 0]) = Returns (D, ha, hb)"
    using w
    by (auto simp: Sphere_mie_coefficients_def py_div_def Let_def thn_Returns split_beta
        simp del: replicate_Suc)
  have "m \<noteq> []" using Sphere_core_Returns[OF core] by simp
  then have nm: "n_m \<noteq> 0" using m by (auto simp: np_div_scalar_def split: if_splits)
  show ?thesis
  proof (rule ccontr)
    assume "\<not> ?thesis"
    then have "length a_p \<noteq> 1 \<or> length n_p \<noteq> 1" using w nm by simp
    from Sphere_entry_raises[OF nm this, of mem wavelength] show False using assms by simp
  qed
qed

lemma FastSphere_entry_empty:
  assumes "n_m \<noteq> 0"
  shows "raises (FastSphere_mie_coefficients mem [] n_p k_p n_m wavelength)"
proof (cases "wavelength = 0")
  case True
  then show ?thesis by (simp add: zero_wavelength)
next
  case False
  have s: "FastSphere_wiscombe_yang [] m = Raises ValueError" for m
    by (simp add: FastSphere_wiscombe_yang_def times_xm_def np_broadcast_def)
  show ?thesis
  proof (cases "np_broadcast (\<lambda>n \<kappa>. n + \<i> * complex_of_real \<kappa>) n_p k_p")
    case (Returns nk)
    then show ?thesis
      using False assms
      by (simp add: FastSphere_mie_coefficients_def py_div_def np_div_scalar_nonzero s Let_def)
  next
    case (Raises e)
    then show ?thesis
      using False by (simp add: FastSphere_mie_coefficients_def py_div_def Let_def)
  next
    case (Beyond g)
    then show ?thesis by (simp add: np_broadcast_def split: if_splits)
  qed
qed

lemma negative_wavelength_FastSphere:
  "FastSphere_mie_coefficients mem [a] n_p k_p n_m (- 1) = FastSphere_mie_coefficients mem [- a] n_p k_p n_m 1"
  by (simp add: FastSphere_mie_coefficients_def py_div_def Let_def FastSphere__mie_coefficients_def)

lemma negative_wavelength_Sphere:
  "Sphere_mie_coefficients mem [a] n_p n_m (- 1) = Sphere_mie_coefficients mem [- a] n_p n_m 1"
  by (simp add: Sphere_mie_coefficients_def py_div_def Let_def)

lemma FastSphere_mismatched_lengths:
  "FastSphere_mie_coefficients mem [1 / 1000] [3 / 2, 3 / 2] [0] 1 1
     = FastSphere_mie_coefficients mem [1 / 1000] [3 / 2] [0] 1 1"
proof -
  let ?x = "2 * pi * (1 / 1000) :: real"
  have a: "FastSphere_wiscombe_yang [x] [c, c] = FastSphere_wiscombe_yang [x] [c]" for x c
    by (simp add: FastSphere_wiscombe_yang_def times_xm_def np_broadcast_def np_roll_m1_def
        np_amax_def Let_def)
  have b: "FastSphere__mie_coefficients [a] [x] [c, c] N ab d1 d2 d3 d4 p z q
         = FastSphere__mie_coefficients [a] [x] [c] N ab d1 d2 d3 d4 p z q"
    for a x c N ab d1 d2 d3 d4 p z q
    by (simp add: FastSphere__mie_coefficients_def FastSphere_core_def nb_at_def
        scattering_coefficients_def nb_last_def Let_def)
  show ?thesis
    by (simp add: FastSphere_mie_coefficients_def py_div_def np_broadcast_def np_div_scalar_def
        Let_def a b)
qed

lemma Sphere_entry_multilayer:
  assumes "2 \<le> length a_p" "n_m \<noteq> 0" "wavelength \<noteq> 0"
  shows "Sphere_mie_coefficients mem a_p n_p n_m wavelength = Raises ValueError"
  using assms
  by (simp add: Sphere_mie_coefficients_def py_div_def np_div_scalar_nonzero Let_def
      Sphere_wiscombe_yang_multilayer)

lemma returns_iff: "returns r \<longleftrightarrow> (\<exists>v. r = Returns v)"
  by (cases r) auto

lemma selector_empty:
  "Sphere_wiscombe_yang [] m = Raises IndexError" "FastSphere_wiscombe_yang [] m = Raises ValueError"
  by (simp_all add: Sphere_wiscombe_yang_def FastSphere_wiscombe_yang_def times_xm_def np_broadcast_def)


section \<open>A second layer identical to the first\<close>

lemma selector_identical:
  "FastSphere_wiscombe_yang [t, t] [c, c] = FastSphere_wiscombe_yang [t] [c]"
  by (simp add: FastSphere_wiscombe_yang_def times_xm_def np_broadcast_def np_roll_m1_def
      np_amax_def Let_def)

lemma core_identical:
  "FastSphere_core [t, t] [c, c] N d = FastSphere_core [t] [c] N d"
  by (simp add: FastSphere_core_def nb_at_def)

lemma scattering_identical:
  "scattering_coefficients nb_last nb_last [t, t] [c, c] N ha hb psi zeta ab
   = scattering_coefficients nb_last nb_last [t] [c] N ha hb psi zeta ab"
  by (simp add: scattering_coefficients_def nb_last_def)

lemma pair_loop_Suc:
  "foldM (eq16b_pair dv z1 z2) (rev [1..<Suc (Suc k)]) s
   = thn (eq16b_pair dv z1 z2 (Suc k) s) (foldM (eq16b_pair dv z1 z2) (rev [1..<Suc k]))"
proof -
  have "rev [1..<Suc (Suc k)] = Suc k # rev [1..<Suc k]" by simp
  then show ?thesis by (simp del: upt_Suc)
qed

lemma pair_loop_Returns:
  "foldM (eq16b_pair dv z1 z2) (rev [1..<Suc k]) (d, e) = Returns (d', e')
   \<longleftrightarrow> d1_loop dv z1 k d = Returns d' \<and> d1_loop dv z2 k e = Returns e'"
proof (induction k arbitrary: d e)
  case 0
  show ?case by (auto simp: d1_loop_0)
next
  case (Suc k)
  have "thn (eq16b_pair dv z1 z2 (Suc k) (d, e)) (foldM (eq16b_pair dv z1 z2) (rev [1..<Suc k])) = Returns (d', e')
     \<longleftrightarrow> (\<exists>a b. eq16b dv z1 (Suc k) d = Returns a \<and> eq16b dv z2 (Suc k) e = Returns b \<and>
            foldM (eq16b_pair dv z1 z2) (rev [1..<Suc k]) (a, b) = Returns (d', e'))"
    by (auto simp: thn_Returns eq16b_pair_def simp del: upt_Suc)
  also have "\<dots> \<longleftrightarrow> (\<exists>a b. eq16b dv z1 (Suc k) d = Returns a \<and> eq16b dv z2 (Suc k) e = Returns b \<and>
            d1_loop dv z1 k a = Returns d' \<and> d1_loop dv z2 k b = Returns e')"
    unfolding Suc.IH ..
  also have "\<dots> \<longleftrightarrow> thn (eq16b dv z1 (Suc k) d) (d1_loop dv z1 k) = Returns d' \<and>
                     thn (eq16b dv z2 (Suc k) e) (d1_loop dv z2 k) = Returns e'"
    by (auto simp: thn_Returns)
  finally show ?case unfolding pair_loop_Suc d1_loop_Suc .
qed

lemma medium_step_agree:
  assumes "length d3 = length d3'" "\<forall>i<n. d3 ! i = d3' ! i" "1 \<le> n" "n < length d3"
  shows "alike (\<lambda>(p, z, w, u) (p', z', w', u'). p = p' \<and> z = z' \<and> w = w' \<and> length u = length u' \<and>
                   length u = length d3 \<and> (\<forall>i<Suc n. u ! i = u' ! i))
           (medium_step dv z1 D n (psi, zeta, pz, d3)) (medium_step dv z1 D n (psi, zeta, pz, d3'))"
proof -
  have e: "d3 ! (n - Suc 0) = d3' ! (n - Suc 0)" using assms by simp
  have u: "\<And>v i. i < Suc n \<Longrightarrow> d3[n := v] ! i = d3'[n := v] ! i"
    using assms by (auto simp: nth_list_update less_Suc_eq)
  show ?thesis
    unfolding medium_step_def
    apply (simp add: Let_def e)
    apply (rule alike_thn[OF alike_refl])
    apply clarsimp
    apply (rule alike_thn[OF alike_refl])
    using assms u apply simp
    done
qed

lemma medium_loop_agree:
  assumes "length d3 = length d3'" "d3 ! 0 = d3' ! 0" "N < length d3"
  shows "thn (foldM (medium_step dv z1 D) [1..<Suc N] (psi, zeta, pz, d3)) (\<lambda>(p, z, w, u). Returns (p, z))
       = thn (foldM (medium_step dv z1 D) [1..<Suc N] (psi, zeta, pz, d3')) (\<lambda>(p, z, w, u). Returns (p, z))"
proof -
  define R where "R = (\<lambda>n (s :: carray \<times> carray \<times> complex \<times> carray) (t :: carray \<times> carray \<times> complex \<times> carray).
      case s of (p, z, w, u) \<Rightarrow> case t of (p', z', w', u') \<Rightarrow>
        p = p' \<and> z = z' \<and> w = w' \<and> length u = length u' \<and> length u = length d3 \<and> (\<forall>i<n. u ! i = u' ! i))"
  have start: "R 1 (psi, zeta, pz, d3) (psi, zeta, pz, d3')"
    using assms by (simp add: R_def)
  have step: "alike (R (Suc n)) (medium_step dv z1 D n s) (medium_step dv z1 D n t)"
    if "1 \<le> n" "n < Suc N" "R n s t" for n s t
  proof -
    obtain p z w u where s: "s = (p, z, w, u)" by (cases s) auto
    obtain p' z' w' u' where t: "t = (p', z', w', u')" by (cases t) auto
    from that(3) have r: "p = p'" "z = z'" "w = w'" "length u = length u'" "length u = length d3"
      "\<forall>i<n. u ! i = u' ! i"
      by (simp_all add: R_def s t)
    have "alike (\<lambda>(p, z, w, a) (p', z', w', a'). p = p' \<and> z = z' \<and> w = w' \<and> length a = length a' \<and>
                   length a = length u \<and> (\<forall>i<Suc n. a ! i = a' ! i))
           (medium_step dv z1 D n (p, z, w, u)) (medium_step dv z1 D n (p, z, w, u'))"
      using r that assms by (intro medium_step_agree) simp_all
    then show ?thesis
      unfolding s t r(1,2,3)[symmetric]
      apply (rule alike_mono)
      using r(4,5) apply (auto simp: R_def)
      done
  qed
  have "alike (R (Suc N)) (foldM (medium_step dv z1 D) [1..<Suc N] (psi, zeta, pz, d3))
                           (foldM (medium_step dv z1 D) [1..<Suc N] (psi, zeta, pz, d3'))"
    by (rule alike_foldM_up[where R = R, OF start step]) simp_all
  then have "alike (=) (thn (foldM (medium_step dv z1 D) [1..<Suc N] (psi, zeta, pz, d3)) (\<lambda>(p, z, w, u). Returns (p, z)))
                  (thn (foldM (medium_step dv z1 D) [1..<Suc N] (psi, zeta, pz, d3')) (\<lambda>(p, z, w, u). Returns (p, z)))"
    by (rule alike_thn) (auto simp: R_def)
  then show ?thesis by (simp add: alike_eq)
qed

lemma medium_agree:
  assumes "length d3 = length d3'" "d3 ! 0 = d3' ! 0" "N < length d3"
  shows "medium dv lst x hi N d1 d3 psi zeta = medium dv lst x hi N d1 d3' psi zeta"
  unfolding medium_def Let_def
  using medium_loop_agree[OF assms]
  by (intro thn_cong_Returns) simp

lemma update_h_degenerate:
  assumes r: "update_h c1 c2 D D D d3a d3b q = Returns h"
    and c: "c1 = c2"
    and l: "length d3a = length D" "length d3b = length D" "length q = length D"
  shows "h = D"
proof -
  let ?g1 = "map2 (-) (np_scale c1 D) (np_scale c2 D)"
  let ?g2 = "map2 (-) (np_scale c1 D) (np_scale c2 d3b)"
  let ?num = "map2 (-) (map2 (*) ?g2 D) (map2 (*) (map2 (*) q ?g1) d3a)"
  let ?den = "map2 (-) ?g2 (map2 (*) q ?g1)"
  have "np_quot ?num ?den = Returns h"
    using r l by (simp add: update_h_def np_sub_same np_mul_same)
  then have den: "\<forall>j<length ?den. ?den ! j \<noteq> 0" and h: "h = map2 (/) ?num ?den"
    using l by (simp_all add: np_quot_same)
  show ?thesis
  proof (rule nth_equalityI)
    show "length h = length D" using l by (simp add: h)
  next
    fix j assume "j < length h"
    then have j: "j < length D" using l by (simp add: h)
    have g1: "?g1 ! j = 0" using j by (simp add: nth_np_scale c)
    have "?den ! j \<noteq> 0" using den j l by simp
    then have g2: "?g2 ! j \<noteq> 0" using j l g1 by simp
    have "h ! j = (?g2 ! j * D ! j - q ! j * ?g1 ! j * d3a ! j) / (?g2 ! j - q ! j * ?g1 ! j)"
      using j l by (simp add: h)
    also have "\<dots> = D ! j" using g2 unfolding g1 by simp
    finally show "h ! j = D ! j" .
  qed
qed

lemma layer_loop_shape:
  assumes "foldM (FastSphere_layer_step x_im x_ii z1 z2 d1 d2) [1..<Suc N] (pz1, pz2, d3a, d3b, q)
           = Returns (pz1', pz2', d3a', d3b', q')"
  shows "length d3a' = length d3a \<and> length d3b' = length d3b \<and> length q' = length q \<and> d3a' ! 0 = d3a ! 0"
proof -
  define P where "P = (\<lambda>s :: complex \<times> complex \<times> carray \<times> carray \<times> carray.
     case s of (w1, w2, a, b, r) \<Rightarrow>
       length a = length d3a \<and> length b = length d3b \<and> length r = length q \<and> a ! 0 = d3a ! 0)"
  have "P (pz1', pz2', d3a', d3b', q')"
  proof (rule foldM_invariant[OF assms, where P = P])
    show "P (pz1, pz2, d3a, d3b, q)" by (simp add: P_def)
  next
    fix n s s'
    assume n: "n \<in> set [1..<Suc N]" and p: "P s"
      and st: "FastSphere_layer_step x_im x_ii z1 z2 d1 d2 n s = Returns s'"
    obtain w1 w2 a b r where s: "s = (w1, w2, a, b, r)" by (cases s) auto
    from n have "n \<noteq> 0" by (auto simp del: upt_Suc)
    with st p show "P s'"
      by (auto simp: s P_def FastSphere_layer_step_def thn_Returns Let_def)
  qed
  then show ?thesis by (simp add: P_def)
qed

lemma layer_identical:
  assumes lay: "FastSphere_layer [t, t] [c, c] N 1 (D, d2, d3a, d3b, q, D, D) = Returns S"
    and D: "d1_loop py_div (c * complex_of_real t) N D = Returns D"
    and d2: "same_from N d2 D"
    and l: "N < length D" "length d3a = length D" "length d3b = length D" "length q = length D"
  shows "\<exists>d3a' d3b' q'. S = (D, D, d3a', d3b', q', D, D) \<and> length d3a' = length D \<and> d3a' ! 0 = d3a ! 0"
proof -
  let ?z = "c * complex_of_real t"
  have d2': "d1_loop py_div ?z N d2 = Returns D"
    using d1_loop_agree[OF d2, of py_div ?z] d2 l D by (simp add: same_from_def)
  have pair: "foldM (eq16b_pair py_div ?z ?z) (rev [Suc 0..<Suc N]) (D, d2) = Returns (D, D)"
    using pair_loop_Returns[of py_div ?z ?z N D d2 D D] D d2' by simp
  from lay obtain q0 pz1 pz2 pz1' pz2' d3a' d3b' q' ha hb where
      loop: "foldM (FastSphere_layer_step t t ?z ?z D D) [1..<Suc N] (pz1, pz2, d3a, d3b, q[0 := q0])
             = Returns (pz1', pz2', d3a', d3b', q')"
    and ha: "update_h c c D D D d3a' d3b' q' = Returns ha"
    and hb: "update_h c c D D D d3a' d3b' q' = Returns hb"
    and S: "S = (D, D, d3a', d3b', q', ha, hb)"
    unfolding FastSphere_layer_def
    by (auto simp: nb_at_def pair thn_Returns Let_def split_beta simp del: upt_Suc rev.simps)
  from layer_loop_shape[OF loop] l
  have sh: "length d3a' = length D" "length d3b' = length D" "length q' = length D" "d3a' ! 0 = d3a ! 0"
    by simp_all
  have "ha = D" "hb = D"
    using update_h_degenerate[OF ha refl sh(1,2,3)] update_h_degenerate[OF hb refl sh(1,2,3)]
    by simp_all
  with S sh show ?thesis by simp
qed

lemma medium_identical:
  "medium dv nb_last [t, t] hi N d1 d3 psi zeta = medium dv nb_last [t] hi N d1 d3 psi zeta"
  by (simp add: medium_def nb_last_def)

lemma kernel_second_layer_returns:
  assumes core: "FastSphere_core [t] [c] N (b1[N := 0]) = Returns (D, ha, hb)"
    and lay: "FastSphere_layer [t, t] [c, c] N 1 (D, b2[N := 0], b3[0 := \<i>], b4[0 := \<i>], q, ha, hb) = Returns S"
    and l: "length b1 = Suc N" "length b2 = Suc N" "length b3 = Suc N" "length b4 = Suc N" "length q = Suc N"
  shows "FastSphere__mie_coefficients [r1, r2] [t, t] [c, c] N ab0 b1 b2 b3 b4 psi zeta q
       = FastSphere__mie_coefficients [r] [t] [c] N ab0 b1 b2 b3 b4 psi zeta q"
proof -
  let ?z = "complex_of_real t * c"
  have layers: "[1..<length [r1, r2]] = [1]" "[1..<length [r]] = []" by simp_all
  have c1: "d1_loop py_div ?z N (b1[N := 0]) = Returns D" and h: "ha = D" "hb = D"
    using FastSphere_core_Returns[OF core] l by simp_all
  have D: "d1_loop py_div ?z N D = Returns D"
    using d1_loop_again[OF _ c1] l by simp
  have sh: "length D = Suc N" "D ! N = 0"
    using d1_loop_Returns[OF _ c1] l by simp_all
  have sf: "same_from N (b2[N := 0]) D"
    using sh l by (auto simp: same_from_def less_Suc_eq)
  have D': "d1_loop py_div (c * complex_of_real t) N D = Returns D"
    using D by (simp add: mult.commute)
  from layer_identical[OF lay[unfolded h] D' sf] sh l
  obtain d3a' d3b' q' where S: "S = (D, D, d3a', d3b', q', D, D)"
    and d3: "length d3a' = Suc N" "d3a' ! 0 = \<i>"
    by auto
  have med: "medium py_div nb_last [t, t] N N D d3a' psi zeta
           = medium py_div nb_last [t] N N D (b3[0 := \<i>]) psi zeta"
    unfolding medium_identical
    using d3 l by (intro medium_agree) simp_all
  have one: "FastSphere__mie_coefficients [r] [t] [c] N ab0 b1 b2 b3 b4 psi zeta q
     = thn (medium py_div nb_last [t] N N D (b3[0 := \<i>]) psi zeta) (\<lambda>(psi, zeta).
         scattering_coefficients nb_last nb_last [t] [c] N D D psi zeta ab0)"
    unfolding FastSphere__mie_coefficients_def Let_def layers
    using core h by simp
  have two: "FastSphere__mie_coefficients [r1, r2] [t, t] [c, c] N ab0 b1 b2 b3 b4 psi zeta q
     = thn (medium py_div nb_last [t, t] N N D d3a' psi zeta) (\<lambda>(psi, zeta).
         scattering_coefficients nb_last nb_last [t, t] [c, c] N D D psi zeta ab0)"
    unfolding FastSphere__mie_coefficients_def Let_def layers
    using core lay h S by (simp add: core_identical)
  show ?thesis
    unfolding one two by (simp add: med scattering_identical)
qed

lemma kernel_identical_layers:
  assumes two: "FastSphere__mie_coefficients [r1, r2] [t, t] [c, c] N ab0 b1 b2 b3 b4 psi zeta q = Returns ab"
    and l: "length b1 = Suc N" "length b2 = Suc N" "length b3 = Suc N" "length b4 = Suc N" "length q = Suc N"
  shows "FastSphere__mie_coefficients [r] [t] [c] N ab0 b1 b2 b3 b4 psi zeta q = Returns ab"
proof -
  have layers: "[1..<length [r1, r2]] = [1]" by simp
  from two obtain D ha hb S where
      core: "FastSphere_core [t, t] [c, c] N (b1[N := 0]) = Returns (D, ha, hb)"
    and lay: "FastSphere_layer [t, t] [c, c] N 1 (D, b2[N := 0], b3[0 := \<i>], b4[0 := \<i>], q, ha, hb) = Returns S"
    unfolding FastSphere__mie_coefficients_def Let_def layers
    by (auto simp: thn_Returns split_beta)
  show ?thesis
    using kernel_second_layer_returns[OF core[unfolded core_identical] lay l, of r1 r2 ab0 psi zeta r] two
    by simp
qed

lemma entry_identical_layers:
  assumes "FastSphere_mie_coefficients mem [r, r] [n, n] [\<kappa>, \<kappa>] n_m wavelength = Returns ab"
  shows "FastSphere_mie_coefficients mem [r] [n] [\<kappa>] n_m wavelength = Returns ab"
proof -
  from assms obtain k N where k: "py_div (2 * pi) wavelength = Returns k"
    and nm: "n_m \<noteq> 0"
    and sel: "FastSphere_wiscombe_yang [k * Re n_m * r, k * Re n_m * r]
                [(n + \<i> * complex_of_real \<kappa>) / n_m, (n + \<i> * complex_of_real \<kappa>) / n_m] = Returns N"
    and ker: "FastSphere__mie_coefficients [r, r] [k * Re n_m * r, k * Re n_m * r]
                [(n + \<i> * complex_of_real \<kappa>) / n_m, (n + \<i> * complex_of_real \<kappa>) / n_m] (nat N)
                (np_empty2 (mem 0) (nat N + 1))
                (np_empty (mem 1) (nat N + 1)) (np_empty (mem 2) (nat N + 1)) (np_empty (mem 3) (nat N + 1)) (np_empty (mem 4) (nat N + 1))
                (np_empty (mem 5) (nat N + 1)) (np_empty (mem 6) (nat N + 1)) (np_empty (mem 7) (nat N + 1)) = Returns ab"
    unfolding FastSphere_mie_coefficients_def Let_def
    by (auto simp: thn_Returns np_broadcast_def np_div_scalar_Returns simp del: of_real_mult replicate_Suc)
  show ?thesis
    unfolding FastSphere_mie_coefficients_def Let_def
    using k nm sel[unfolded selector_identical] kernel_identical_layers[OF ker, of r]
    by (simp add: np_broadcast_def np_div_scalar_def del: of_real_mult replicate_Suc)
qed

lemma exp_minus_not_1:
  fixes w :: complex
  assumes "exp w \<noteq> 1"
  shows "exp (- w) \<noteq> 1"
proof
  assume "exp (- w) = 1"
  then have "inverse (exp w) = 1" by (simp add: exp_minus)
  then have "exp w = 1" by (metis inverse_1 inverse_inverse_eq)
  with assms show False by simp
qed

lemma real_not_i:
  fixes zr :: real
  shows "1 / complex_of_real zr - complex_of_real zr \<noteq> \<i>" "complex_of_real zr * \<i> \<noteq> 1"
proof -
  have "Im (1 / complex_of_real zr - complex_of_real zr) = 0" by (simp add: Im_inverse_real)
  then show "1 / complex_of_real zr - complex_of_real zr \<noteq> \<i>" by (metis imaginary_unit.simps(2) zero_neq_one)
  have "Re (complex_of_real zr * \<i>) = 0" by simp
  then show "complex_of_real zr * \<i> \<noteq> 1" by (metis one_complex.simps(1) zero_neq_one)
qed

lemma layer_1:
  fixes x cr :: real
  assumes "x \<noteq> 0" "cr \<noteq> 0" "exp (2 * \<i> * complex_of_real (cr * x)) \<noteq> 1"
  shows "returns (FastSphere_layer [x, x] [complex_of_real cr, complex_of_real cr] (Suc 0) (Suc 0)
     ([h0, 0], [v1, 0], [\<i>, w2], [\<i>, y2], [q1, q2], [h0, 0], [h0, 0]))"
proof -
  have e: "exp (- (2 * \<i> * complex_of_real (cr * x))) \<noteq> 1"
    using exp_minus_not_1[OF assms(3)] by simp
  have n: "1 / (complex_of_real cr * complex_of_real x) - complex_of_real cr * complex_of_real x \<noteq> \<i>"
    "complex_of_real cr * complex_of_real x * \<i> \<noteq> 1"
    "1 / (complex_of_real cr * complex_of_real x) \<noteq> \<i>"
    using real_not_i[of "cr * x"] inverse_real_not_i[of "cr * x"] by simp_all
  show ?thesis
    unfolding FastSphere_layer_def
    using assms e n
    apply (simp add: nb_at_def Let_def eq16b_pair_def eq16b_def py_div_def del: of_real_mult)
    apply (simp add: FastSphere_layer_step_def py_div_def Let_def del: of_real_mult)
    apply (simp add: update_h_def np_sub_def np_mul_def np_quot_def np_broadcast_def np_scale_def del: of_real_mult)
    done
qed

lemma FastSphere_kernel_two_1:
  fixes x cr :: real
  assumes "x \<noteq> 0" "cr \<noteq> 0" and "exp (2 * \<i> * complex_of_real x) \<noteq> 1"
    and "exp (2 * \<i> * complex_of_real (cr * x)) \<noteq> 1"
  shows "FastSphere__mie_coefficients [a1, a2] [x, x] [complex_of_real cr, complex_of_real cr] 1 [r0, r1]
       [u1, u2] [v1, v2] [w1, w2] [y1, y2] [p1, p2] [s1, s2] [q1, q2]
     = Returns [(0, 0), (0, 0)]"
proof -
  let ?c = "complex_of_real cr"
  let ?h0 = "1 / (complex_of_real x * ?c) - complex_of_real x * ?c"
  have core: "FastSphere_core [x] [?c] 1 ([u1, u2][1 := 0]) = Returns ([?h0, 0], [?h0, 0], [?h0, 0])"
    using FastSphere_core_1[of x ?c u1] assms by simp
  from layer_1[OF assms(1,2,4), of ?h0 v1 w2 y2 q1 q2]
  obtain S where lay: "FastSphere_layer [x, x] [?c, ?c] 1 1
      ([?h0, 0], [v1, v2][1 := 0], [w1, w2][0 := \<i>], [y1, y2][0 := \<i>], [q1, q2], [?h0, 0], [?h0, 0]) = Returns S"
    by (auto simp: returns_iff)
  show ?thesis
    using kernel_second_layer_returns[OF core lay, of a1 a2 "[r0, r1]" "[p1, p2]" "[s1, s2]" a1]
      FastSphere_kernel_1[OF assms(1,2,3), of a1 r0 r1 u1 u2 v1 v2 w1 w2 y1 y2 p1 p2 s1 s2 q1 q2]
    by simp
qed

lemma FastSphere_tiny_two_layers:
  fixes a cr :: real
  assumes "a \<noteq> 0" "\<bar>a\<bar> \<le> 1 / 1000" "cr \<noteq> 0" "\<bar>cr\<bar> \<le> 2"
  shows "FastSphere_mie_coefficients mem [a, a] [complex_of_real cr, complex_of_real cr] [0, 0] 1 1
       = Returns [(0, 0), (0, 0)]"
proof -
  let ?x = "2 * pi * a"
  note x = tiny_size_parameter[OF assms(1,2)]
  have e: "exp (2 * \<i> * complex_of_real ?x) \<noteq> 1"
    using x by (intro exp_2ix_not_1) simp_all
  have "\<bar>cr * ?x\<bar> = \<bar>?x\<bar> * \<bar>cr\<bar>" by (simp add: abs_mult)
  also have "\<dots> \<le> \<bar>?x\<bar> * 2" using assms(4) by (intro mult_left_mono) simp_all
  also have "\<dots> < 1" using x(2) by simp
  finally have s: "\<bar>cr * ?x\<bar> < 1" .
  have e2: "exp (2 * \<i> * complex_of_real (cr * ?x)) \<noteq> 1"
    using s x(1) assms(3) by (intro exp_2ix_not_1) simp_all
  have "cmod (complex_of_real ?x * complex_of_real cr) = \<bar>?x\<bar> * \<bar>cr\<bar>"
    by (simp add: norm_mult abs_mult)
  also have "\<dots> \<le> \<bar>?x\<bar> * 2" using assms(4) by (intro mult_left_mono) simp_all
  also have "\<dots> < 2" using x(2) by simp
  finally have xm: "cmod (complex_of_real ?x * complex_of_real cr) < 2" .
  have sel: "FastSphere_wiscombe_yang [?x, ?x] [complex_of_real cr, complex_of_real cr] = Returns 1"
    unfolding selector_identical using selector_tiny(1)[OF x(2) xm] .
  have ker: "\<And>r0 r1 u1 u2 v1 v2 w1 w2 y1 y2 p1 p2 s1 s2 q1 q2.
       FastSphere__mie_coefficients [a, a] [?x, ?x] [complex_of_real cr, complex_of_real cr] (Suc 0)
       [r0, r1] [u1, u2] [v1, v2] [w1, w2] [y1, y2] [p1, p2] [s1, s2] [q1, q2] = Returns [(0, 0), (0, 0)]"
    using FastSphere_kernel_two_1[OF x(1) assms(3) e e2] by simp
  show ?thesis
    unfolding FastSphere_mie_coefficients_def
    by (simp add: py_div_def np_broadcast_def np_div_scalar_def Let_def sel ker np_empty_2 np_empty2_2
        del: of_real_mult)
qed

section \<open>A small sphere of truncation order two\<close>

text \<open>
  At order one FastSphere.py returns zero rows for one layer whatever its index,
  because its seed \<open>D1[N] = 0\<close> makes the numerators of row \<open>N\<close> vanish.  The lemmas below follow
  a run of order two through every division, for a real relative index: row 1 is
  then a coefficient that vanishes only without contrast.
\<close>

lemma d1_loop_py_2:
  assumes "z \<noteq> 0" "2 / z - z / 2 + 1 / z \<noteq> 0"
  shows "d1_loop py_div z (Suc (Suc 0)) [u0, u1, 0]
       = Returns [1 / z - 1 / (2 / z - z / 2 + 1 / z), 2 / z - z / 2, 0]"
  using assms
  by (simp add: d1_loop_def eq16b_def py_div_def)

lemma cmod_exp_2ix: "cmod (exp (2 * \<i> * complex_of_real t)) = 1"
  by (simp add: norm_exp_eq_Re)

lemma second_step_nonzero:
  fixes t :: real
  assumes "t \<noteq> 0" "\<bar>t\<bar> < 1"
  shows "\<i> * (6 / complex_of_real t - complex_of_real t) * 2 /
        ((1 - exp (2 * \<i> * complex_of_real t)) * (1 / complex_of_real t - \<i>)) \<noteq> complex_of_real t"
proof
  let ?T = "complex_of_real t"
  let ?den = "(1 - exp (2 * \<i> * ?T)) * (1 / ?T - \<i>)"
  assume e: "\<i> * (6 / ?T - ?T) * 2 / ?den = ?T"
  have T: "?T \<noteq> 0" using assms(1) by simp
  have den: "?den \<noteq> 0"
  proof
    assume "?den = 0"
    with e have "?T = 0" by simp
    with T show False by simp
  qed
  from e den have "\<i> * (6 / ?T - ?T) * 2 = ?T * ?den" by (simp add: field_simps)
  then have "cmod (\<i> * (6 / ?T - ?T) * 2) = cmod (?T * ?den)" by simp
  moreover have "cmod (\<i> * (6 / ?T - ?T) * 2) = 2 * \<bar>6 / t - t\<bar>"
  proof -
    have "6 / ?T - ?T = complex_of_real (6 / t - t)" by simp
    then show ?thesis by (simp only: norm_mult norm_of_real) simp
  qed
  moreover have "cmod (?T * ?den) \<le> \<bar>t\<bar> * (2 * (1 / \<bar>t\<bar> + 1))"
  proof -
    have a: "cmod (1 - exp (2 * \<i> * ?T)) \<le> 2"
      using norm_triangle_ineq4[of 1 "exp (2 * \<i> * ?T)"] by (simp add: cmod_exp_2ix)
    have "1 / ?T = complex_of_real (1 / t)" by simp
    then have "cmod (1 / ?T) = 1 / \<bar>t\<bar>" by (simp only: norm_of_real) simp
    then have b: "cmod (1 / ?T - \<i>) \<le> 1 / \<bar>t\<bar> + 1"
      using norm_triangle_ineq4[of "1 / ?T" \<i>] by simp
    have "cmod ?den \<le> 2 * (1 / \<bar>t\<bar> + 1)"
      unfolding norm_mult using a b by (intro mult_mono) simp_all
    then show ?thesis
      unfolding norm_mult[of ?T ?den] by (simp add: mult_left_mono)
  qed
  ultimately have "2 * \<bar>6 / t - t\<bar> \<le> \<bar>t\<bar> * (2 * (1 / \<bar>t\<bar> + 1))" by simp
  also have "\<dots> = 2 + 2 * \<bar>t\<bar>" using assms(1) by (simp add: field_simps)
  finally have u: "\<bar>6 / t - t\<bar> \<le> 1 + \<bar>t\<bar>" by simp
  have "6 / t - t = (6 - t\<^sup>2) / t" using assms(1) by (simp add: field_simps power2_eq_square)
  then have "\<bar>6 / t - t\<bar> = \<bar>6 - t\<^sup>2\<bar> / \<bar>t\<bar>" by simp
  moreover have "t\<^sup>2 < 1" using assms(2) by (simp add: abs_square_less_1)
  ultimately have "\<bar>6 / t - t\<bar> = (6 - t\<^sup>2) / \<bar>t\<bar>" by simp
  moreover have "(6 - t\<^sup>2) / \<bar>t\<bar> > 5"
  proof -
    have "5 * \<bar>t\<bar> < 5" using assms(2) by simp
    also have "5 < 6 - t\<^sup>2" using \<open>t\<^sup>2 < 1\<close> by simp
    finally show ?thesis using assms(1) by (simp add: field_simps)
  qed
  ultimately show False using u assms(2) by linarith
qed

lemma eq5_3:
  assumes "f0 * t0 - t2 \<noteq> 0" "f1 * t1 - t0 \<noteq> 0" "f2 * t2 - t1 \<noteq> 0"
  shows "eq5 [f0, f1, f2] [p0, p1, p2] [t0, t1, t2]
         = Returns [(f0 * p0 - p2) / (f0 * t0 - t2), (f1 * p1 - p0) / (f1 * t1 - t0),
                    (f2 * p2 - p1) / (f2 * t2 - t1)]"
  using assms
  by (simp add: eq5_def np_mul_def np_sub_def np_quot_def np_broadcast_def np_roll_1_def)

lemma scattering_3:
  assumes "c \<noteq> 0" "x \<noteq> 0"
    and "(h0 / c) * t0 - t2 \<noteq> 0" "(h1 / c + 1 / complex_of_real x) * t1 - t0 \<noteq> 0"
      "(h2 / c + 2 / complex_of_real x) * t2 - t1 \<noteq> 0"
    and "(c * g0) * t0 - t2 \<noteq> 0" "(c * g1 + 1 / complex_of_real x) * t1 - t0 \<noteq> 0"
      "(c * g2 + 2 / complex_of_real x) * t2 - t1 \<noteq> 0"
  shows "scattering_coefficients nb_last nb_last [x] [c] (Suc (Suc 0)) [h0, h1, h2] [g0, g1, g2]
       [p0, p1, p2] [t0, t1, t2] [r0, r1, r2]
     = Returns [(0, 0),
         (((h1 / c + 1 / complex_of_real x) * p1 - p0) / ((h1 / c + 1 / complex_of_real x) * t1 - t0),
          ((c * g1 + 1 / complex_of_real x) * p1 - p0) / ((c * g1 + 1 / complex_of_real x) * t1 - t0)),
         (((h2 / c + 2 / complex_of_real x) * p2 - p1) / ((h2 / c + 2 / complex_of_real x) * t2 - t1),
          ((c * g2 + 2 / complex_of_real x) * p2 - p1) / ((c * g2 + 2 / complex_of_real x) * t2 - t1))]"
proof -
  have a: "eq5 [h0 / c, h1 / c + 1 / complex_of_real x, h2 / c + 2 / complex_of_real x] [p0, p1, p2] [t0, t1, t2]
     = Returns [(h0 / c * p0 - p2) / (h0 / c * t0 - t2),
        ((h1 / c + 1 / complex_of_real x) * p1 - p0) / ((h1 / c + 1 / complex_of_real x) * t1 - t0),
        ((h2 / c + 2 / complex_of_real x) * p2 - p1) / ((h2 / c + 2 / complex_of_real x) * t2 - t1)]"
    by (rule eq5_3) (use assms in simp_all)
  have b: "eq5 [c * g0, c * g1 + 1 / complex_of_real x, c * g2 + 2 / complex_of_real x] [p0, p1, p2] [t0, t1, t2]
     = Returns [(c * g0 * p0 - p2) / (c * g0 * t0 - t2),
        ((c * g1 + 1 / complex_of_real x) * p1 - p0) / ((c * g1 + 1 / complex_of_real x) * t1 - t0),
        ((c * g2 + 2 / complex_of_real x) * p2 - p1) / ((c * g2 + 2 / complex_of_real x) * t2 - t1)]"
    by (rule eq5_3) (use assms in simp_all)
  show ?thesis
    using assms(1,2)
    by (simp add: scattering_coefficients_def nb_last_def np_div_scalar_def np_add_def np_scale_def
        np_broadcast_def a b set_column0_def set_column1_def upt_rec)
qed

lemma Re_unit_fraction:
  fixes t :: real
  assumes "exp (2 * \<i> * complex_of_real t) \<noteq> 1"
  shows "Re (1 / (1 - exp (2 * \<i> * complex_of_real t))) = 1 / 2"
proof -
  have e: "exp (2 * \<i> * complex_of_real t) = cis (2 * t)"
    by (simp add: cis_conv_exp mult.assoc mult.left_commute)
  have c: "cos (2 * t) \<noteq> 1"
  proof
    assume h: "cos (2 * t) = 1"
    then have "sin (2 * t) = 0" using sin_cos_squared_add[of "2 * t"] by simp
    with h have "cis (2 * t) = 1" by (simp add: complex_eq_iff)
    with assms e show False by simp
  qed
  have "Re (1 / (1 - cis (2 * t))) = (1 - cos (2 * t)) / ((1 - cos (2 * t))\<^sup>2 + (sin (2 * t))\<^sup>2)"
    by (simp add: Re_divide)
  also have "(1 - cos (2 * t))\<^sup>2 + (sin (2 * t))\<^sup>2 = 2 * (1 - cos (2 * t))"
    using sin_cos_squared_add[of "2 * t"] by (simp add: power2_eq_square algebra_simps)
  also have "(1 - cos (2 * t)) / (2 * (1 - cos (2 * t))) = 1 / 2" using c by simp
  finally show ?thesis unfolding e .
qed

lemma factor_cancel:
  fixes b :: complex
  assumes "b \<noteq> 0"
  shows "b * (X - Y / (E * b)) = b * X - Y * (1 / E)"
  using assms by (simp add: field_simps)

lemma Im_i_real: "Im (\<i> * complex_of_real s * u) = s * Re u"
  by simp

lemma factor_left:
  fixes a :: complex
  shows "r * a - a * X = a * (r - X)" "f * (a * X) - a = a * (f * X - 1)"
  by (simp_all add: algebra_simps)

lemma last_denominator:
  fixes T :: complex
  assumes "T \<noteq> 0"
  shows "2 / T * (T / 2 - Y / D) - 1 = - (2 * Y / (T * D))"
  using assms by (simp add: field_simps)

lemma outgoing_denominators:
  fixes t :: real
  assumes t: "t \<noteq> 0" "\<bar>t\<bar> < 1" and e: "exp (2 * \<i> * complex_of_real t) \<noteq> 1" and r: "r \<in> \<real>"
  defines "T \<equiv> complex_of_real t"
  defines "t0 \<equiv> - (\<i> * exp (\<i> * T))"
  defines "t1 \<equiv> - (\<i> * exp (\<i> * T) * (1 / T - \<i>))"
  defines "t2 \<equiv> - (\<i> * exp (\<i> * T) * (1 / T - \<i>) *
                    (T / 2 - \<i> * (6 / T - T) / ((1 - exp (2 * \<i> * T)) * (1 / T - \<i>))))"
  shows "r * t0 - t2 \<noteq> 0" "r * t1 - t0 \<noteq> 0" "2 / T * t2 - t1 \<noteq> 0"
proof -
  let ?b = "1 / T - \<i>"
  let ?u = "1 / (1 - exp (2 * \<i> * T))"
  let ?W = "T / 2 - \<i> * (6 / T - T) / ((1 - exp (2 * \<i> * T)) * ?b)"
  have T0: "T \<noteq> 0" using t(1) by (simp add: T_def)
  have b: "?b \<noteq> 0" using inverse_real_not_i[of t] by (simp add: T_def)
  have e': "1 - exp (2 * \<i> * T) \<noteq> 0" using e by (simp add: T_def)
  have t0: "t0 \<noteq> 0" by (simp add: t0_def)
  have t1': "t1 = t0 * ?b" unfolding t0_def t1_def by (simp only: mult_minus_left)
  have t2': "t2 = t0 * (?b * ?W)" "t2 = t1 * ?W"
    unfolding t0_def t1_def t2_def by (simp_all only: mult_minus_left mult.assoc)
  have Imr: "Im r = 0" using r by (auto elim: Reals_cases)
  have ImT: "Im T = 0" "Re T = t" "Im (1 / T) = 0" "Re (1 / T) = 1 / t"
    by (simp_all add: T_def Im_divide Re_divide power2_eq_square)
  have Reu: "Re ?u = 1 / 2" using Re_unit_fraction[OF e] by (simp add: T_def)
  have s: "6 / T - T = complex_of_real (6 / t - t)" by (simp add: T_def)
  have bW: "?b * ?W = ?b * (T / 2) - \<i> * complex_of_real (6 / t - t) * ?u"
    unfolding s using factor_cancel[OF b, of "T / 2" "\<i> * complex_of_real (6 / t - t)" "1 - exp (2 * \<i> * T)"] .
  have i1: "Im (?b * (T / 2)) = - t / 2" by (simp add: ImT)
  have i2: "Im (\<i> * complex_of_real (6 / t - t) * ?u) = (6 / t - t) / 2"
    unfolding Im_i_real Reu by simp
  have "Im (?b * ?W) = - t / 2 - (6 / t - t) / 2"
    unfolding bW minus_complex.sel i1 i2 ..
  also have "\<dots> = - 3 / t" using t(1) by (simp add: field_simps)
  finally have ImbW: "Im (?b * ?W) = - 3 / t" .
  have "Im (r - ?b * ?W) = 3 / t" unfolding minus_complex.sel Imr ImbW by simp
  then have "r - ?b * ?W \<noteq> 0" using t(1) by (intro Im_nonzero) simp
  moreover have "r * t0 - t2 = t0 * (r - ?b * ?W)"
    unfolding t2'(1) by (rule factor_left(1))
  ultimately show "r * t0 - t2 \<noteq> 0" using t0 by simp
  have "r * ?b - 1 \<noteq> 0"
  proof (cases "r = 0")
    case True then show ?thesis by simp
  next
    case False
    have "Im (r * ?b - 1) = - Re r" by (simp add: Imr ImT)
    moreover have "Re r \<noteq> 0" using False Imr by (auto simp: complex_eq_iff)
    ultimately show ?thesis by (intro Im_nonzero) simp
  qed
  moreover have "r * t1 - t0 = t0 * (r * ?b - 1)"
    unfolding t1' by (rule factor_left(2))
  ultimately show "r * t1 - t0 \<noteq> 0" using t0 by simp
  have six: "6 / T - T \<noteq> 0"
  proof -
    have "6 / t - t \<noteq> 0"
    proof
      assume "6 / t - t = 0"
      then have "t * t = 6" using t(1) by (simp add: field_simps)
      moreover have "t * t < 1" using t(2) abs_square_less_1[of t] by (simp add: power2_eq_square)
      ultimately show False by simp
    qed
    then show ?thesis unfolding s by (simp only: of_real_eq_0_iff) simp
  qed
  have "2 / T * ?W - 1 = - (2 * (\<i> * (6 / T - T)) / (T * ((1 - exp (2 * \<i> * T)) * ?b)))"
    by (rule last_denominator[OF T0])
  moreover have "2 * (\<i> * (6 / T - T)) / (T * ((1 - exp (2 * \<i> * T)) * ?b)) \<noteq> 0"
    using T0 b e' six by simp
  ultimately have "2 / T * ?W - 1 \<noteq> 0" by simp
  moreover have "2 / T * t2 - t1 = t1 * (2 / T * ?W - 1)"
    unfolding t2'(2) by (rule factor_left(2))
  moreover have "t1 \<noteq> 0" using b by (simp add: t1_def)
  ultimately show "2 / T * t2 - t1 \<noteq> 0" by simp
qed

lemma medium_py_2:
  fixes x :: real
  assumes "x \<noteq> 0" "\<bar>x\<bar> < 1"
  shows "medium py_div nb_last [x] (Suc (Suc 0)) (Suc (Suc 0)) [u0, u1, 0] [\<i>, v1, v2] [a0, a1, a2] [b0, b1, b2]
    = Returns
       ([sin (complex_of_real x),
         sin (complex_of_real x) / (3 / complex_of_real x - complex_of_real x / 2),
         sin (complex_of_real x) * complex_of_real x / (6 / complex_of_real x - complex_of_real x)],
        [- (\<i> * exp (\<i> * complex_of_real x)),
         - (\<i> * exp (\<i> * complex_of_real x) * (1 / complex_of_real x - \<i>)),
         - (\<i> * exp (\<i> * complex_of_real x) * (1 / complex_of_real x - \<i>) *
            (complex_of_real x / 2 -
             \<i> * (6 / complex_of_real x - complex_of_real x) /
             ((1 - exp (2 * \<i> * complex_of_real x)) * (1 / complex_of_real x - \<i>))))])"
proof -
  have e: "exp (2 * \<i> * complex_of_real x) \<noteq> 1" using assms by (rule exp_2ix_not_1)
  have "complex_of_real (2 / x - x / 2 + 1 / x) \<noteq> 0"
    using real_seed_denominator[OF assms] by (simp only: of_real_eq_0_iff) simp
  then have s: "2 / complex_of_real x - complex_of_real x / 2 + 1 / complex_of_real x \<noteq> 0" by simp
  show ?thesis
    using assms e s inverse_real_not_i[of x] second_step_nonzero[of x]
    by (simp add: medium_def nb_last_def d1_loop_py_2 medium_step_def py_div_def Let_def)
qed

lemma FastSphere_core_2:
  assumes "complex_of_real x * c \<noteq> 0"
    and "2 / (complex_of_real x * c) - complex_of_real x * c / 2 + 1 / (complex_of_real x * c) \<noteq> 0"
  shows "FastSphere_core [x] [c] (Suc (Suc 0)) [u0, u1, 0]
     = Returns ([1 / (complex_of_real x * c) - 1 / (2 / (complex_of_real x * c) - complex_of_real x * c / 2 + 1 / (complex_of_real x * c)),
                 2 / (complex_of_real x * c) - complex_of_real x * c / 2, 0],
                [1 / (complex_of_real x * c) - 1 / (2 / (complex_of_real x * c) - complex_of_real x * c / 2 + 1 / (complex_of_real x * c)),
                 2 / (complex_of_real x * c) - complex_of_real x * c / 2, 0],
                [1 / (complex_of_real x * c) - 1 / (2 / (complex_of_real x * c) - complex_of_real x * c / 2 + 1 / (complex_of_real x * c)),
                 2 / (complex_of_real x * c) - complex_of_real x * c / 2, 0])"
  using assms by (simp add: FastSphere_core_def nb_at_def d1_loop_py_2 Let_def)

lemma FastSphere_kernel_2:
  fixes x cr :: real
  assumes x: "x \<noteq> 0" "\<bar>x\<bar> < 1" and c: "cr \<noteq> 0" and z1: "\<bar>x * cr\<bar> < 1"
  shows "\<exists>A1 B1 A2 B2.
     (\<forall>a r0 r1 r2 u0 u1 u2 v0 v1 v2 w0 w1 w2 y0 y1 y2 p0 p1 p2 s0 s1 s2 q0 q1 q2.
        FastSphere__mie_coefficients [a] [x] [complex_of_real cr] (Suc (Suc 0)) [r0, r1, r2]
          [u0, u1, u2] [v0, v1, v2] [w0, w1, w2] [y0, y1, y2] [p0, p1, p2] [s0, s1, s2] [q0, q1, q2]
        = Returns [(0, 0), (A1, B1), (A2, B2)]) \<and>
     (cr\<^sup>2 \<noteq> 1 \<longrightarrow> A1 \<noteq> 0)"
proof -
  let ?x = "complex_of_real x" and ?c = "complex_of_real cr"
  let ?z = "?x * ?c"
  let ?E1 = "2 / ?z - ?z / 2"
  let ?E0 = "1 / ?z - 1 / (2 / ?z - ?z / 2 + 1 / ?z)"
  let ?P0 = "sin ?x"
  let ?P1 = "sin ?x / (3 / ?x - ?x / 2)"
  let ?P2 = "sin ?x * ?x / (6 / ?x - ?x)"
  let ?T0 = "- (\<i> * exp (\<i> * ?x))"
  let ?T1 = "- (\<i> * exp (\<i> * ?x) * (1 / ?x - \<i>))"
  let ?T2 = "- (\<i> * exp (\<i> * ?x) * (1 / ?x - \<i>) *
            (?x / 2 - \<i> * (6 / ?x - ?x) / ((1 - exp (2 * \<i> * ?x)) * (1 / ?x - \<i>))))"
  have e: "exp (2 * \<i> * ?x) \<noteq> 1" using x by (rule exp_2ix_not_1)
  have zn: "x * cr \<noteq> 0" using x(1) c by simp
  have z: "?z \<noteq> 0" using zn by simp
  have "complex_of_real (2 / (x * cr) - (x * cr) / 2 + 1 / (x * cr)) \<noteq> 0"
    using real_seed_denominator[OF zn z1] by (simp only: of_real_eq_0_iff) simp
  then have cz: "2 / ?z - ?z / 2 + 1 / ?z \<noteq> 0" by simp
  have cn: "?c \<noteq> 0" using c by simp
  have reals: "?E0 / ?c \<in> \<real>" "?c * ?E0 \<in> \<real>" "?E1 / ?c + 1 / ?x \<in> \<real>" "?c * ?E1 + 1 / ?x \<in> \<real>"
    by (auto intro!: Reals_divide Reals_diff Reals_mult Reals_add)
  note od = outgoing_denominators[OF x e]
  have d: "(?E0 / ?c) * ?T0 - ?T2 \<noteq> 0" "(?E1 / ?c + 1 / ?x) * ?T1 - ?T0 \<noteq> 0"
      "(0 / ?c + 2 / ?x) * ?T2 - ?T1 \<noteq> 0"
      "(?c * ?E0) * ?T0 - ?T2 \<noteq> 0" "(?c * ?E1 + 1 / ?x) * ?T1 - ?T0 \<noteq> 0"
      "(?c * 0 + 2 / ?x) * ?T2 - ?T1 \<noteq> 0"
    using od(1)[OF reals(1)] od(2)[OF reals(3)] od(3)[OF reals(1)]
      od(1)[OF reals(2)] od(2)[OF reals(4)]
    by (simp_all del: of_real_mult)
  define E0 where "E0 = ?E0"
  define E1 where "E1 = ?E1"
  define P0 where "P0 = ?P0"
  define P1 where "P1 = ?P1"
  define P2 where "P2 = ?P2"
  define T0 where "T0 = ?T0"
  define T1 where "T1 = ?T1"
  define T2 where "T2 = ?T2"
  define A1 where "A1 = ((E1 / ?c + 1 / ?x) * P1 - P0) / ((E1 / ?c + 1 / ?x) * T1 - T0)"
  define B1 where "B1 = ((?c * E1 + 1 / ?x) * P1 - P0) / ((?c * E1 + 1 / ?x) * T1 - T0)"
  define A2 where "A2 = ((0 / ?c + 2 / ?x) * P2 - P1) / ((0 / ?c + 2 / ?x) * T2 - T1)"
  define B2 where "B2 = ((?c * 0 + 2 / ?x) * P2 - P1) / ((?c * 0 + 2 / ?x) * T2 - T1)"
  have sc: "\<And>r0 r1 r2. scattering_coefficients nb_last nb_last [x] [?c] (Suc (Suc 0)) [E0, E1, 0] [E0, E1, 0]
      [P0, P1, P2] [T0, T1, T2] [r0, r1, r2] = Returns [(0, 0), (A1, B1), (A2, B2)]"
    using scattering_3[OF cn x(1) d, of ?P0 ?P1 ?P2]
    unfolding A1_def B1_def A2_def B2_def E0_def E1_def P0_def P1_def P2_def T0_def T1_def T2_def by blast
  have core: "\<And>u0 u1. FastSphere_core [x] [?c] (Suc (Suc 0)) [u0, u1, 0]
      = Returns ([E0, E1, 0], [E0, E1, 0], [E0, E1, 0])"
    unfolding E0_def E1_def using FastSphere_core_2[OF z cz] by simp
  have med: "\<And>v1 v2 a0 a1 a2 b0 b1 b2. medium py_div nb_last [x] (Suc (Suc 0)) (Suc (Suc 0)) [E0, E1, 0]
      [\<i>, v1, v2] [a0, a1, a2] [b0, b1, b2] = Returns ([P0, P1, P2], [T0, T1, T2])"
    unfolding P0_def P1_def P2_def T0_def T1_def T2_def
    using medium_py_2[OF x] by simp
  have run: "FastSphere__mie_coefficients [a] [x] [?c] (Suc (Suc 0)) [r0, r1, r2]
       [u0, u1, u2] [v0, v1, v2] [w0, w1, w2] [y0, y1, y2] [p0, p1, p2] [s0, s1, s2] [q0, q1, q2]
     = Returns [(0, 0), (A1, B1), (A2, B2)]"
    for a r0 r1 r2 u0 u1 u2 v0 v1 v2 w0 w1 w2 y0 y1 y2 p0 p1 p2 s0 s1 s2 q0 q1 q2
    unfolding FastSphere__mie_coefficients_def
    by (simp add: core med sc Let_def del: of_real_mult)
  have nz: "A1 \<noteq> 0" if "cr\<^sup>2 \<noteq> 1"
  proof -
    have "3 / ?x - ?x / 2 = 2 / ?x - ?x / 2 + 1 / ?x" by simp
    then have "(E1 / ?c + 1 / ?x) * P1 - P0 \<noteq> 0"
      unfolding E1_def P1_def P0_def using contrast_numerator[OF x c that] by simp
    moreover have "(E1 / ?c + 1 / ?x) * T1 - T0 \<noteq> 0"
      unfolding E1_def T1_def T0_def using d(2) .
    ultimately show ?thesis unfolding A1_def by simp
  qed
  from run nz show ?thesis by blast
qed

lemma q_denominator:
  fixes Z :: complex
  assumes "Z \<noteq> 0" and "Y * 2 \<noteq> Z"
  shows "Z * (2 / Z - Z / 2 + Y) \<noteq> 2"
proof
  assume a: "Z * (2 / Z - Z / 2 + Y) = 2"
  have "Z * (2 / Z - Z / 2 + Y) = 2 + Z * (Y - Z / 2)"
    using assms(1) by (simp add: algebra_simps)
  with a have "Z * (Y - Z / 2) = 0" by simp
  then have "Y = Z / 2" using assms(1) by simp
  then have "Y * 2 = Z" by simp
  with assms(2) show False by simp
qed

lemma layer_2:
  fixes x cr :: real
  assumes x: "x \<noteq> 0" and c: "cr \<noteq> 0" and z1: "\<bar>cr * x\<bar> < 1"
  shows "returns (FastSphere_layer [x, x] [complex_of_real cr, complex_of_real cr] (Suc (Suc 0)) (Suc 0)
     ([h0, h1, 0], [v0, v1, 0], [\<i>, w1, w2], [\<i>, y1, y2], [q0, q1, q2], [h0, h1, 0], [h0, h1, 0]))"
proof -
  let ?Z = "complex_of_real cr * complex_of_real x"
  let ?e = "exp (2 * \<i> * complex_of_real (cr * x))"
  have zn: "cr * x \<noteq> 0" using x c by simp
  have Z: "?Z \<noteq> 0" using zn by simp
  have e: "?e \<noteq> 1" using zn z1 by (rule exp_2ix_not_1)
  have e': "exp (- (2 * \<i> * complex_of_real (cr * x))) \<noteq> 1"
    using exp_minus_not_1[OF e] by simp
  have "complex_of_real (2 / (cr * x) - (cr * x) / 2 + 1 / (cr * x)) \<noteq> 0"
    using real_seed_denominator[OF zn z1] by (simp only: of_real_eq_0_iff) simp
  then have s: "2 / ?Z - ?Z / 2 + 1 / ?Z \<noteq> 0" by simp
  have n: "?Z * \<i> \<noteq> 1" "1 / ?Z \<noteq> \<i>"
    using real_not_i[of "cr * x"] inverse_real_not_i[of "cr * x"] by simp_all
  have "Im (1 / ?Z - 1 / (3 / ?Z - ?Z / 2)) = 0"
  proof -
    have "1 / ?Z - 1 / (3 / ?Z - ?Z / 2) = complex_of_real (1 / (cr * x) - 1 / (3 / (cr * x) - (cr * x) / 2))"
      by simp
    then show ?thesis by (simp only: Im_complex_of_real)
  qed
  then have c1: "1 / ?Z - 1 / (3 / ?Z - ?Z / 2) \<noteq> \<i>"
    by (metis imaginary_unit.simps(2) zero_neq_one)
  have c4: "\<i> * (6 / ?Z - ?Z) * 2 / ((1 - ?e) * (1 / ?Z - \<i>)) \<noteq> ?Z"
    using second_step_nonzero[OF zn z1] by simp
  have c3: "?Z * (2 / ?Z - ?Z / 2 + \<i> * (6 / ?Z - ?Z) / ((1 - ?e) * (1 / ?Z - \<i>))) \<noteq> 2"
    using q_denominator[OF Z, of "\<i> * (6 / ?Z - ?Z) / ((1 - ?e) * (1 / ?Z - \<i>))"] c4 by simp
  have "complex_of_real ((cr * x) * (2 / (cr * x) - (cr * x) / 2) + 1) \<noteq> 0"
  proof -
    have "(cr * x) * (2 / (cr * x) - (cr * x) / 2) + 1 = 3 - (cr * x)\<^sup>2 / 2"
      using zn by (simp add: field_simps power2_eq_square)
    moreover have "(cr * x)\<^sup>2 < 1" using z1 by (simp add: abs_square_less_1)
    ultimately have "(cr * x) * (2 / (cr * x) - (cr * x) / 2) + 1 \<noteq> 0" by simp
    then show ?thesis by (simp only: of_real_eq_0_iff) simp
  qed
  then have c6: "?Z * (2 / ?Z - ?Z / 2) + 1 \<noteq> 0" by simp
  have c2: "12 / ?Z \<noteq> ?Z * 2"
  proof
    assume "12 / ?Z = ?Z * 2"
    then have "2 / ?Z - ?Z / 2 + 1 / ?Z = 0" using Z by (simp add: field_simps)
    with s show False by simp
  qed
  show ?thesis
    unfolding FastSphere_layer_def
    using x c e e' s n c1 c2 c3 c4 c6
    apply (simp add: nb_at_def Let_def eq16b_pair_def eq16b_def py_div_def del: of_real_mult)
    apply (simp add: FastSphere_layer_step_def py_div_def Let_def del: of_real_mult)
    apply (simp add: update_h_def np_sub_def np_mul_def np_quot_def np_broadcast_def np_scale_def del: of_real_mult)
    done
qed

lemma wiscombe_small:
  assumes "1 / 64 \<le> xl" "xl \<le> 1 / 27"
  shows "wiscombe xl = 2"
proof -
  have lo: "1 / 4 \<le> xl powr (1 / 3)"
    using assms by (intro cbrt_ge) (simp_all add: power3_eq_cube)
  have "xl powr (1 / 3) \<le> (1 / 27) powr (1 / 3)"
    using assms by (intro powr_mono2) simp_all
  also have "(1 / 27 :: real) = (1 / 3) ^ 3" by (simp add: power3_eq_cube)
  also have "((1 / 3 :: real) ^ 3) powr (1 / 3) = 1 / 3" by (rule cbrt_cube) simp
  finally have hi: "xl powr (1 / 3) \<le> 1 / 3" .
  have "\<lfloor>xl + 4 * xl powr (1 / 3) + 1\<rfloor> = 2"
    using assms lo hi by (simp add: floor_eq_iff)
  then show ?thesis using assms by (simp add: wiscombe_def)
qed

lemma py_int_max_2: "0 \<le> v \<Longrightarrow> v < 3 \<Longrightarrow> py_int (max 2 v) = 2"
  by (auto simp: py_int_def max_def floor_eq_iff)

lemma selector_small:
  assumes "1 / 64 \<le> \<bar>x\<bar>" "\<bar>x\<bar> \<le> 1 / 27" "cmod (complex_of_real x * c) < 3"
  shows "FastSphere_wiscombe_yang [x] [c] = Returns 2"
  using assms
  by (simp add: FastSphere_wiscombe_yang_single wiscombe_small py_int_max_2)

lemma small_size_parameter:
  fixes a :: real
  assumes "1 / 256 \<le> a" "a \<le> 1 / 216"
  shows "2 * pi * a \<noteq> 0" "1 / 64 \<le> \<bar>2 * pi * a\<bar>" "\<bar>2 * pi * a\<bar> \<le> 1 / 27"
proof -
  have a: "0 < a" using assms(1) by simp
  then show "2 * pi * a \<noteq> 0" by simp
  have e: "\<bar>2 * pi * a\<bar> = 2 * pi * a" using a by simp
  have "4 * a \<le> 2 * pi * a" using a pi_ge_two by simp
  then show "1 / 64 \<le> \<bar>2 * pi * a\<bar>" unfolding e using assms(1) by linarith
  have "2 * pi * a \<le> 8 * a" using a pi_less_4 by simp
  then show "\<bar>2 * pi * a\<bar> \<le> 1 / 27" unfolding e using assms(2) by linarith
qed

lemma np_empty2_3: "np_empty2 u (Suc (Suc (Suc 0))) = [(u 0, u 1), (u 2, u 3), (u 4, u 5)]"
  by (simp add: np_empty2_def numeral_eq_Suc)

lemma FastSphere_kernel_two_2:
  fixes x cr :: real
  assumes x: "x \<noteq> 0" "\<bar>x\<bar> < 1" and c: "cr \<noteq> 0" and z1: "\<bar>x * cr\<bar> < 1"
  shows "FastSphere__mie_coefficients [a1, a2] [x, x] [complex_of_real cr, complex_of_real cr] (Suc (Suc 0))
       [r0, r1, r2] [u0, u1, u2] [v0, v1, v2] [w0, w1, w2] [y0, y1, y2] [p0, p1, p2] [s0, s1, s2] [q0, q1, q2]
     = FastSphere__mie_coefficients [a] [x] [complex_of_real cr] (Suc (Suc 0))
       [r0, r1, r2] [u0, u1, u2] [v0, v1, v2] [w0, w1, w2] [y0, y1, y2] [p0, p1, p2] [s0, s1, s2] [q0, q1, q2]"
proof -
  let ?c = "complex_of_real cr"
  let ?z = "complex_of_real x * ?c"
  let ?E1 = "2 / ?z - ?z / 2"
  let ?E0 = "1 / ?z - 1 / (2 / ?z - ?z / 2 + 1 / ?z)"
  have zn: "x * cr \<noteq> 0" using x(1) c by simp
  have z: "?z \<noteq> 0" using zn by simp
  have "complex_of_real (2 / (x * cr) - (x * cr) / 2 + 1 / (x * cr)) \<noteq> 0"
    using real_seed_denominator[OF zn z1] by (simp only: of_real_eq_0_iff) simp
  then have cz: "2 / ?z - ?z / 2 + 1 / ?z \<noteq> 0" by simp
  have core: "FastSphere_core [x] [?c] (Suc (Suc 0)) ([u0, u1, u2][Suc (Suc 0) := 0])
      = Returns ([?E0, ?E1, 0], [?E0, ?E1, 0], [?E0, ?E1, 0])"
    using FastSphere_core_2[OF z cz, of u0 u1] by simp
  have z1': "\<bar>cr * x\<bar> < 1" using z1 by (simp add: mult.commute)
  from layer_2[OF x(1) c z1', of ?E0 ?E1 v0 v1 w1 w2 y1 y2 q0 q1 q2]
  obtain S where lay: "FastSphere_layer [x, x] [?c, ?c] (Suc (Suc 0)) 1
      ([?E0, ?E1, 0], [v0, v1, v2][Suc (Suc 0) := 0], [w0, w1, w2][0 := \<i>], [y0, y1, y2][0 := \<i>],
       [q0, q1, q2], [?E0, ?E1, 0], [?E0, ?E1, 0]) = Returns S"
    by (auto simp: returns_iff)
  show ?thesis
    using kernel_second_layer_returns[OF core lay, of a1 a2 "[r0, r1, r2]" "[p0, p1, p2]" "[s0, s1, s2]" a]
    by simp
qed

lemma FastSphere_small_sphere:
  fixes a cr :: real
  assumes a: "1 / 256 \<le> a" "a \<le> 1 / 216" and c: "cr \<noteq> 0" "\<bar>cr\<bar> \<le> 2"
  shows "\<exists>A1 B1 A2 B2.
     FastSphere_mie_coefficients mem [a] [complex_of_real cr] [0] 1 1 = Returns [(0, 0), (A1, B1), (A2, B2)] \<and>
     FastSphere_mie_coefficients mem [a, a] [complex_of_real cr, complex_of_real cr] [0, 0] 1 1
       = Returns [(0, 0), (A1, B1), (A2, B2)] \<and>
     (cr\<^sup>2 \<noteq> 1 \<longrightarrow> A1 \<noteq> 0)"
proof -
  let ?x = "2 * pi * a"
  let ?c = "complex_of_real cr"
  note s = small_size_parameter[OF a]
  have x1: "\<bar>?x\<bar> < 1" using s(3) by simp
  have "\<bar>?x * cr\<bar> = \<bar>?x\<bar> * \<bar>cr\<bar>" by (simp add: abs_mult)
  also have "\<dots> \<le> \<bar>?x\<bar> * 2" using c(2) by (intro mult_left_mono) simp_all
  also have "\<dots> < 1" using s(3) by simp
  finally have z1: "\<bar>?x * cr\<bar> < 1" .
  have "cmod (complex_of_real ?x * ?c) = \<bar>?x * cr\<bar>" by (simp add: norm_mult abs_mult)
  then have xm: "cmod (complex_of_real ?x * ?c) < 3" using z1 by simp
  have sel: "FastSphere_wiscombe_yang [?x] [?c] = Returns 2"
    using selector_small[OF s(2,3) xm] .
  have sel2: "FastSphere_wiscombe_yang [?x, ?x] [?c, ?c] = Returns 2"
    unfolding selector_identical by (rule sel)
  have x0: "?x \<noteq> 0" using s(1) .
  from FastSphere_kernel_2[OF x0 x1 c(1) z1]
  obtain A1 B1 A2 B2 where
    k: "\<forall>a r0 r1 r2 u0 u1 u2 v0 v1 v2 w0 w1 w2 y0 y1 y2 p0 p1 p2 s0 s1 s2 q0 q1 q2.
      FastSphere__mie_coefficients [a] [?x] [?c] (Suc (Suc 0)) [r0, r1, r2]
       [u0, u1, u2] [v0, v1, v2] [w0, w1, w2] [y0, y1, y2] [p0, p1, p2] [s0, s1, s2] [q0, q1, q2]
      = Returns [(0, 0), (A1, B1), (A2, B2)]"
    and nz: "cr\<^sup>2 \<noteq> 1 \<longrightarrow> A1 \<noteq> 0"
    by (elim exE conjE) (rule that)
  have ker: "FastSphere__mie_coefficients [a] [?x] [?c] (Suc (Suc 0)) [r0, r1, r2]
       [u0, u1, u2] [v0, v1, v2] [w0, w1, w2] [y0, y1, y2] [p0, p1, p2] [s0, s1, s2] [q0, q1, q2]
      = Returns [(0, 0), (A1, B1), (A2, B2)]"
    for a r0 r1 r2 u0 u1 u2 v0 v1 v2 w0 w1 w2 y0 y1 y2 p0 p1 p2 s0 s1 s2 q0 q1 q2
    using k by (elim allE)
  have ker2: "FastSphere__mie_coefficients [a, a] [?x, ?x] [?c, ?c] (Suc (Suc 0)) [r0, r1, r2]
       [u0, u1, u2] [v0, v1, v2] [w0, w1, w2] [y0, y1, y2] [p0, p1, p2] [s0, s1, s2] [q0, q1, q2]
      = Returns [(0, 0), (A1, B1), (A2, B2)]"
    for r0 r1 r2 u0 u1 u2 v0 v1 v2 w0 w1 w2 y0 y1 y2 p0 p1 p2 s0 s1 s2 q0 q1 q2
    using FastSphere_kernel_two_2[OF x0 x1 c(1) z1, of a a r0 r1 r2 u0 u1 u2 v0 v1 v2 w0 w1 w2 y0 y1 y2
        p0 p1 p2 s0 s1 s2 q0 q1 q2 a] ker
    by simp
  have one: "FastSphere_mie_coefficients mem [a] [?c] [0] 1 1 = Returns [(0, 0), (A1, B1), (A2, B2)]"
    unfolding FastSphere_mie_coefficients_def
    by (simp add: py_div_def np_broadcast_def np_div_scalar_def Let_def sel ker np_empty_3 np_empty2_3
        numeral_2_eq_2 del: of_real_mult)
  have two: "FastSphere_mie_coefficients mem [a, a] [?c, ?c] [0, 0] 1 1 = Returns [(0, 0), (A1, B1), (A2, B2)]"
    unfolding FastSphere_mie_coefficients_def
    by (simp add: py_div_def np_broadcast_def np_div_scalar_def Let_def sel2 ker2 np_empty_3 np_empty2_3
        numeral_2_eq_2 del: of_real_mult)
  from one two nz show ?thesis by blast
qed

section \<open>Claims about the truncation selector\<close>

text \<open>
  C1.  The selector of FastSphere.py returns, for every non-empty size-parameter
  vector \<open>x\<close> and relative-index vector \<open>m\<close> of the same length, the order that the
  specification's algorithm computes: the Wiscombe rule on \<open>|x[-1]|\<close> with its
  boundaries at 8 and 4200, the products \<open>|x\<^sub>j m\<^sub>j|\<close> and \<open>|x\<^bsub>(j+1) mod L\<^esub> m\<^sub>j|\<close>, and the
  floor of the largest of them.  The selector of Sphere.py returns that order on
  one layer only.  On two or more layers it raises \<^verbatim>\<open>ValueError\<close> and returns no
  order: it hands the arrays themselves to the builtin \<^verbatim>\<open>max\<close>, where FastSphere.py
  writes \<^verbatim>\<open>xm.max()\<close> and \<^verbatim>\<open>xm_1.max()\<close>.  On \<open>x = [1, 2]\<close>, \<open>m = [1.5, 1.5]\<close> the
  algorithm gives 8, FastSphere.py returns 8 and Sphere.py raises.
\<close>

theorem wiscombe_yang_against_specification:
  assumes "x \<noteq> []" and "length m = length x"
  shows "FastSphere_wiscombe_yang x m = Returns (spec_select x m) \<and>
         (length x = 1 \<longrightarrow> Sphere_wiscombe_yang x m = Returns (spec_select x m)) \<and>
         (2 \<le> length x \<longrightarrow> Sphere_wiscombe_yang x m = Raises ValueError)"
  using assms FastSphere_wiscombe_yang_spec[of x m] Sphere_wiscombe_yang_spec[of x m]
    Sphere_wiscombe_yang_multilayer[of x m]
  by simp

theorem wiscombe_yang_against_specification_witness:
  "FastSphere_wiscombe_yang [1, 2] [3 / 2, 3 / 2] = Returns 8 \<and>
   spec_select [1, 2] [3 / 2, 3 / 2] = 8 \<and>
   Sphere_wiscombe_yang [1, 2] [3 / 2, 3 / 2] = Raises ValueError \<and>
   Sphere_wiscombe_yang [1] [3 / 2] = Returns 6 \<and>
   spec_select [1] [3 / 2] = 6"
  using wiscombe_yang_against_specification[of "[1, 2]" "[3 / 2, 3 / 2]"]
    wiscombe_yang_against_specification[of "[1]" "[3 / 2]"]
    FastSphere_wiscombe_yang_two FastSphere_wiscombe_yang_at_1
  by simp

text \<open>
  C6, as the specification states it, fails: the Wiscombe rule itself steps down
  where its middle branch \<open>xl + 4.05 xl\<^bsup>1/3\<^esup> + 2\<close> gives way to \<open>xl + 4 xl\<^bsup>1/3\<^esup> + 2\<close>.
  At \<open>x[-1] = 4200\<close> the order is 4267, at \<open>x[-1] = 4200.25\<close> it is 4266.
\<close>

theorem truncation_order_drops_at_4200:
  "FastSphere_wiscombe_yang [4200] [1] = Returns 4267 \<and>
   FastSphere_wiscombe_yang [16801 / 4] [1] = Returns 4266 \<and>
   Sphere_wiscombe_yang [4200] [1] = Returns 4267 \<and>
   Sphere_wiscombe_yang [16801 / 4] [1] = Returns 4266"
  by (simp add: FastSphere_wiscombe_yang_single Sphere_wiscombe_yang_single
      wiscombe_4200 wiscombe_4200_25 py_int_def)

text \<open>
  C6, amended.  With the other size parameters and the relative indices fixed, the
  order does not decrease when a non-negative outermost size parameter grows from
  \<open>t\<close> to \<open>t'\<close>, unless the step leaves the middle branch of the rule across 4200
  (\<open>8 < t \<le> 4200 < t'\<close>); in particular it does not decrease across the boundary
  at 8.  Across 4200 it decreases by at most one.  (Sphere.py: the same on a single
  layer.)
\<close>

theorem truncation_order_monotone_except_at_4200:
  assumes "0 \<le> t" and "t \<le> t'" and "length m = Suc (length xs)"
  shows "\<exists>N N'. FastSphere_wiscombe_yang (xs @ [t]) m = Returns N \<and>
           FastSphere_wiscombe_yang (xs @ [t']) m = Returns N' \<and>
           (xs = [] \<longrightarrow> Sphere_wiscombe_yang [t] m = Returns N \<and>
                        Sphere_wiscombe_yang [t'] m = Returns N') \<and>
           N \<le> N' + 1 \<and>
           (\<not> (8 < t \<and> t \<le> 4200 \<and> 4200 < t') \<longrightarrow> N \<le> N')"
proof -
  have l: "length m = length (xs @ [t])" "length m = length (xs @ [t'])"
    using assms(3) by simp_all
  have fs: "FastSphere_wiscombe_yang (xs @ [t]) m = Returns (spec_select (xs @ [t]) m)"
    "FastSphere_wiscombe_yang (xs @ [t']) m = Returns (spec_select (xs @ [t']) m)"
    using FastSphere_wiscombe_yang_spec[OF _ l(1)] FastSphere_wiscombe_yang_spec[OF _ l(2)]
    by simp_all
  have sp: "Sphere_wiscombe_yang [t] m = Returns (spec_select (xs @ [t]) m) \<and>
            Sphere_wiscombe_yang [t'] m = Returns (spec_select (xs @ [t']) m)" if "xs = []"
    using that assms(3) Sphere_wiscombe_yang_spec[of "[t]" m] Sphere_wiscombe_yang_spec[of "[t']" m]
    by simp
  show ?thesis
    using fs sp spec_select_drop[OF assms(1,2), of xs m] spec_select_mono[OF assms(1,2), of xs m]
    by (intro exI[of _ "spec_select (xs @ [t]) m"] exI[of _ "spec_select (xs @ [t']) m"]) simp
qed

theorem truncation_order_monotone_except_at_4200_witness:
  "(0::real) \<le> 1 \<and> (1::real) \<le> 2 \<and> length [3 / 2 :: complex] = Suc (length ([] :: real list)) \<and>
   FastSphere_wiscombe_yang ([] @ [1]) [3 / 2] = Returns 6 \<and>
   FastSphere_wiscombe_yang ([] @ [2]) [3 / 2] = Returns 8 \<and>
   (\<exists>N N'. FastSphere_wiscombe_yang ([] @ [1]) [3 / 2] = Returns N \<and>
      FastSphere_wiscombe_yang ([] @ [2]) [3 / 2] = Returns N' \<and> N \<le> N')"
  using truncation_order_monotone_except_at_4200[of 1 2 "[3 / 2]" "[]"]
    FastSphere_wiscombe_yang_at_1 FastSphere_wiscombe_yang_at_2
  by simp

text \<open>
  C7.  Whenever \<open>x\<close> is non-empty and \<open>m\<close> has its length, the selector of
  FastSphere.py returns an order of at least one: the Wiscombe term alone is at
  least one for every \<open>|x[-1]| \<ge> 0\<close>, so the claim's condition \<open>|x[-1]| > 0\<close> is not
  needed.  The selector of Sphere.py does so on one layer.  On two or more layers it
  returns no order at all: it raises \<^verbatim>\<open>ValueError\<close>, also where \<open>|x[-1]| > 0\<close>, as
  on \<open>x = [1, 2]\<close>, \<open>m = [1.5, 1.5]\<close>.
\<close>

theorem truncation_order_at_least_one:
  assumes "x \<noteq> []" and "length m = length x"
  shows "(\<exists>N. FastSphere_wiscombe_yang x m = Returns N \<and> 1 \<le> N) \<and>
         (length x = 1 \<longrightarrow> (\<exists>N. Sphere_wiscombe_yang x m = Returns N \<and> 1 \<le> N)) \<and>
         (2 \<le> length x \<longrightarrow> Sphere_wiscombe_yang x m = Raises ValueError \<and>
                               \<not> returns (Sphere_wiscombe_yang x m))"
  using assms FastSphere_wiscombe_yang_spec[of x m] Sphere_wiscombe_yang_spec[of x m]
    spec_select_ge_1[of x m] Sphere_wiscombe_yang_multilayer[of x m]
  by simp

theorem truncation_order_at_least_one_witness:
  "[1, 2 :: real] \<noteq> [] \<and> length [3 / 2, 3 / 2 :: complex] = length [1, 2 :: real] \<and>
   0 < \<bar>last [1, 2 :: real]\<bar> \<and>
   (\<exists>N. FastSphere_wiscombe_yang [1, 2] [3 / 2, 3 / 2] = Returns N \<and> 1 \<le> N) \<and>
   Sphere_wiscombe_yang [1, 2] [3 / 2, 3 / 2] = Raises ValueError \<and>
   \<not> returns (Sphere_wiscombe_yang [1, 2] [3 / 2, 3 / 2]) \<and>
   (\<exists>N. Sphere_wiscombe_yang [1] [3 / 2] = Returns N \<and> 1 \<le> N)"
  using truncation_order_at_least_one[of "[1, 2]" "[3 / 2, 3 / 2]"]
    truncation_order_at_least_one[of "[1]" "[3 / 2]"]
  by simp

section \<open>Claims about the coefficient recursion\<close>

text \<open>
  C2.  Whatever table either module returns, it has a row 0 and that row is
  \<open>(0, 0)\<close>, whatever the table held when \<^verbatim>\<open>np.empty\<close> handed it out: the last
  statement \<^verbatim>\<open>ab[0, :] = complex(0., 0.)\<close> overwrites what Eqs. (5) and (6) stored
  there.  This holds for any layer count, indices and wavelength, and it holds of
  the shared last phase and of the compiled kernel on any table \<open>ab0\<close> they are given.
\<close>

theorem monopole_row_is_zero:
  "(FastSphere_mie_coefficients mem a_p n_p k_p n_m wavelength = Returns ab \<longrightarrow>
      ab \<noteq> [] \<and> ab ! 0 = (0, 0)) \<and>
   (Sphere_mie_coefficients mem a_p n_p n_m wavelength = Returns ab' \<longrightarrow>
      ab' \<noteq> [] \<and> ab' ! 0 = (0, 0)) \<and>
   (FastSphere__mie_coefficients a_p x m nmax ab0 d1_z1 d1_z2 d3_z1 d3_z2 psi zeta q = Returns abk \<longrightarrow>
      length abk = length ab0 \<and> (ab0 \<noteq> [] \<longrightarrow> abk ! 0 = (0, 0))) \<and>
   (scattering_coefficients lstx lstm x m nmax ha hb psi zeta ab0 = Returns tb \<longrightarrow>
      length tb = length ab0 \<and> (ab0 \<noteq> [] \<longrightarrow> tb ! 0 = (0, 0)))"
  using FastSphere_table_shape[of mem a_p n_p k_p n_m wavelength ab]
    Sphere_table_shape[of mem a_p n_p n_m wavelength ab']
    FastSphere_kernel_shape[of a_p x m nmax ab0 d1_z1 d1_z2 d3_z1 d3_z2 psi zeta q abk]
    scattering_coefficients_shape[of lstx lstm x m nmax ha hb psi zeta ab0 tb]
  by blast

theorem monopole_row_is_zero_witness:
  "np_empty2 (used_memory 0) (Suc (Suc 0)) = [(\<i>, 1 + \<i>), (2 + \<i>, 3 + \<i>)] \<and>
   FastSphere_mie_coefficients used_memory [1 / 1000] [3 / 2] [0] 1 1 = Returns [(0, 0), (0, 0)] \<and>
   [(0, 0), (0, 0)] \<noteq> ([] :: table) \<and> [(0, 0), (0, 0)] ! 0 = ((0, 0) :: complex \<times> complex) \<and>
   (\<exists>A B. Sphere_mie_coefficients used_memory [1 / 1000] [3 / 2] 1 1 = Returns [(0, 0), (A, B)] \<and>
      [(0, 0), (A, B)] ! 0 = (0, 0)) \<and>
   FastSphere__mie_coefficients [1 / 1000] [1 / 2] [3 / 2] 1 [(\<i>, 1 + \<i>), (2 + \<i>, 3 + \<i>)]
       [1, 2] [3, 4] [5, 6] [7, 8] [9, 10] [11, 12] [13, 14] = Returns [(0, 0), (0, 0)]"
proof -
  have m: "np_empty2 (used_memory 0) (Suc (Suc 0)) = [(\<i>, 1 + \<i>), (2 + \<i>, 3 + \<i>)]"
    by (simp add: np_empty2_2 used_memory_def)
  have f: "FastSphere_mie_coefficients used_memory [1 / 1000] [3 / 2] [0] 1 1 = Returns [(0, 0), (0, 0)]"
    using FastSphere_tiny_sphere[of "1 / 1000" "3 / 2" used_memory] by simp
  obtain A B where s: "Sphere_mie_coefficients used_memory [1 / 1000] [3 / 2] 1 1 = Returns [(0, 0), (A, B)]"
    using Sphere_tiny_sphere[of "1 / 1000" "3 / 2" used_memory] by auto
  have "exp (2 * \<i> * complex_of_real (1 / 2)) \<noteq> 1"
    by (rule exp_2ix_not_1) simp_all
  then have k: "FastSphere__mie_coefficients [1 / 1000] [1 / 2] [3 / 2] 1 [(\<i>, 1 + \<i>), (2 + \<i>, 3 + \<i>)]
       [1, 2] [3, 4] [5, 6] [7, 8] [9, 10] [11, 12] [13, 14] = Returns [(0, 0), (0, 0)]"
    using FastSphere_kernel_1[of "1 / 2" "3 / 2" "1 / 1000" "(\<i>, 1 + \<i>)" "(2 + \<i>, 3 + \<i>)"
        1 2 3 4 5 6 7 8 9 10 11 12 13 14]
    by simp
  show ?thesis
    using m f s k
      monopole_row_is_zero[of used_memory "[1 / 1000]" "[3 / 2]" "[0]" 1 1 "[(0, 0), (0, 0)]" "[(0, 0), (A, B)]"]
    by auto
qed






text \<open>
  C5.  In FastSphere.py a sphere of two layers with the same radius and the same
  index gives the table of the sphere of one layer: whenever the run on
  \<open>a_p = [r, r]\<close>, \<open>n_p = [n, n]\<close>, \<open>k_p = [\<kappa>, \<kappa>]\<close> returns a table, the run on \<open>[r]\<close>,
  \<open>[n]\<close>, \<open>[\<kappa>]\<close> returns that table (in exact arithmetic).  The selector gives the
  same order, the recurrence of the second layer runs at \<open>z1 = z2\<close> and reproduces
  \<open>D1\<close>, \<open>g1\<close> of Eqs. (12) and (14) vanishes, and Eqs. (7b) and (8b) leave \<open>ha\<close> and
  \<open>hb\<close> as they were.  The second layer has divisions of its own, in Eqs. (18d),
  (19a), (19b), (7b) and (8b), and the statement is about the runs in which none
  of them divides by zero.  For radii between \<open>1/256\<close> and \<open>1/216\<close>, wavelength one,
  a medium of index one and a real index of modulus at most two, none does: the
  order is two and both runs return the same table of three rows.

  Sphere.py does not get that far: on every input of two layers its selector raises
  \<^verbatim>\<open>ValueError\<close> and no table is returned, as on \<open>a_p = [0.001, 0.001]\<close>,
  \<open>n_p = [1.5, 1.5]\<close>, \<open>n_m = 1\<close>, \<open>wavelength = 1\<close>, where the sphere of one layer does
  get its table.
\<close>

theorem identical_layers_collapse:
  "(FastSphere_mie_coefficients mem [r, r] [n, n] [\<kappa>, \<kappa>] n_m wavelength = Returns ab \<longrightarrow>
      FastSphere_mie_coefficients mem [r] [n] [\<kappa>] n_m wavelength = Returns ab) \<and>
   (1 / 256 \<le> a \<and> a \<le> 1 / 216 \<and> cr \<noteq> 0 \<and> \<bar>cr\<bar> \<le> 2 \<longrightarrow>
      (\<exists>tb. FastSphere_mie_coefficients mem [a, a] [complex_of_real cr, complex_of_real cr] [0, 0] 1 1
             = Returns tb \<and>
           FastSphere_mie_coefficients mem [a] [complex_of_real cr] [0] 1 1 = Returns tb \<and>
           length tb = 3)) \<and>
   \<not> returns (Sphere_mie_coefficients mem [r, r] [n, n] n_m wavelength) \<and>
   (n_m \<noteq> 0 \<and> wavelength \<noteq> 0 \<longrightarrow>
      Sphere_mie_coefficients mem [r, r] [n, n] n_m wavelength = Raises ValueError)"
proof (intro conjI impI)
  assume "FastSphere_mie_coefficients mem [r, r] [n, n] [\<kappa>, \<kappa>] n_m wavelength = Returns ab"
  then show "FastSphere_mie_coefficients mem [r] [n] [\<kappa>] n_m wavelength = Returns ab"
    by (rule entry_identical_layers)
next
  assume h: "1 / 256 \<le> a \<and> a \<le> 1 / 216 \<and> cr \<noteq> 0 \<and> \<bar>cr\<bar> \<le> 2"
  then obtain A1 B1 A2 B2 where
    "FastSphere_mie_coefficients mem [a] [complex_of_real cr] [0] 1 1 = Returns [(0, 0), (A1, B1), (A2, B2)]"
    "FastSphere_mie_coefficients mem [a, a] [complex_of_real cr, complex_of_real cr] [0, 0] 1 1
       = Returns [(0, 0), (A1, B1), (A2, B2)]"
    using FastSphere_small_sphere[of a cr mem] by auto
  then show "\<exists>tb. FastSphere_mie_coefficients mem [a, a] [complex_of_real cr, complex_of_real cr] [0, 0] 1 1
             = Returns tb \<and>
           FastSphere_mie_coefficients mem [a] [complex_of_real cr] [0] 1 1 = Returns tb \<and>
           length tb = 3"
    by (intro exI[of _ "[(0, 0), (A1, B1), (A2, B2)]"]) simp
next
  show "\<not> returns (Sphere_mie_coefficients mem [r, r] [n, n] n_m wavelength)"
    using Sphere_entry_returns[of mem "[r, r]" "[n, n]" n_m wavelength] by (auto simp: returns_iff)
next
  assume "n_m \<noteq> 0 \<and> wavelength \<noteq> 0"
  then show "Sphere_mie_coefficients mem [r, r] [n, n] n_m wavelength = Raises ValueError"
    using Sphere_entry_multilayer[of "[r, r]" n_m wavelength mem "[n, n]"] by simp
qed

theorem identical_layers_collapse_witness:
  "(\<exists>A1 B1 A2 B2.
      FastSphere_mie_coefficients used_memory [1 / 240, 1 / 240] [3 / 2, 3 / 2] [0, 0] 1 1
        = Returns [(0, 0), (A1, B1), (A2, B2)] \<and>
      FastSphere_mie_coefficients used_memory [1 / 240] [3 / 2] [0] 1 1
        = Returns [(0, 0), (A1, B1), (A2, B2)] \<and>
      A1 \<noteq> 0) \<and>
   FastSphere_mie_coefficients used_memory [1 / 1000, 1 / 1000] [3 / 2, 3 / 2] [0, 0] 1 1
     = Returns [(0, 0), (0, 0)] \<and>
   FastSphere_mie_coefficients used_memory [1 / 1000] [3 / 2] [0] 1 1 = Returns [(0, 0), (0, 0)] \<and>
   Sphere_mie_coefficients used_memory [1 / 1000, 1 / 1000] [3 / 2, 3 / 2] 1 1 = Raises ValueError \<and>
   \<not> returns (Sphere_mie_coefficients used_memory [1 / 240, 1 / 240] [3 / 2, 3 / 2] 1 1) \<and>
   (\<exists>A B. Sphere_mie_coefficients used_memory [1 / 1000] [3 / 2] 1 1 = Returns [(0, 0), (A, B)])"
proof -
  obtain A1 B1 A2 B2 where
    big: "FastSphere_mie_coefficients used_memory [1 / 240, 1 / 240] [3 / 2, 3 / 2] [0, 0] 1 1
        = Returns [(0, 0), (A1, B1), (A2, B2)]"
    and nz: "A1 \<noteq> 0"
    using FastSphere_small_sphere[of "1 / 240" "3 / 2" used_memory] by (auto simp: power2_eq_square)
  have big1: "FastSphere_mie_coefficients used_memory [1 / 240] [3 / 2] [0] 1 1
        = Returns [(0, 0), (A1, B1), (A2, B2)]"
    using big identical_layers_collapse[of used_memory "1 / 240" "3 / 2" 0 1 1 "[(0, 0), (A1, B1), (A2, B2)]" "1 / 240" "3 / 2"]
    by simp
  have two: "FastSphere_mie_coefficients used_memory [1 / 1000, 1 / 1000] [3 / 2, 3 / 2] [0, 0] 1 1
      = Returns [(0, 0), (0, 0)]"
    using FastSphere_tiny_two_layers[of "1 / 1000" "3 / 2" used_memory] by simp
  have one: "\<exists>A B. Sphere_mie_coefficients used_memory [1 / 1000] [3 / 2] 1 1 = Returns [(0, 0), (A, B)]"
    using Sphere_tiny_sphere[of "1 / 1000" "3 / 2" used_memory] by auto
  have first: "\<exists>A1 B1 A2 B2.
      FastSphere_mie_coefficients used_memory [1 / 240, 1 / 240] [3 / 2, 3 / 2] [0, 0] 1 1
        = Returns [(0, 0), (A1, B1), (A2, B2)] \<and>
      FastSphere_mie_coefficients used_memory [1 / 240] [3 / 2] [0] 1 1
        = Returns [(0, 0), (A1, B1), (A2, B2)] \<and>
      A1 \<noteq> 0"
    using big big1 nz by blast
  show ?thesis
    using first two one
      identical_layers_collapse[of used_memory "1 / 1000" "3 / 2" 0 1 1 "[(0, 0), (0, 0)]" "1 / 240" "3 / 2"]
      identical_layers_collapse[of used_memory "1 / 240" "3 / 2" 0 1 1 "[(0, 0), (0, 0)]" "1 / 240" "3 / 2"]
    by simp
qed

section \<open>Claims about the entry points\<close>

text \<open>
  C8, as the specification states it, fails: neither entry point checks its
  arguments.  A negative radius and a negative wavelength go through and a table
  comes back, and FastSphere.py also takes one radius with two indices (NumPy
  stretches the array of one element).
\<close>

theorem malformed_input_is_accepted:
  "FastSphere_mie_coefficients used_memory [- (1 / 1000)] [3 / 2] [0] 1 1 = Returns [(0, 0), (0, 0)] \<and>
   returns (Sphere_mie_coefficients used_memory [- (1 / 1000)] [3 / 2] 1 1) \<and>
   FastSphere_mie_coefficients used_memory [1 / 1000] [3 / 2] [0] 1 (- 1) = Returns [(0, 0), (0, 0)] \<and>
   returns (Sphere_mie_coefficients used_memory [1 / 1000] [3 / 2] 1 (- 1)) \<and>
   FastSphere_mie_coefficients used_memory [1 / 1000] [3 / 2, 3 / 2] [0] 1 1 = Returns [(0, 0), (0, 0)]"
proof -
  have f: "FastSphere_mie_coefficients used_memory [- (1 / 1000)] [3 / 2] [0] 1 1 = Returns [(0, 0), (0, 0)]"
    using FastSphere_tiny_sphere[of "- (1 / 1000)" "3 / 2" used_memory] by simp
  have f': "FastSphere_mie_coefficients used_memory [1 / 1000] [3 / 2] [0] 1 1 = Returns [(0, 0), (0, 0)]"
    using FastSphere_tiny_sphere[of "1 / 1000" "3 / 2" used_memory] by simp
  have s: "returns (Sphere_mie_coefficients used_memory [- (1 / 1000)] [3 / 2] 1 1)"
    using Sphere_tiny_sphere[of "- (1 / 1000)" "3 / 2" used_memory] by (auto simp: returns_iff)
  show ?thesis
    using f f' s
    by (simp add: negative_wavelength_FastSphere negative_wavelength_Sphere FastSphere_mismatched_lengths)
qed

text \<open>
  C8, amended.  What the entry points refuse is what their first statements happen
  to refuse.  A zero wavelength raises \<^verbatim>\<open>ZeroDivisionError\<close> in the division that
  computes the wave number.  An empty layer list raises in the truncation selector,
  \<^verbatim>\<open>IndexError\<close> at \<^verbatim>\<open>x[-1]\<close> in Sphere.py and \<^verbatim>\<open>ValueError\<close> at the reduction of an
  empty array in FastSphere.py (for a medium index other than zero, so that the
  relative indices exist).  Both happen before the recursion, and no table is
  produced.  The sign of a radius or of the wavelength is not looked at.
\<close>

theorem what_the_entry_points_reject:
  "FastSphere_mie_coefficients mem a_p n_p k_p n_m 0 = Raises ZeroDivisionError \<and>
   Sphere_mie_coefficients mem a_p n_p n_m 0 = Raises ZeroDivisionError \<and>
   Sphere_wiscombe_yang [] m = Raises IndexError \<and>
   FastSphere_wiscombe_yang [] m = Raises ValueError \<and>
   (n_m \<noteq> 0 \<longrightarrow> raises (FastSphere_mie_coefficients mem [] n_p k_p n_m wavelength) \<and>
                raises (Sphere_mie_coefficients mem [] n_p n_m wavelength))"
  using zero_wavelength(1)[of mem a_p n_p k_p n_m] zero_wavelength(2)[of mem a_p n_p n_m] selector_empty[of m]
    FastSphere_entry_empty[of n_m mem n_p k_p wavelength] Sphere_entry_raises[of n_m "[]" n_p mem wavelength]
  by simp

theorem what_the_entry_points_reject_witness:
  "(1 :: complex) \<noteq> 0 \<and>
   raises (FastSphere_mie_coefficients used_memory [] [] [] 1 1) \<and>
   raises (Sphere_mie_coefficients used_memory [] [] 1 1) \<and>
   FastSphere_mie_coefficients used_memory [1] [3 / 2] [0] 1 0 = Raises ZeroDivisionError"
  using what_the_entry_points_reject[of used_memory "[1]" "[3 / 2]" "[0]" 1 "[]" 1]
    what_the_entry_points_reject[of used_memory "[]" "[]" "[]" 1 "[]" 1]
  by simp

text \<open>
  C10.  The selector of Sphere.py raises \<^verbatim>\<open>ValueError\<close> on every input of two or more
  layers, returns only on inputs of one layer, and does return on one layer with
  one index; \<^verbatim>\<open>mie_coefficients\<close> of Sphere.py, which calls it first, therefore never
  returns a table for two or more layers, and raises that \<^verbatim>\<open>ValueError\<close> whenever the
  medium index and the wavelength are not zero.  The selector of FastSphere.py
  returns on every non-empty input whose indices match the radii in number.
\<close>

theorem Sphere_selector_fails_on_multilayer:
  "(2 \<le> length x \<longrightarrow> Sphere_wiscombe_yang x m = Raises ValueError) \<and>
   (Sphere_wiscombe_yang x m = Returns N \<longrightarrow> length x = 1) \<and>
   (length x = 1 \<and> length m = 1 \<longrightarrow> returns (Sphere_wiscombe_yang x m)) \<and>
   (2 \<le> length a_p \<longrightarrow> \<not> returns (Sphere_mie_coefficients mem a_p n_p n_m wavelength)) \<and>
   (2 \<le> length a_p \<and> n_m \<noteq> 0 \<and> wavelength \<noteq> 0 \<longrightarrow>
      Sphere_mie_coefficients mem a_p n_p n_m wavelength = Raises ValueError) \<and>
   (x \<noteq> [] \<and> length m = length x \<longrightarrow> returns (FastSphere_wiscombe_yang x m))"
proof (intro conjI impI)
  assume "2 \<le> length x"
  then show "Sphere_wiscombe_yang x m = Raises ValueError"
    by (rule Sphere_wiscombe_yang_multilayer)
next
  assume "Sphere_wiscombe_yang x m = Returns N"
  then show "length x = 1" by (rule Sphere_wiscombe_yang_returns_single)
next
  assume "length x = 1 \<and> length m = 1"
  then show "returns (Sphere_wiscombe_yang x m)"
    using Sphere_wiscombe_yang_spec[of x m] by simp
next
  assume "2 \<le> length a_p"
  then have "length a_p \<noteq> 1" by simp
  then show "\<not> returns (Sphere_mie_coefficients mem a_p n_p n_m wavelength)"
    using Sphere_entry_returns[of mem a_p n_p n_m wavelength] by (auto simp: returns_iff)
next
  assume "2 \<le> length a_p \<and> n_m \<noteq> 0 \<and> wavelength \<noteq> 0"
  then show "Sphere_mie_coefficients mem a_p n_p n_m wavelength = Raises ValueError"
    using Sphere_entry_multilayer[of a_p n_m wavelength mem n_p] by simp
next
  assume "x \<noteq> [] \<and> length m = length x"
  then show "returns (FastSphere_wiscombe_yang x m)"
    using FastSphere_wiscombe_yang_spec[of x m] by simp
qed

theorem Sphere_selector_fails_on_multilayer_witness:
  "Sphere_wiscombe_yang [1, 2] [3 / 2, 3 / 2] = Raises ValueError \<and>
   Sphere_wiscombe_yang [1] [3 / 2] = Returns 6 \<and>
   Sphere_mie_coefficients used_memory [1 / 2, 3 / 4] [3 / 2, 3 / 2] (1339 / 1000) (447 / 1000) = Raises ValueError \<and>
   \<not> returns (Sphere_mie_coefficients used_memory [1 / 2, 3 / 4] [3 / 2, 3 / 2] (1339 / 1000) (447 / 1000)) \<and>
   FastSphere_wiscombe_yang [1, 2] [3 / 2, 3 / 2] = Returns 8"
  using Sphere_selector_fails_on_multilayer[of "[1, 2]" "[3 / 2, 3 / 2]" 0 "[1 / 2, 3 / 4]" used_memory "[3 / 2, 3 / 2]"
      "1339 / 1000" "447 / 1000"]
    Sphere_selector_fails_on_multilayer[of "[1]" "[3 / 2]" 6 "[1 / 2, 3 / 4]" used_memory "[3 / 2, 3 / 2]"
      "1339 / 1000" "447 / 1000"]
    FastSphere_wiscombe_yang_two FastSphere_wiscombe_yang_at_1
    Sphere_wiscombe_yang_single[of 1 "3 / 2"] FastSphere_wiscombe_yang_single[of 1 "3 / 2"]
  by simp

end
